theory Spec2Isabelle
  imports Main "HOL-Library.Word" "HOL-Library.Monad_Syntax" "HOL-Library.Sublist"
begin


unbundle bit_operations_syntax

section \<open>The Android IPC driver as a state-passing model\<close>

text \<open>
  Kernel objects live in an explicit store: one partial map per struct type, from addresses
  (natural numbers) to records. A pointer is an address, a nullable pointer an
  \<open>nat option\<close>. Every function of the driver takes the store and returns the updated
  store inside \<open>option\<close>: \<open>None\<close> stands for a call that does not return normally
  (\<open>BUG()\<close>, \<open>BUG_ON\<close>, the dereference of a pointer that is not in the store, or a
  sleep that nothing in a sequential run can end). Error returns of the C code
  (\<open>-EINVAL\<close>, \<open>NULL\<close>) are ordinary values.

  Spin locks and mutexes, trace points, debug printing and the statistics counters have no
  counterpart: the model is the sequential behaviour of one call at a time. A red-black tree
  is modelled by its in-order sequence of elements; \<open>rb_link_node\<close> followed by
  \<open>rb_insert_color\<close> is insertion at the position the search loop found, \<open>rb_erase\<close>
  is removal, \<open>rb_first\<close>/\<open>rb_next\<close> walk the sequence.
\<close>

subsection \<open>Scalars and constants of the user interface\<close>

type_synonym u8 = "8 word"
type_synonym u32 = "32 word"
type_synonym u64 = "64 word"

datatype errno = EPERM | ESRCH | EBADF | EAGAIN | ENOMEM | EFAULT | EBUSY | EINVAL
  | EMFILE | EPROTO | ENOSPC | EINTR | ERESTARTSYS

text \<open>An \<open>int\<close> return value that is \<open>0\<close> or a negated errno.\<close>

datatype ret = OK | ERR errno

text \<open>The \<open>BR_*\<close> return codes written to the read buffer and kept in \<open>binder_error.cmd\<close>.\<close>

datatype binder_return = BR_OK | BR_ERROR | BR_TRANSACTION | BR_REPLY | BR_DEAD_REPLY
  | BR_TRANSACTION_COMPLETE | BR_INCREFS | BR_ACQUIRE | BR_RELEASE | BR_DECREFS
  | BR_NOOP | BR_SPAWN_LOOPER | BR_DEAD_BINDER | BR_CLEAR_DEATH_NOTIFICATION_DONE
  | BR_FAILED_REPLY

definition TF_ONE_WAY :: u32 where "TF_ONE_WAY = 0x01"
definition TF_ACCEPT_FDS :: u32 where "TF_ACCEPT_FDS = 0x10"
definition FLAT_BINDER_FLAG_PRIORITY_MASK :: u32 where "FLAT_BINDER_FLAG_PRIORITY_MASK = 0xff"
definition FLAT_BINDER_FLAG_ACCEPTS_FDS :: u32 where "FLAT_BINDER_FLAG_ACCEPTS_FDS = 0x100"
definition BINDER_BUFFER_FLAG_HAS_PARENT :: u32 where "BINDER_BUFFER_FLAG_HAS_PARENT = 0x01"

definition BINDER_LOOPER_STATE_REGISTERED :: u32 where "BINDER_LOOPER_STATE_REGISTERED = 0x01"
definition BINDER_LOOPER_STATE_ENTERED :: u32 where "BINDER_LOOPER_STATE_ENTERED = 0x02"
definition BINDER_LOOPER_STATE_EXITED :: u32 where "BINDER_LOOPER_STATE_EXITED = 0x04"
definition BINDER_LOOPER_STATE_INVALID :: u32 where "BINDER_LOOPER_STATE_INVALID = 0x08"
definition BINDER_LOOPER_STATE_WAITING :: u32 where "BINDER_LOOPER_STATE_WAITING = 0x10"

subsection \<open>Work items and work lists\<close>

text \<open>
  A \<open>struct binder_work\<close> is embedded in the object it belongs to, and the code gets back to
  that object with \<open>container_of\<close>. The model names a work item by its container. A work
  list is named by the object that holds its head.
\<close>

datatype binder_work =
    W_transaction nat
  | W_tcomplete nat
  | W_return_error nat
  | W_reply_error nat
  | W_node nat
  | W_death nat

datatype work_list =
    L_thread_todo nat
  | L_proc_todo nat
  | L_delivered_death nat
  | L_async_todo nat

datatype binder_work_type =
    BINDER_WORK_TRANSACTION
  | BINDER_WORK_TRANSACTION_COMPLETE
  | BINDER_WORK_RETURN_ERROR
  | BINDER_WORK_NODE
  | BINDER_WORK_DEAD_BINDER
  | BINDER_WORK_DEAD_BINDER_AND_CLEAR
  | BINDER_WORK_CLEAR_DEATH_NOTIFICATION

subsection \<open>The structs\<close>

text \<open>
  Field names are those of the C structs; a name that several structs share carries the
  struct's name in front. The field \<open>*_work_entry\<close> is \<open>work.entry\<close>: the list the item is
  linked on, \<open>None\<close> when \<open>list_empty(&work->entry)\<close>.
\<close>

record binder_context =
  binder_context_mgr_node :: "nat option"
  binder_context_mgr_uid :: "nat option"

record binder_node =
  node_debug_id :: int
  node_work_entry :: "work_list option"
  node_proc :: "nat option"
  node_refs :: "nat list"
  internal_strong_refs :: int
  local_weak_refs :: int
  local_strong_refs :: int
  node_tmp_refs :: int
  node_ptr :: u64
  node_cookie :: u64
  has_strong_ref :: bool
  pending_strong_ref :: bool
  has_weak_ref :: bool
  pending_weak_ref :: bool
  accept_fds :: bool
  min_priority :: u8
  has_async_transaction :: bool
  async_todo :: "binder_work list"

record binder_ref_death =
  death_work_entry :: "work_list option"
  death_work_type :: "binder_work_type option"
  death_cookie :: u64

record binder_ref_data =
  data_debug_id :: int
  data_desc :: u32
  data_strong :: int
  data_weak :: int

record binder_ref =
  ref_data :: binder_ref_data
  ref_proc :: nat
  ref_node :: "nat option"
  ref_death :: "nat option"

text \<open>
  Modelled from the spec: \<open>struct binder_alloc\<close> and \<open>struct binder_buffer\<close> of the external
  buffer allocator (binder_alloc.c, binder_alloc.h). The allocator keeps the buffers it has
  handed out and the offset between a buffer's kernel address and its address in the
  process's mapping. A buffer carries the attributes the core reads and writes.
\<close>

record binder_alloc =
  alloc_buffers :: "nat list"
  user_buffer_offset :: u64
  alloc_vma :: bool

record binder_proc =
  proc_threads :: "nat list"
  proc_nodes :: "nat list"
  refs_by_desc :: "nat list"
  refs_by_node :: "nat list"
  proc_pid :: nat
  proc_files :: bool
  proc_fds :: "(u32 \<times> nat) list"
  proc_is_dead :: bool
  proc_todo :: "binder_work list"
  delivered_death :: "binder_work list"
  max_threads :: int
  requested_threads :: int
  requested_threads_started :: int
  ready_threads :: int
  proc_tmp_ref :: int
  default_priority :: int
  proc_alloc :: binder_alloc
  proc_context :: nat

record binder_thread =
  thread_proc :: nat
  thread_pid :: nat
  looper :: u32
  looper_need_return :: bool
  transaction_stack :: "nat option"
  thread_todo :: "binder_work list"
  return_error_entry :: "work_list option"
  return_error_cmd :: binder_return
  reply_error_entry :: "work_list option"
  reply_error_cmd :: binder_return
  thread_tmp_ref :: int
  thread_is_dead :: bool

record binder_transaction =
  t_debug_id :: int
  t_work_entry :: "work_list option"
  t_from :: "nat option"
  from_parent :: "nat option"
  to_proc :: "nat option"
  to_thread :: "nat option"
  to_parent :: "nat option"
  need_reply :: bool
  t_buffer :: "nat option"
  t_code :: u32
  t_flags :: u32
  t_priority :: int
  saved_priority :: int
  sender_euid :: nat

subsection \<open>Objects embedded in a transaction buffer\<close>

text \<open>
  The object structs of the user interface (\<open>uapi/linux/android/binder.h\<close>), 64-bit layout.
  \<open>flat_binder_object\<close> has a union of \<open>fbo_binder\<close> (the C field \<open>binder\<close>, 64 bits) and \<open>handle\<close> (32 bits),
  \<open>binder_fd_object\<close> a union of \<open>pad_binder\<close> and \<open>fd\<close>: the model keeps the 64-bit
  member and reads and writes the 32-bit member as its low half.
\<close>

datatype binder_type = BINDER_TYPE_BINDER | BINDER_TYPE_WEAK_BINDER | BINDER_TYPE_HANDLE
  | BINDER_TYPE_WEAK_HANDLE | BINDER_TYPE_FD | BINDER_TYPE_FDA | BINDER_TYPE_PTR
  | BINDER_TYPE_OTHER u32

record flat_binder_object =
  fbo_flags :: u32
  fbo_binder :: u64
  fbo_cookie :: u64

record binder_fd_object =
  pad_binder :: u64
  fdo_cookie :: u64

record binder_buffer_object =
  bbo_flags :: u32
  bbo_buffer :: u64
  bbo_length :: u64
  bbo_parent :: u64
  bbo_parent_offset :: u64

record binder_fd_array_object =
  num_fds :: u64
  fda_parent :: u64
  fda_parent_offset :: u64

text \<open>
  What is stored at an offset of the data area: the header's type and the bytes after it,
  read through each of the four structs.
\<close>

record binder_object =
  hdr_type :: binder_type
  as_flat :: flat_binder_object
  as_fd :: binder_fd_object
  as_ptr :: binder_buffer_object
  as_fda :: binder_fd_array_object

definition handle :: "flat_binder_object \<Rightarrow> u32" where
  "handle fp = ucast (fbo_binder fp)"

definition set_handle :: "u32 \<Rightarrow> flat_binder_object \<Rightarrow> flat_binder_object" where
  "set_handle h fp = fp\<lparr>fbo_binder := (fbo_binder fp AND NOT 0xffffffff) OR ucast h\<rparr>"

definition fd :: "binder_fd_object \<Rightarrow> u32" where
  "fd fp = ucast (pad_binder fp)"

definition set_fd :: "u32 \<Rightarrow> binder_fd_object \<Rightarrow> binder_fd_object" where
  "set_fd v fp = fp\<lparr>pad_binder := (pad_binder fp AND NOT 0xffffffff) OR ucast v\<rparr>"

record binder_buffer =
  allow_user_free :: bool
  async_transaction :: bool
  buffer_debug_id :: int
  buffer_transaction :: "nat option"
  target_node :: "nat option"
  data_size :: u64
  offsets_size :: u64
  extra_buffers_size :: u64
  data :: u64
  buffer_objects :: "u64 \<Rightarrow> binder_object"
  buffer_offsets :: "u64 list"
  buffer_sg :: "u64 \<Rightarrow> u8"

subsection \<open>The store\<close>

record binder_state =
  h_contexts :: "nat \<Rightarrow> binder_context option"
  h_procs :: "nat \<Rightarrow> binder_proc option"
  h_threads :: "nat \<Rightarrow> binder_thread option"
  h_nodes :: "nat \<Rightarrow> binder_node option"
  h_refs :: "nat \<Rightarrow> binder_ref option"
  h_deaths :: "nat \<Rightarrow> binder_ref_death option"
  h_transactions :: "nat \<Rightarrow> binder_transaction option"
  h_tcompletes :: "nat \<Rightarrow> work_list option option"
  h_buffers :: "nat \<Rightarrow> binder_buffer option"
  binder_procs :: "nat list"
  binder_dead_nodes :: "nat list"
  binder_last_id :: int
  binder_stop_on_user_error :: int
  user_error_log :: nat
  kzalloc_next :: nat
  kzalloc_oracle :: "bool list"
  task_nice :: "nat \<Rightarrow> int"

subsection \<open>Access to the store\<close>


definition proc_update ::
  "nat \<Rightarrow> (binder_proc \<Rightarrow> binder_proc) \<Rightarrow> binder_state \<Rightarrow> binder_state option" where
  "proc_update p f s =
     do { x \<leftarrow> h_procs s p; Some (s\<lparr>h_procs := (h_procs s)(p \<mapsto> f x)\<rparr>) }"

definition thread_update ::
  "nat \<Rightarrow> (binder_thread \<Rightarrow> binder_thread) \<Rightarrow> binder_state \<Rightarrow> binder_state option" where
  "thread_update t f s =
     do { x \<leftarrow> h_threads s t; Some (s\<lparr>h_threads := (h_threads s)(t \<mapsto> f x)\<rparr>) }"

definition node_update ::
  "nat \<Rightarrow> (binder_node \<Rightarrow> binder_node) \<Rightarrow> binder_state \<Rightarrow> binder_state option" where
  "node_update n f s =
     do { x \<leftarrow> h_nodes s n; Some (s\<lparr>h_nodes := (h_nodes s)(n \<mapsto> f x)\<rparr>) }"

definition ref_update ::
  "nat \<Rightarrow> (binder_ref \<Rightarrow> binder_ref) \<Rightarrow> binder_state \<Rightarrow> binder_state option" where
  "ref_update r f s =
     do { x \<leftarrow> h_refs s r; Some (s\<lparr>h_refs := (h_refs s)(r \<mapsto> f x)\<rparr>) }"

definition death_update ::
  "nat \<Rightarrow> (binder_ref_death \<Rightarrow> binder_ref_death) \<Rightarrow> binder_state \<Rightarrow> binder_state option" where
  "death_update d f s =
     do { x \<leftarrow> h_deaths s d; Some (s\<lparr>h_deaths := (h_deaths s)(d \<mapsto> f x)\<rparr>) }"

definition transaction_update ::
  "nat \<Rightarrow> (binder_transaction \<Rightarrow> binder_transaction) \<Rightarrow> binder_state \<Rightarrow> binder_state option" where
  "transaction_update t f s =
     do { x \<leftarrow> h_transactions s t; Some (s\<lparr>h_transactions := (h_transactions s)(t \<mapsto> f x)\<rparr>) }"

definition buffer_update ::
  "nat \<Rightarrow> (binder_buffer \<Rightarrow> binder_buffer) \<Rightarrow> binder_state \<Rightarrow> binder_state option" where
  "buffer_update b f s =
     do { x \<leftarrow> h_buffers s b; Some (s\<lparr>h_buffers := (h_buffers s)(b \<mapsto> f x)\<rparr>) }"

text \<open>
  \<open>kzalloc\<close>: the next address, or \<open>NULL\<close> when the oracle of the run says that this
  allocation fails. The caller stores the zeroed object.
\<close>

definition kzalloc :: "binder_state \<Rightarrow> nat option \<times> binder_state" where
  "kzalloc s =
     (case kzalloc_oracle s of
        [] \<Rightarrow> (Some (kzalloc_next s), s\<lparr>kzalloc_next := Suc (kzalloc_next s)\<rparr>)
      | ok # rest \<Rightarrow>
          if ok then (Some (kzalloc_next s),
                      s\<lparr>kzalloc_next := Suc (kzalloc_next s), kzalloc_oracle := rest\<rparr>)
          else (None, s\<lparr>kzalloc_oracle := rest\<rparr>))"

text \<open>
  The macro \<open>binder_user_error\<close>: the message is counted in \<open>user_error_log\<close>, and the
  latch \<open>binder_stop_on_user_error\<close> goes to 2 when it is armed.
\<close>

definition binder_user_error :: "binder_state \<Rightarrow> binder_state" where
  "binder_user_error s =
     s\<lparr>user_error_log := Suc (user_error_log s),
       binder_stop_on_user_error :=
         (if binder_stop_on_user_error s \<noteq> 0 then 2 else binder_stop_on_user_error s)\<rparr>"

subsection \<open>Work lists\<close>

definition get_list :: "binder_state \<Rightarrow> work_list \<Rightarrow> binder_work list option" where
  "get_list s l =
     (case l of
        L_thread_todo th \<Rightarrow> map_option thread_todo (h_threads s th)
      | L_proc_todo p \<Rightarrow> map_option proc_todo (h_procs s p)
      | L_delivered_death p \<Rightarrow> map_option delivered_death (h_procs s p)
      | L_async_todo n \<Rightarrow> map_option async_todo (h_nodes s n))"

definition set_list :: "work_list \<Rightarrow> binder_work list \<Rightarrow> binder_state \<Rightarrow> binder_state option" where
  "set_list l ws s =
     (case l of
        L_thread_todo th \<Rightarrow> thread_update th (\<lambda>x. x\<lparr>thread_todo := ws\<rparr>) s
      | L_proc_todo p \<Rightarrow> proc_update p (\<lambda>x. x\<lparr>proc_todo := ws\<rparr>) s
      | L_delivered_death p \<Rightarrow> proc_update p (\<lambda>x. x\<lparr>delivered_death := ws\<rparr>) s
      | L_async_todo n \<Rightarrow> node_update n (\<lambda>x. x\<lparr>async_todo := ws\<rparr>) s)"

definition work_entry :: "binder_state \<Rightarrow> binder_work \<Rightarrow> work_list option option" where
  "work_entry s w =
     (case w of
        W_transaction t \<Rightarrow> map_option t_work_entry (h_transactions s t)
      | W_tcomplete c \<Rightarrow> h_tcompletes s c
      | W_return_error th \<Rightarrow> map_option return_error_entry (h_threads s th)
      | W_reply_error th \<Rightarrow> map_option reply_error_entry (h_threads s th)
      | W_node n \<Rightarrow> map_option node_work_entry (h_nodes s n)
      | W_death d \<Rightarrow> map_option death_work_entry (h_deaths s d))"

definition set_work_entry ::
  "binder_work \<Rightarrow> work_list option \<Rightarrow> binder_state \<Rightarrow> binder_state option" where
  "set_work_entry w e s =
     (case w of
        W_transaction t \<Rightarrow> transaction_update t (\<lambda>x. x\<lparr>t_work_entry := e\<rparr>) s
      | W_tcomplete c \<Rightarrow>
          do { x \<leftarrow> h_tcompletes s c; Some (s\<lparr>h_tcompletes := (h_tcompletes s)(c \<mapsto> e)\<rparr>) }
      | W_return_error th \<Rightarrow> thread_update th (\<lambda>x. x\<lparr>return_error_entry := e\<rparr>) s
      | W_reply_error th \<Rightarrow> thread_update th (\<lambda>x. x\<lparr>reply_error_entry := e\<rparr>) s
      | W_node n \<Rightarrow> node_update n (\<lambda>x. x\<lparr>node_work_entry := e\<rparr>) s
      | W_death d \<Rightarrow> death_update d (\<lambda>x. x\<lparr>death_work_entry := e\<rparr>) s)"

definition binder_worklist_empty_ilocked :: "binder_state \<Rightarrow> work_list \<Rightarrow> bool option" where
  "binder_worklist_empty_ilocked s l = map_option (\<lambda>ws. ws = []) (get_list s l)"

definition binder_enqueue_work_ilocked ::
  "binder_work \<Rightarrow> work_list option \<Rightarrow> binder_state \<Rightarrow> binder_state option" where
  "binder_enqueue_work_ilocked work target_list s =
     (case target_list of
        None \<Rightarrow> None
      | Some l \<Rightarrow> do {
          e \<leftarrow> work_entry s work;
          if e \<noteq> None then None
          else do {
            ws \<leftarrow> get_list s l;
            s1 \<leftarrow> set_list l (ws @ [work]) s;
            set_work_entry work (Some l) s1 } })"

definition binder_dequeue_work_ilocked :: "binder_work \<Rightarrow> binder_state \<Rightarrow> binder_state option" where
  "binder_dequeue_work_ilocked work s = do {
     e \<leftarrow> work_entry s work;
     case e of
       None \<Rightarrow> Some s
     | Some l \<Rightarrow> do {
         ws \<leftarrow> get_list s l;
         s1 \<leftarrow> set_list l (remove1 work ws) s;
         set_work_entry work None s1 } }"

definition binder_dequeue_work_head_ilocked ::
  "work_list \<Rightarrow> binder_state \<Rightarrow> (binder_work option \<times> binder_state) option" where
  "binder_dequeue_work_head_ilocked l s = do {
     ws \<leftarrow> get_list s l;
     case ws of
       [] \<Rightarrow> Some (None, s)
     | w # rest \<Rightarrow> do {
         s1 \<leftarrow> set_list l rest s;
         s2 \<leftarrow> set_work_entry w None s1;
         Some (Some w, s2) } }"

subsection \<open>Nodes\<close>

text \<open>
  The command words of the write buffer (\<open>enum binder_driver_command_protocol\<close>); a word that
  is none of them is \<open>BC_OTHER\<close>.
\<close>

datatype binder_command = BC_TRANSACTION | BC_REPLY | BC_ACQUIRE_RESULT | BC_FREE_BUFFER
  | BC_INCREFS | BC_ACQUIRE | BC_RELEASE | BC_DECREFS | BC_INCREFS_DONE | BC_ACQUIRE_DONE
  | BC_ATTEMPT_ACQUIRE | BC_REGISTER_LOOPER | BC_ENTER_LOOPER | BC_EXIT_LOOPER
  | BC_REQUEST_DEATH_NOTIFICATION | BC_CLEAR_DEATH_NOTIFICATION | BC_DEAD_BINDER_DONE
  | BC_TRANSACTION_SG | BC_REPLY_SG | BC_OTHER u32

text \<open>
  \<open>struct binder_transaction_data\<close> of the user interface (64 bytes in the 64-bit layout);
  \<open>tr_target\<close> is the union of \<open>target.handle\<close> and \<open>target.ptr\<close>.
\<close>

record binder_transaction_data =
  tr_target :: u64
  tr_cookie :: u64
  tr_code :: u32
  tr_flags :: u32
  tr_sender_pid :: nat
  tr_sender_euid :: nat
  tr_data_size :: u64
  tr_offsets_size :: u64
  tr_data_buffer :: u64
  tr_data_offsets :: u64

text \<open>
  What the driver calls outside itself is a parameter of the run: the scheduler
  (\<open>can_nice\<close>, the \<open>RLIMIT_NICE\<close> floor \<open>rlimit_to_nice(rlim_cur)\<close>, \<open>MAX_NICE\<close>), the
  security hooks (a result below zero denies), the effective uid of the caller and of a
  task, the file table
  (\<open>fget\<close>, \<open>__alloc_fd\<close> for a task and the descriptors it has in use), the place the
  allocator finds for a buffer, the reads from and the writes to user memory, and the outcome
  of a wait. A task is named by its pid.

  User memory is read through the type the driver reads it as: \<open>get_user\<close> of a command word,
  of a 32-bit and of a 64-bit value, \<open>copy_from_user\<close> of a \<open>binder_transaction_data\<close> (64
  bytes) and of a \<open>binder_transaction_data_sg\<close> (72 bytes, the record and \<open>buffers_size\<close>), of
  the data area of a transaction (the object found at each offset), of its offsets array and
  of the bytes of a scatter-gather buffer (by index). \<open>None\<close> is a fault.
\<close>

record kernel_env =
  can_nice :: "nat \<Rightarrow> int \<Rightarrow> bool"
  min_nice :: "nat \<Rightarrow> int"
  MAX_NICE :: int
  current_euid :: nat
  task_euid :: "nat \<Rightarrow> nat"
  security_binder_set_context_mgr :: "nat \<Rightarrow> ret"
  security_binder_transaction :: "nat \<Rightarrow> nat \<Rightarrow> ret"
  security_binder_transfer_binder :: "nat \<Rightarrow> nat \<Rightarrow> ret"
  security_binder_transfer_file :: "nat \<Rightarrow> nat \<Rightarrow> nat \<Rightarrow> ret"
  fget :: "u32 \<Rightarrow> nat option"
  get_unused_fd :: "nat \<Rightarrow> u32 list \<Rightarrow> errno + u32"
  alloc_place :: "nat \<Rightarrow> u64 \<Rightarrow> u64 \<Rightarrow> u64 \<Rightarrow> bool \<Rightarrow> errno + u64"
  get_user_cmd :: "nat \<Rightarrow> binder_command option"
  get_user_u32 :: "nat \<Rightarrow> u32 option"
  get_user_u64 :: "nat \<Rightarrow> u64 option"
  copy_tr_from_user :: "nat \<Rightarrow> binder_transaction_data option"
  copy_tr_sg_from_user :: "nat \<Rightarrow> (binder_transaction_data \<times> u64) option"
  copy_objects_from_user :: "u64 \<Rightarrow> u64 \<Rightarrow> (u64 \<Rightarrow> binder_object) option"
  copy_offsets_from_user :: "u64 \<Rightarrow> u64 \<Rightarrow> u64 list option"
  copy_bytes_from_user :: "u64 \<Rightarrow> u64 \<Rightarrow> (u64 \<Rightarrow> u8) option"
  put_user_ok :: "nat \<Rightarrow> bool"
  signal_pending :: bool

text \<open>
  \<open>binder_set_nice\<close>. \<open>cur\<close> is the pid of \<open>current\<close>, and \<open>set_user_nice\<close> stores the
  value as the task's nice value.
\<close>

definition set_user_nice :: "nat \<Rightarrow> int \<Rightarrow> binder_state \<Rightarrow> binder_state" where
  "set_user_nice p nice s = s\<lparr>task_nice := (task_nice s)(p := nice)\<rparr>"

definition binder_set_nice :: "kernel_env \<Rightarrow> nat \<Rightarrow> int \<Rightarrow> binder_state \<Rightarrow> binder_state" where
  "binder_set_nice env cur nice s =
     (if can_nice env cur nice then set_user_nice cur nice s
      else
        let s1 = set_user_nice cur (min_nice env cur) s in
        if min_nice env cur \<le> MAX_NICE env then s1 else binder_user_error s1)"

fun find_node_by_ptr :: "binder_state \<Rightarrow> u64 \<Rightarrow> nat list \<Rightarrow> nat option option" where
  "find_node_by_ptr s p [] = Some None"
| "find_node_by_ptr s p (n # ns) =
     do { x \<leftarrow> h_nodes s n;
          if node_ptr x = p then Some (Some n) else find_node_by_ptr s p ns }"

fun insert_node_by_ptr :: "binder_state \<Rightarrow> u64 \<Rightarrow> nat \<Rightarrow> nat list \<Rightarrow> nat list option" where
  "insert_node_by_ptr s p new [] = Some [new]"
| "insert_node_by_ptr s p new (n # ns) =
     do { x \<leftarrow> h_nodes s n;
          if p < node_ptr x then Some (new # n # ns)
          else map_option (Cons n) (insert_node_by_ptr s p new ns) }"

definition binder_inc_node_tmpref_ilocked :: "nat \<Rightarrow> binder_state \<Rightarrow> binder_state option" where
  "binder_inc_node_tmpref_ilocked node s =
     node_update node (\<lambda>n. n\<lparr>node_tmp_refs := node_tmp_refs n + 1\<rparr>) s"

definition binder_inc_node_tmpref :: "nat \<Rightarrow> binder_state \<Rightarrow> binder_state option" where
  "binder_inc_node_tmpref node s = binder_inc_node_tmpref_ilocked node s"

definition binder_get_node ::
  "nat \<Rightarrow> u64 \<Rightarrow> binder_state \<Rightarrow> (nat option \<times> binder_state) option" where
  "binder_get_node proc p s = do {
     pr \<leftarrow> h_procs s proc;
     r \<leftarrow> find_node_by_ptr s p (proc_nodes pr);
     case r of
       None \<Rightarrow> Some (None, s)
     | Some node \<Rightarrow> do { s1 \<leftarrow> binder_inc_node_tmpref node s; Some (Some node, s1) } }"

text \<open>
  \<open>binder_new_node\<close>; \<open>fp\<close> is the flat object the node is made for, \<open>None\<close> for the
  context manager's node.
\<close>

definition binder_new_node ::
  "nat \<Rightarrow> flat_binder_object option \<Rightarrow> binder_state \<Rightarrow> (nat option \<times> binder_state) option" where
  "binder_new_node proc fp s = do {
     pr \<leftarrow> h_procs s proc;
     let p = (case fp of Some f \<Rightarrow> fbo_binder f | None \<Rightarrow> 0);
     let cookie = (case fp of Some f \<Rightarrow> fbo_cookie f | None \<Rightarrow> 0);
     let flags = (case fp of Some f \<Rightarrow> fbo_flags f | None \<Rightarrow> 0);
     r \<leftarrow> find_node_by_ptr s p (proc_nodes pr);
     if r \<noteq> None then Some (None, s)
     else
       case kzalloc s of
         (None, s1) \<Rightarrow> Some (None, s1)
       | (Some node, s1) \<Rightarrow> do {
           ns \<leftarrow> insert_node_by_ptr s1 p node (proc_nodes pr);
           let s2 = s1\<lparr>binder_last_id := binder_last_id s1 + 1\<rparr>;
           let n = \<lparr>node_debug_id = binder_last_id s2, node_work_entry = None,
                    node_proc = Some proc, node_refs = [], internal_strong_refs = 0,
                    local_weak_refs = 0, local_strong_refs = 0, node_tmp_refs = 1,
                    node_ptr = p, node_cookie = cookie,
                    has_strong_ref = False, pending_strong_ref = False,
                    has_weak_ref = False, pending_weak_ref = False,
                    accept_fds = (flags AND FLAT_BINDER_FLAG_ACCEPTS_FDS \<noteq> 0),
                    min_priority = ucast (flags AND FLAT_BINDER_FLAG_PRIORITY_MASK),
                    has_async_transaction = False, async_todo = []\<rparr>;
           s3 \<leftarrow> proc_update proc (\<lambda>x. x\<lparr>proc_nodes := ns\<rparr>) s2;
           Some (Some node, s3\<lparr>h_nodes := (h_nodes s3)(node \<mapsto> n)\<rparr>) } }"

definition binder_free_node :: "nat \<Rightarrow> binder_state \<Rightarrow> binder_state" where
  "binder_free_node node s = s\<lparr>h_nodes := (h_nodes s)(node := None)\<rparr>"

definition binder_inc_node_nilocked ::
  "nat \<Rightarrow> bool \<Rightarrow> bool \<Rightarrow> work_list option \<Rightarrow> binder_state \<Rightarrow> (ret \<times> binder_state) option" where
  "binder_inc_node_nilocked node strong internal target_list s = do {
     n \<leftarrow> h_nodes s node;
     if strong then do {
       r \<leftarrow> (if internal then do {
                invalid \<leftarrow>
                  (if target_list = None \<and> internal_strong_refs n = 0 then
                     (case node_proc n of
                        None \<Rightarrow> Some True
                      | Some p \<Rightarrow> do {
                          pr \<leftarrow> h_procs s p;
                          c \<leftarrow> h_contexts s (proc_context pr);
                          Some (\<not> (binder_context_mgr_node c = Some node \<and> has_strong_ref n)) })
                   else Some False);
                if invalid then Some (ERR EINVAL, s)
                else do {
                  s1 \<leftarrow> node_update node
                         (\<lambda>x. x\<lparr>internal_strong_refs := internal_strong_refs x + 1\<rparr>) s;
                  Some (OK, s1) } }
              else do {
                s1 \<leftarrow> node_update node (\<lambda>x. x\<lparr>local_strong_refs := local_strong_refs x + 1\<rparr>) s;
                Some (OK, s1) });
       case r of
         (ERR e, s1) \<Rightarrow> Some (ERR e, s1)
       | (OK, s1) \<Rightarrow>
           if \<not> has_strong_ref n \<and> target_list \<noteq> None then do {
             s2 \<leftarrow> binder_dequeue_work_ilocked (W_node node) s1;
             s3 \<leftarrow> binder_enqueue_work_ilocked (W_node node) target_list s2;
             Some (OK, s3) }
           else Some (OK, s1) }
     else do {
       s1 \<leftarrow> (if \<not> internal
              then node_update node (\<lambda>x. x\<lparr>local_weak_refs := local_weak_refs x + 1\<rparr>) s
              else Some s);
       if \<not> has_weak_ref n \<and> node_work_entry n = None then
         (if target_list = None then Some (ERR EINVAL, s1)
          else do {
            s2 \<leftarrow> binder_enqueue_work_ilocked (W_node node) target_list s1;
            Some (OK, s2) })
       else Some (OK, s1) } }"

definition binder_inc_node ::
  "nat \<Rightarrow> bool \<Rightarrow> bool \<Rightarrow> work_list option \<Rightarrow> binder_state \<Rightarrow> (ret \<times> binder_state) option" where
  "binder_inc_node node strong internal target_list s =
     binder_inc_node_nilocked node strong internal target_list s"

definition binder_dec_node_nilocked ::
  "nat \<Rightarrow> bool \<Rightarrow> bool \<Rightarrow> binder_state \<Rightarrow> (bool \<times> binder_state) option" where
  "binder_dec_node_nilocked node strong internal s = do {
     n0 \<leftarrow> h_nodes s node;
     s1 \<leftarrow> (if strong then
              (if internal
               then node_update node
                      (\<lambda>x. x\<lparr>internal_strong_refs := internal_strong_refs x - 1\<rparr>) s
               else node_update node (\<lambda>x. x\<lparr>local_strong_refs := local_strong_refs x - 1\<rparr>) s)
            else
              (if \<not> internal
               then node_update node (\<lambda>x. x\<lparr>local_weak_refs := local_weak_refs x - 1\<rparr>) s
               else Some s));
     n \<leftarrow> h_nodes s1 node;
     if (if strong then local_strong_refs n \<noteq> 0 \<or> internal_strong_refs n \<noteq> 0
         else local_weak_refs n \<noteq> 0 \<or> node_tmp_refs n \<noteq> 0 \<or> node_refs n \<noteq> [])
     then Some (False, s1)
     else if node_proc n0 \<noteq> None \<and> (has_strong_ref n \<or> has_weak_ref n) then
       (if node_work_entry n = None then do {
          s2 \<leftarrow> binder_enqueue_work_ilocked (W_node node)
                 (map_option L_proc_todo (node_proc n0)) s1;
          Some (False, s2) }
        else Some (False, s1))
     else if node_refs n = [] \<and> local_strong_refs n = 0 \<and> local_weak_refs n = 0
             \<and> node_tmp_refs n = 0 then
       (case node_proc n0 of
          Some p \<Rightarrow> do {
            s2 \<leftarrow> binder_dequeue_work_ilocked (W_node node) s1;
            s3 \<leftarrow> proc_update p (\<lambda>x. x\<lparr>proc_nodes := remove1 node (proc_nodes x)\<rparr>) s2;
            Some (True, s3) }
        | None \<Rightarrow>
            if node_work_entry n \<noteq> None then None
            else if node_tmp_refs n \<noteq> 0 then Some (False, s1)
            else Some (True, s1\<lparr>binder_dead_nodes := remove1 node (binder_dead_nodes s1)\<rparr>))
     else Some (False, s1) }"

definition binder_dec_node ::
  "nat \<Rightarrow> bool \<Rightarrow> bool \<Rightarrow> binder_state \<Rightarrow> binder_state option" where
  "binder_dec_node node strong internal s = do {
     (free_node, s1) \<leftarrow> binder_dec_node_nilocked node strong internal s;
     Some (if free_node then binder_free_node node s1 else s1) }"

definition binder_dec_node_tmpref :: "nat \<Rightarrow> binder_state \<Rightarrow> binder_state option" where
  "binder_dec_node_tmpref node s = do {
     s1 \<leftarrow> node_update node (\<lambda>x. x\<lparr>node_tmp_refs := node_tmp_refs x - 1\<rparr>) s;
     n \<leftarrow> h_nodes s1 node;
     if node_tmp_refs n < 0 then None
     else do {
       (free_node, s2) \<leftarrow> binder_dec_node_nilocked node False True s1;
       Some (if free_node then binder_free_node node s2 else s2) } }"

definition binder_put_node :: "nat \<Rightarrow> binder_state \<Rightarrow> binder_state option" where
  "binder_put_node node s = binder_dec_node_tmpref node s"

subsection \<open>References\<close>

fun find_ref_by_desc :: "binder_state \<Rightarrow> u32 \<Rightarrow> nat list \<Rightarrow> nat option option" where
  "find_ref_by_desc s d [] = Some None"
| "find_ref_by_desc s d (r # rs) =
     do { x \<leftarrow> h_refs s r;
          if data_desc (ref_data x) = d then Some (Some r) else find_ref_by_desc s d rs }"

definition binder_get_ref ::
  "nat \<Rightarrow> u32 \<Rightarrow> bool \<Rightarrow> binder_state \<Rightarrow> (nat option \<times> binder_state) option" where
  "binder_get_ref proc d need_strong_ref s = do {
     pr \<leftarrow> h_procs s proc;
     r \<leftarrow> find_ref_by_desc s d (refs_by_desc pr);
     case r of
       None \<Rightarrow> Some (None, s)
     | Some ref \<Rightarrow> do {
         x \<leftarrow> h_refs s ref;
         if need_strong_ref \<and> data_strong (ref_data x) = 0
         then Some (None, binder_user_error s)
         else Some (Some ref, s) } }"

fun find_ref_by_node :: "binder_state \<Rightarrow> nat \<Rightarrow> nat list \<Rightarrow> nat option option" where
  "find_ref_by_node s node [] = Some None"
| "find_ref_by_node s node (r # rs) =
     do { x \<leftarrow> h_refs s r;
          if ref_node x = Some node then Some (Some r) else find_ref_by_node s node rs }"

text \<open>The position in \<open>refs_by_node\<close>: addresses compare as numbers, \<open>NULL\<close> is the least.\<close>

definition node_key :: "nat option \<Rightarrow> nat" where
  "node_key n = (case n of None \<Rightarrow> 0 | Some a \<Rightarrow> Suc a)"

fun insert_ref_by_node :: "binder_state \<Rightarrow> nat \<Rightarrow> nat \<Rightarrow> nat list \<Rightarrow> nat list option" where
  "insert_ref_by_node s node new [] = Some [new]"
| "insert_ref_by_node s node new (r # rs) =
     do { x \<leftarrow> h_refs s r;
          if node_key (Some node) < node_key (ref_node x) then Some (new # r # rs)
          else map_option (Cons r) (insert_ref_by_node s node new rs) }"

text \<open>
  The loop that chooses the new handle: it walks \<open>refs_by_desc\<close> in increasing order and
  stops at the first reference whose handle is above the candidate.
\<close>

fun new_desc :: "binder_state \<Rightarrow> u32 \<Rightarrow> nat list \<Rightarrow> u32 option" where
  "new_desc s d [] = Some d"
| "new_desc s d (r # rs) =
     do { x \<leftarrow> h_refs s r;
          if data_desc (ref_data x) > d then Some d
          else new_desc s (data_desc (ref_data x) + 1) rs }"

text \<open>The second search loop of \<open>binder_get_ref_for_node\<close>; an equal handle is \<open>BUG()\<close>.\<close>

fun insert_ref_by_desc :: "binder_state \<Rightarrow> u32 \<Rightarrow> nat \<Rightarrow> nat list \<Rightarrow> nat list option" where
  "insert_ref_by_desc s d new [] = Some [new]"
| "insert_ref_by_desc s d new (r # rs) =
     do { x \<leftarrow> h_refs s r;
          if d < data_desc (ref_data x) then Some (new # r # rs)
          else if d > data_desc (ref_data x)
          then map_option (Cons r) (insert_ref_by_desc s d new rs)
          else None }"

definition binder_get_ref_for_node ::
  "nat \<Rightarrow> nat \<Rightarrow> nat option \<Rightarrow> binder_state \<Rightarrow> (nat option \<times> binder_state) option" where
  "binder_get_ref_for_node proc node new_ref s = do {
     pr \<leftarrow> h_procs s proc;
     c \<leftarrow> h_contexts s (proc_context pr);
     found \<leftarrow> find_ref_by_node s node (refs_by_node pr);
     case found of
       Some ref \<Rightarrow> Some (Some ref, s)
     | None \<Rightarrow>
        (case new_ref of
           None \<Rightarrow> Some (None, s)
         | Some new \<Rightarrow> do {
             let s1 = s\<lparr>binder_last_id := binder_last_id s + 1\<rparr>;
             s2 \<leftarrow> ref_update new
                    (\<lambda>x. x\<lparr>ref_data := (ref_data x)\<lparr>data_debug_id := binder_last_id s1\<rparr>,
                            ref_proc := proc, ref_node := Some node\<rparr>) s1;
             by_node \<leftarrow> insert_ref_by_node s2 node new (refs_by_node pr);
             s3 \<leftarrow> proc_update proc (\<lambda>x. x\<lparr>refs_by_node := by_node\<rparr>) s2;
             d \<leftarrow> new_desc s3 (if Some node = binder_context_mgr_node c then 0 else 1)
                    (refs_by_desc pr);
             s4 \<leftarrow> ref_update new (\<lambda>x. x\<lparr>ref_data := (ref_data x)\<lparr>data_desc := d\<rparr>\<rparr>) s3;
             by_desc \<leftarrow> insert_ref_by_desc s4 d new (refs_by_desc pr);
             s5 \<leftarrow> proc_update proc (\<lambda>x. x\<lparr>refs_by_desc := by_desc\<rparr>) s4;
             s6 \<leftarrow> node_update node (\<lambda>x. x\<lparr>node_refs := new # node_refs x\<rparr>) s5;
             Some (Some new, s6) }) }"

definition binder_cleanup_ref :: "nat \<Rightarrow> binder_state \<Rightarrow> binder_state option" where
  "binder_cleanup_ref ref s = do {
     r \<leftarrow> h_refs s ref;
     s1 \<leftarrow> proc_update (ref_proc r)
            (\<lambda>x. x\<lparr>refs_by_desc := remove1 ref (refs_by_desc x),
                    refs_by_node := remove1 ref (refs_by_node x)\<rparr>) s;
     node \<leftarrow> ref_node r;
     s2 \<leftarrow> (if data_strong (ref_data r) \<noteq> 0
            then map_option snd (binder_dec_node_nilocked node True True s1)
            else Some s1);
     s3 \<leftarrow> node_update node (\<lambda>x. x\<lparr>node_refs := remove1 ref (node_refs x)\<rparr>) s2;
     (delete_node, s4) \<leftarrow> binder_dec_node_nilocked node False True s3;
     s5 \<leftarrow> (if \<not> delete_node then ref_update ref (\<lambda>x. x\<lparr>ref_node := None\<rparr>) s4 else Some s4);
     case ref_death r of
       None \<Rightarrow> Some s5
     | Some death \<Rightarrow> binder_dequeue_work_ilocked (W_death death) s5 }"

definition binder_inc_ref ::
  "nat \<Rightarrow> bool \<Rightarrow> work_list option \<Rightarrow> binder_state \<Rightarrow> (ret \<times> binder_state) option" where
  "binder_inc_ref ref is_strong target_list s = do {
     r \<leftarrow> h_refs s ref;
     if is_strong then do {
       (rc, s1) \<leftarrow> (if data_strong (ref_data r) = 0
                    then do { node \<leftarrow> ref_node r; binder_inc_node node True True target_list s }
                    else Some (OK, s));
       case rc of
         ERR e \<Rightarrow> Some (ERR e, s1)
       | OK \<Rightarrow> do {
           s2 \<leftarrow> ref_update ref
                  (\<lambda>x. x\<lparr>ref_data := (ref_data x)\<lparr>data_strong := data_strong (ref_data x) + 1\<rparr>\<rparr>) s1;
           Some (OK, s2) } }
     else do {
       (rc, s1) \<leftarrow> (if data_weak (ref_data r) = 0
                    then do { node \<leftarrow> ref_node r; binder_inc_node node False True target_list s }
                    else Some (OK, s));
       case rc of
         ERR e \<Rightarrow> Some (ERR e, s1)
       | OK \<Rightarrow> do {
           s2 \<leftarrow> ref_update ref
                  (\<lambda>x. x\<lparr>ref_data := (ref_data x)\<lparr>data_weak := data_weak (ref_data x) + 1\<rparr>\<rparr>) s1;
           Some (OK, s2) } } }"

definition binder_dec_ref ::
  "nat \<Rightarrow> bool \<Rightarrow> binder_state \<Rightarrow> (bool \<times> binder_state) option" where
  "binder_dec_ref ref is_strong s = do {
     r \<leftarrow> h_refs s ref;
     if is_strong \<and> data_strong (ref_data r) = 0 then Some (False, binder_user_error s)
     else if \<not> is_strong \<and> data_weak (ref_data r) = 0 then Some (False, binder_user_error s)
     else do {
       s1 \<leftarrow> (if is_strong then do {
                s0 \<leftarrow> ref_update ref
                       (\<lambda>x. x\<lparr>ref_data := (ref_data x)\<lparr>data_strong := data_strong (ref_data x) - 1\<rparr>\<rparr>) s;
                r0 \<leftarrow> h_refs s0 ref;
                if data_strong (ref_data r0) = 0
                then do { node \<leftarrow> ref_node r0; binder_dec_node node is_strong True s0 }
                else Some s0 }
              else ref_update ref
                     (\<lambda>x. x\<lparr>ref_data := (ref_data x)\<lparr>data_weak := data_weak (ref_data x) - 1\<rparr>\<rparr>) s);
       r1 \<leftarrow> h_refs s1 ref;
       if data_strong (ref_data r1) = 0 \<and> data_weak (ref_data r1) = 0
       then do { s2 \<leftarrow> binder_cleanup_ref ref s1; Some (True, s2) }
       else Some (False, s1) } }"

definition binder_get_node_from_ref ::
  "nat \<Rightarrow> u32 \<Rightarrow> bool \<Rightarrow> binder_state
     \<Rightarrow> ((nat \<times> binder_ref_data) option \<times> binder_state) option" where
  "binder_get_node_from_ref proc d need_strong_ref s = do {
     (ref, s1) \<leftarrow> binder_get_ref proc d need_strong_ref s;
     case ref of
       None \<Rightarrow> Some (None, s1)
     | Some rf \<Rightarrow> do {
         r \<leftarrow> h_refs s1 rf;
         node \<leftarrow> ref_node r;
         s2 \<leftarrow> binder_inc_node_tmpref node s1;
         Some (Some (node, ref_data r), s2) } }"

definition binder_free_ref :: "nat \<Rightarrow> binder_state \<Rightarrow> binder_state option" where
  "binder_free_ref ref s = do {
     r \<leftarrow> h_refs s ref;
     let s1 = (case ref_node r of Some node \<Rightarrow> binder_free_node node s | None \<Rightarrow> s);
     let s2 = (case ref_death r of
                 Some d \<Rightarrow> s1\<lparr>h_deaths := (h_deaths s1)(d := None)\<rparr>
               | None \<Rightarrow> s1);
     Some (s2\<lparr>h_refs := (h_refs s2)(ref := None)\<rparr>) }"

text \<open>The out-parameter \<open>rdata\<close> is returned beside the result: \<open>None\<close> when it is not written.\<close>

definition binder_update_ref_for_handle ::
  "nat \<Rightarrow> u32 \<Rightarrow> bool \<Rightarrow> bool \<Rightarrow> binder_state
     \<Rightarrow> (ret \<times> binder_ref_data option \<times> binder_state) option" where
  "binder_update_ref_for_handle proc d increment is_strong s = do {
     (ref, s1) \<leftarrow> binder_get_ref proc d is_strong s;
     case ref of
       None \<Rightarrow> Some (ERR EINVAL, None, s1)
     | Some rf \<Rightarrow> do {
         (rc, delete_ref, s2) \<leftarrow>
           (if increment
            then do { (rc, s2) \<leftarrow> binder_inc_ref rf is_strong None s1; Some (rc, False, s2) }
            else do { (del, s2) \<leftarrow> binder_dec_ref rf is_strong s1; Some (OK, del, s2) });
         r \<leftarrow> h_refs s2 rf;
         s3 \<leftarrow> (if delete_ref then binder_free_ref rf s2 else Some s2);
         Some (rc, Some (ref_data r), s3) } }"

definition binder_dec_ref_for_handle ::
  "nat \<Rightarrow> u32 \<Rightarrow> bool \<Rightarrow> binder_state \<Rightarrow> (ret \<times> binder_ref_data option \<times> binder_state) option" where
  "binder_dec_ref_for_handle proc d is_strong s =
     binder_update_ref_for_handle proc d False is_strong s"

definition zero_ref :: binder_ref where
  "zero_ref = \<lparr>ref_data = \<lparr>data_debug_id = 0, data_desc = 0, data_strong = 0, data_weak = 0\<rparr>,
               ref_proc = 0, ref_node = None, ref_death = None\<rparr>"

definition binder_inc_ref_for_node ::
  "nat \<Rightarrow> nat \<Rightarrow> bool \<Rightarrow> work_list option \<Rightarrow> binder_state
     \<Rightarrow> (ret \<times> binder_ref_data option \<times> binder_state) option" where
  "binder_inc_ref_for_node proc node is_strong target_list s = do {
     (found, s1) \<leftarrow> binder_get_ref_for_node proc node None s;
     r \<leftarrow> (case found of
             Some ref \<Rightarrow> Some (Inr (ref, None, s1))
           | None \<Rightarrow>
              (case kzalloc s1 of
                 (None, s2) \<Rightarrow> Some (Inl s2)
               | (Some new, s2) \<Rightarrow> do {
                   (ref, s3) \<leftarrow> binder_get_ref_for_node proc node (Some new)
                                  (s2\<lparr>h_refs := (h_refs s2)(new \<mapsto> zero_ref)\<rparr>);
                   rf \<leftarrow> ref;
                   Some (Inr (rf, Some new, s3)) }));
     case r of
       Inl s2 \<Rightarrow> Some (ERR ENOMEM, None, s2)
     | Inr (ref, new_ref, s3) \<Rightarrow> do {
         (rc, s4) \<leftarrow> binder_inc_ref ref is_strong target_list s3;
         x \<leftarrow> h_refs s4 ref;
         let s5 = (case new_ref of
                     Some new \<Rightarrow> if ref \<noteq> new then s4\<lparr>h_refs := (h_refs s4)(new := None)\<rparr> else s4
                   | None \<Rightarrow> s4);
         Some (rc, Some (ref_data x), s5) } }"


subsection \<open>Transactions, threads and processes in use\<close>

definition binder_pop_transaction :: "nat \<Rightarrow> nat \<Rightarrow> binder_state \<Rightarrow> binder_state option" where
  "binder_pop_transaction target_thread t s = do {
     th \<leftarrow> h_threads s target_thread;
     if transaction_stack th \<noteq> Some t then None
     else do {
       tx \<leftarrow> h_transactions s t;
       if t_from tx \<noteq> Some target_thread then None
       else do {
         s1 \<leftarrow> thread_update target_thread (\<lambda>x. x\<lparr>transaction_stack := from_parent tx\<rparr>) s;
         transaction_update t (\<lambda>x. x\<lparr>t_from := None\<rparr>) s1 } } }"

text \<open>
  Modelled from the spec: \<open>binder_alloc_deferred_release\<close> of the external allocator, which
  gives back every buffer of the process.
\<close>

definition binder_alloc_deferred_release :: "nat \<Rightarrow> binder_state \<Rightarrow> binder_state option" where
  "binder_alloc_deferred_release proc s = do {
     pr \<leftarrow> h_procs s proc;
     let bs = alloc_buffers (proc_alloc pr);
     s1 \<leftarrow> proc_update proc (\<lambda>x. x\<lparr>proc_alloc := (proc_alloc x)\<lparr>alloc_buffers := []\<rparr>\<rparr>) s;
     Some (s1\<lparr>h_buffers := (\<lambda>b. if b \<in> set bs then None else h_buffers s1 b)\<rparr>) }"

definition binder_free_proc :: "nat \<Rightarrow> binder_state \<Rightarrow> binder_state option" where
  "binder_free_proc proc s = do {
     pr \<leftarrow> h_procs s proc;
     if proc_todo pr \<noteq> [] then None
     else if delivered_death pr \<noteq> [] then None
     else do {
       s1 \<leftarrow> binder_alloc_deferred_release proc s;
       Some (s1\<lparr>h_procs := (h_procs s1)(proc := None)\<rparr>) } }"

definition binder_proc_dec_tmpref :: "nat \<Rightarrow> binder_state \<Rightarrow> binder_state option" where
  "binder_proc_dec_tmpref proc s = do {
     s1 \<leftarrow> proc_update proc (\<lambda>x. x\<lparr>proc_tmp_ref := proc_tmp_ref x - 1\<rparr>) s;
     pr \<leftarrow> h_procs s1 proc;
     if proc_is_dead pr \<and> proc_threads pr = [] \<and> proc_tmp_ref pr = 0
     then binder_free_proc proc s1
     else Some s1 }"

definition binder_free_thread :: "nat \<Rightarrow> binder_state \<Rightarrow> binder_state option" where
  "binder_free_thread thread s = do {
     th \<leftarrow> h_threads s thread;
     if thread_todo th \<noteq> [] then None
     else do {
       s1 \<leftarrow> binder_proc_dec_tmpref (thread_proc th) s;
       Some (s1\<lparr>h_threads := (h_threads s1)(thread := None)\<rparr>) } }"

definition binder_thread_dec_tmpref :: "nat \<Rightarrow> binder_state \<Rightarrow> binder_state option" where
  "binder_thread_dec_tmpref thread s = do {
     s1 \<leftarrow> thread_update thread (\<lambda>x. x\<lparr>thread_tmp_ref := thread_tmp_ref x - 1\<rparr>) s;
     th \<leftarrow> h_threads s1 thread;
     if thread_is_dead th \<and> thread_tmp_ref th = 0
     then binder_free_thread thread s1
     else Some s1 }"

definition binder_get_txn_from ::
  "nat \<Rightarrow> binder_state \<Rightarrow> (nat option \<times> binder_state) option" where
  "binder_get_txn_from t s = do {
     tx \<leftarrow> h_transactions s t;
     case t_from tx of
       None \<Rightarrow> Some (None, s)
     | Some from \<Rightarrow> do {
         s1 \<leftarrow> thread_update from (\<lambda>x. x\<lparr>thread_tmp_ref := thread_tmp_ref x + 1\<rparr>) s;
         Some (Some from, s1) } }"

definition binder_free_transaction :: "nat \<Rightarrow> binder_state \<Rightarrow> binder_state option" where
  "binder_free_transaction t s = do {
     tx \<leftarrow> h_transactions s t;
     s1 \<leftarrow> (case t_buffer tx of
              Some b \<Rightarrow> buffer_update b (\<lambda>x. x\<lparr>buffer_transaction := None\<rparr>) s
            | None \<Rightarrow> Some s);
     Some (s1\<lparr>h_transactions := (h_transactions s1)(t := None)\<rparr>) }"

text \<open>The \<open>while (1)\<close> loop of \<open>binder_send_failed_reply\<close>.\<close>

partial_function (option) binder_send_failed_reply_loop ::
  "nat \<Rightarrow> binder_return \<Rightarrow> binder_state \<Rightarrow> binder_state option" where
  "binder_send_failed_reply_loop t error_code s = do {
     (target_thread, s1) \<leftarrow> binder_get_txn_from t s;
     case target_thread of
       Some th \<Rightarrow> do {
         s2 \<leftarrow> binder_pop_transaction th t s1;
         x \<leftarrow> h_threads s2 th;
         s3 \<leftarrow> (if reply_error_cmd x = BR_OK then do {
                  s' \<leftarrow> thread_update th (\<lambda>y. y\<lparr>reply_error_cmd := error_code\<rparr>) s2;
                  binder_enqueue_work_ilocked (W_reply_error th) (Some (L_thread_todo th)) s' }
                else Some s2);
         s4 \<leftarrow> binder_thread_dec_tmpref th s3;
         binder_free_transaction t s4 }
     | None \<Rightarrow> do {
         tx \<leftarrow> h_transactions s1 t;
         s2 \<leftarrow> binder_free_transaction t s1;
         case from_parent tx of
           None \<Rightarrow> Some s2
         | Some next \<Rightarrow> binder_send_failed_reply_loop next error_code s2 } }"

declare binder_send_failed_reply_loop.simps [code]

definition binder_send_failed_reply ::
  "nat \<Rightarrow> binder_return \<Rightarrow> binder_state \<Rightarrow> binder_state option" where
  "binder_send_failed_reply t error_code s = do {
     tx \<leftarrow> h_transactions s t;
     if t_flags tx AND TF_ONE_WAY \<noteq> 0 then None
     else binder_send_failed_reply_loop t error_code s }"

subsection \<open>Release of work, threads, nodes and processes\<close>

partial_function (option) binder_release_work ::
  "work_list \<Rightarrow> binder_state \<Rightarrow> binder_state option" where
  "binder_release_work l s = do {
     (w, s1) \<leftarrow> binder_dequeue_work_head_ilocked l s;
     case w of
       None \<Rightarrow> Some s1
     | Some (W_transaction t) \<Rightarrow> do {
         tx \<leftarrow> h_transactions s1 t;
         b \<leftarrow> t_buffer tx;
         buf \<leftarrow> h_buffers s1 b;
         s2 \<leftarrow> (if target_node buf \<noteq> None \<and> t_flags tx AND TF_ONE_WAY = 0
                then binder_send_failed_reply t BR_DEAD_REPLY s1
                else binder_free_transaction t s1);
         binder_release_work l s2 }
     | Some (W_return_error th) \<Rightarrow> binder_release_work l s1
     | Some (W_reply_error th) \<Rightarrow> binder_release_work l s1
     | Some (W_tcomplete c) \<Rightarrow>
         binder_release_work l (s1\<lparr>h_tcompletes := (h_tcompletes s1)(c := None)\<rparr>)
     | Some (W_death d) \<Rightarrow> do {
         death \<leftarrow> h_deaths s1 d;
         if death_work_type death = Some BINDER_WORK_DEAD_BINDER_AND_CLEAR
            \<or> death_work_type death = Some BINDER_WORK_CLEAR_DEATH_NOTIFICATION
         then binder_release_work l (s1\<lparr>h_deaths := (h_deaths s1)(d := None)\<rparr>)
         else binder_release_work l s1 }
     | Some (W_node n) \<Rightarrow> binder_release_work l s1 }"

declare binder_release_work.simps [code]

text \<open>
  The \<open>while (t)\<close> loop of \<open>binder_thread_release\<close>, which detaches the thread from every
  transaction of its stack and counts them.
\<close>

partial_function (option) binder_thread_release_loop ::
  "nat \<Rightarrow> nat option \<Rightarrow> int \<Rightarrow> binder_state \<Rightarrow> (int \<times> binder_state) option" where
  "binder_thread_release_loop thread t active_transactions s =
     (case t of
        None \<Rightarrow> Some (active_transactions, s)
      | Some t' \<Rightarrow> do {
          tx \<leftarrow> h_transactions s t';
          if to_thread tx = Some thread then do {
            s1 \<leftarrow> transaction_update t' (\<lambda>x. x\<lparr>to_proc := None, to_thread := None\<rparr>) s;
            s2 \<leftarrow> (case t_buffer tx of
                     Some b \<Rightarrow> do {
                       s' \<leftarrow> buffer_update b (\<lambda>x. x\<lparr>buffer_transaction := None\<rparr>) s1;
                       transaction_update t' (\<lambda>x. x\<lparr>t_buffer := None\<rparr>) s' }
                   | None \<Rightarrow> Some s1);
            binder_thread_release_loop thread (to_parent tx) (active_transactions + 1) s2 }
          else if t_from tx = Some thread then do {
            s1 \<leftarrow> transaction_update t' (\<lambda>x. x\<lparr>t_from := None\<rparr>) s;
            binder_thread_release_loop thread (from_parent tx) (active_transactions + 1) s1 }
          else None })"

declare binder_thread_release_loop.simps [code]

definition binder_thread_release ::
  "nat \<Rightarrow> nat \<Rightarrow> binder_state \<Rightarrow> (int \<times> binder_state) option" where
  "binder_thread_release proc thread s = do {
     s1 \<leftarrow> proc_update proc (\<lambda>x. x\<lparr>proc_tmp_ref := proc_tmp_ref x + 1\<rparr>) s;
     s2 \<leftarrow> thread_update thread (\<lambda>x. x\<lparr>thread_tmp_ref := thread_tmp_ref x + 1\<rparr>) s1;
     s3 \<leftarrow> proc_update proc (\<lambda>x. x\<lparr>proc_threads := remove1 thread (proc_threads x)\<rparr>) s2;
     th \<leftarrow> h_threads s3 thread;
     send_reply \<leftarrow> (case transaction_stack th of
                     None \<Rightarrow> Some None
                   | Some t \<Rightarrow> do {
                       tx \<leftarrow> h_transactions s3 t;
                       Some (if to_thread tx = Some thread then Some t else None) });
     s4 \<leftarrow> thread_update thread (\<lambda>x. x\<lparr>thread_is_dead := True\<rparr>) s3;
     (active_transactions, s5) \<leftarrow> binder_thread_release_loop thread (transaction_stack th) 0 s4;
     s6 \<leftarrow> (case send_reply of
              Some t \<Rightarrow> binder_send_failed_reply t BR_DEAD_REPLY s5
            | None \<Rightarrow> Some s5);
     s7 \<leftarrow> binder_release_work (L_thread_todo thread) s6;
     s8 \<leftarrow> binder_thread_dec_tmpref thread s7;
     Some (active_transactions, s8) }"

text \<open>The \<open>hlist_for_each_entry\<close> loop of \<open>binder_node_release\<close> over the node's references.\<close>

fun binder_node_release_refs ::
  "nat list \<Rightarrow> int \<Rightarrow> binder_state \<Rightarrow> (int \<times> binder_state) option" where
  "binder_node_release_refs [] refs s = Some (refs, s)"
| "binder_node_release_refs (ref # rest) refs s = do {
     r \<leftarrow> h_refs s ref;
     case ref_death r of
       None \<Rightarrow> binder_node_release_refs rest (refs + 1) s
     | Some d \<Rightarrow> do {
         death \<leftarrow> h_deaths s d;
         if death_work_entry death = None then do {
           s1 \<leftarrow> death_update d (\<lambda>x. x\<lparr>death_work_type := Some BINDER_WORK_DEAD_BINDER\<rparr>) s;
           s2 \<leftarrow> binder_enqueue_work_ilocked (W_death d) (Some (L_proc_todo (ref_proc r))) s1;
           binder_node_release_refs rest (refs + 1) s2 }
         else None } }"

definition binder_node_release ::
  "nat \<Rightarrow> int \<Rightarrow> binder_state \<Rightarrow> (int \<times> binder_state) option" where
  "binder_node_release node refs s = do {
     n0 \<leftarrow> h_nodes s node;
     proc \<leftarrow> node_proc n0;
     s1 \<leftarrow> binder_release_work (L_async_todo node) s;
     s2 \<leftarrow> binder_dequeue_work_ilocked (W_node node) s1;
     n \<leftarrow> h_nodes s2 node;
     if node_tmp_refs n = 0 then None
     else if node_refs n = [] \<and> node_tmp_refs n = 1
     then Some (refs, binder_free_node node s2)
     else do {
       s3 \<leftarrow> node_update node
              (\<lambda>x. x\<lparr>node_proc := None, local_strong_refs := 0, local_weak_refs := 0\<rparr>) s2;
       let s4 = s3\<lparr>binder_dead_nodes := node # binder_dead_nodes s3\<rparr>;
       (refs', s5) \<leftarrow> binder_node_release_refs (node_refs n) refs s4;
       s6 \<leftarrow> binder_put_node node s5;
       Some (refs', s6) } }"

partial_function (option) binder_deferred_release_threads ::
  "nat \<Rightarrow> binder_state \<Rightarrow> binder_state option" where
  "binder_deferred_release_threads proc s = do {
     pr \<leftarrow> h_procs s proc;
     case proc_threads pr of
       [] \<Rightarrow> Some s
     | thread # rest \<Rightarrow> do {
         (active, s1) \<leftarrow> binder_thread_release proc thread s;
         binder_deferred_release_threads proc s1 } }"

declare binder_deferred_release_threads.simps [code]

partial_function (option) binder_deferred_release_nodes ::
  "nat \<Rightarrow> int \<Rightarrow> binder_state \<Rightarrow> binder_state option" where
  "binder_deferred_release_nodes proc incoming_refs s = do {
     pr \<leftarrow> h_procs s proc;
     case proc_nodes pr of
       [] \<Rightarrow> Some s
     | node # rest \<Rightarrow> do {
         s1 \<leftarrow> binder_inc_node_tmpref node s;
         s2 \<leftarrow> proc_update proc (\<lambda>x. x\<lparr>proc_nodes := remove1 node (proc_nodes x)\<rparr>) s1;
         (incoming_refs', s3) \<leftarrow> binder_node_release node incoming_refs s2;
         binder_deferred_release_nodes proc incoming_refs' s3 } }"

declare binder_deferred_release_nodes.simps [code]

partial_function (option) binder_deferred_release_refs ::
  "nat \<Rightarrow> binder_state \<Rightarrow> binder_state option" where
  "binder_deferred_release_refs proc s = do {
     pr \<leftarrow> h_procs s proc;
     case refs_by_desc pr of
       [] \<Rightarrow> Some s
     | ref # rest \<Rightarrow> do {
         s1 \<leftarrow> binder_cleanup_ref ref s;
         s2 \<leftarrow> binder_free_ref ref s1;
         binder_deferred_release_refs proc s2 } }"

declare binder_deferred_release_refs.simps [code]



subsection \<open>The context manager\<close>



subsection \<open>Reading: \<open>binder_thread_read\<close>\<close>

text \<open>
  The read buffer is the sequence of the stores the call has made into it, each with its
  byte offset from the start of the buffer. \<open>put_user\<close> and \<open>copy_to_user\<close> fail where the
  run says the address cannot be written.
\<close>

datatype read_item = R_cmd binder_return | R_ptr u64 | R_tr binder_transaction_data

definition put_user ::
  "kernel_env \<Rightarrow> nat \<Rightarrow> nat \<Rightarrow> read_item \<Rightarrow> (nat \<times> read_item) list
     \<Rightarrow> (nat \<times> read_item) list option" where
  "put_user env buffer ptr x out =
     (if put_user_ok env (buffer + ptr) then Some (out @ [(ptr, x)]) else None)"

definition binder_put_node_cmd ::
  "kernel_env \<Rightarrow> nat \<Rightarrow> nat \<Rightarrow> u64 \<Rightarrow> u64 \<Rightarrow> binder_return \<Rightarrow> (nat \<times> read_item) list
     \<Rightarrow> ret \<times> nat \<times> (nat \<times> read_item) list" where
  "binder_put_node_cmd env buffer ptr node_ptr' node_cookie' cmd out =
     (case put_user env buffer ptr (R_cmd cmd) out of
        None \<Rightarrow> (ERR EFAULT, ptr, out)
      | Some out1 \<Rightarrow>
         (case put_user env buffer (ptr + 4) (R_ptr node_ptr') out1 of
            None \<Rightarrow> (ERR EFAULT, ptr, out1)
          | Some out2 \<Rightarrow>
             (case put_user env buffer (ptr + 12) (R_ptr node_cookie') out2 of
                None \<Rightarrow> (ERR EFAULT, ptr, out2)
              | Some out3 \<Rightarrow> (OK, ptr + 20, out3))))"

definition binder_has_proc_work :: "binder_state \<Rightarrow> nat \<Rightarrow> nat \<Rightarrow> bool option" where
  "binder_has_proc_work s proc thread = do {
     pr \<leftarrow> h_procs s proc;
     th \<leftarrow> h_threads s thread;
     Some (proc_todo pr \<noteq> [] \<or> looper_need_return th) }"

definition binder_has_thread_work :: "binder_state \<Rightarrow> nat \<Rightarrow> bool option" where
  "binder_has_thread_work s thread = do {
     th \<leftarrow> h_threads s thread;
     Some (thread_todo th \<noteq> [] \<or> looper_need_return th) }"

text \<open>How one pass of the \<open>while (1)\<close> loop of \<open>binder_thread_read\<close> ends.\<close>

datatype read_exit = Read_continue | Read_retry | Read_done | Read_return ret

text \<open>\<open>case BINDER_WORK_RETURN_ERROR\<close>; \<open>which\<close> tells \<open>return_error\<close> from \<open>reply_error\<close>.\<close>

definition binder_thread_read_return_error ::
  "kernel_env \<Rightarrow> bool \<Rightarrow> nat \<Rightarrow> nat \<Rightarrow> nat \<Rightarrow> (nat \<times> read_item) list \<Rightarrow> binder_state
     \<Rightarrow> (read_exit \<times> nat \<times> (nat \<times> read_item) list \<times> binder_state) option" where
  "binder_thread_read_return_error env which e buffer ptr out s = do {
     th \<leftarrow> h_threads s e;
     case put_user env buffer ptr
            (R_cmd (if which then return_error_cmd th else reply_error_cmd th)) out of
       None \<Rightarrow> Some (Read_return (ERR EFAULT), ptr, out, s)
     | Some out1 \<Rightarrow> do {
         s1 \<leftarrow> thread_update e
                (\<lambda>x. if which then x\<lparr>return_error_cmd := BR_OK\<rparr>
                      else x\<lparr>reply_error_cmd := BR_OK\<rparr>) s;
         Some (Read_continue, ptr + 4, out1, s1) } }"

text \<open>\<open>case BINDER_WORK_TRANSACTION_COMPLETE\<close>.\<close>

definition binder_thread_read_tcomplete ::
  "kernel_env \<Rightarrow> nat \<Rightarrow> nat \<Rightarrow> nat \<Rightarrow> (nat \<times> read_item) list \<Rightarrow> binder_state
     \<Rightarrow> (read_exit \<times> nat \<times> (nat \<times> read_item) list \<times> binder_state) option" where
  "binder_thread_read_tcomplete env w buffer ptr out s =
     (case put_user env buffer ptr (R_cmd BR_TRANSACTION_COMPLETE) out of
        None \<Rightarrow> Some (Read_return (ERR EFAULT), ptr, out, s)
      | Some out1 \<Rightarrow>
          Some (Read_continue, ptr + 4, out1, s\<lparr>h_tcompletes := (h_tcompletes s)(w := None)\<rparr>))"

text \<open>
  \<open>case BINDER_WORK_NODE\<close>. First the need for a strong and for a weak reference, as the
  counters of the node give it, and the four assignments to the notification bits.
\<close>

definition strong_need :: "binder_node \<Rightarrow> bool" where
  "strong_need n = (internal_strong_refs n \<noteq> 0 \<or> local_strong_refs n \<noteq> 0)"

definition weak_need :: "binder_node \<Rightarrow> bool" where
  "weak_need n = (node_refs n \<noteq> [] \<or> local_weak_refs n \<noteq> 0 \<or> node_tmp_refs n \<noteq> 0
                  \<or> strong_need n)"

definition binder_thread_read_node_bits :: "binder_node \<Rightarrow> binder_node" where
  "binder_thread_read_node_bits n =
     (let is_strong = strong_need n;
          is_weak = weak_need n;
          has_strong = has_strong_ref n;
          has_weak = has_weak_ref n;
          n1 = (if is_weak \<and> \<not> has_weak
                then n\<lparr>has_weak_ref := True, pending_weak_ref := True,
                       local_weak_refs := local_weak_refs n + 1\<rparr>
                else n);
          n2 = (if is_strong \<and> \<not> has_strong
                then n1\<lparr>has_strong_ref := True, pending_strong_ref := True,
                        local_strong_refs := local_strong_refs n1 + 1\<rparr>
                else n1);
          n3 = (if \<not> is_strong \<and> has_strong then n2\<lparr>has_strong_ref := False\<rparr> else n2)
      in if \<not> is_weak \<and> has_weak then n3\<lparr>has_weak_ref := False\<rparr> else n3)"

text \<open>\<open>if (!ret && cond) ret = binder_put_node_cmd(...)\<close>, on the result so far.\<close>

definition binder_put_node_cmd_if ::
  "kernel_env \<Rightarrow> nat \<Rightarrow> u64 \<Rightarrow> u64 \<Rightarrow> bool \<Rightarrow> binder_return
     \<Rightarrow> ret \<times> nat \<times> (nat \<times> read_item) list \<Rightarrow> ret \<times> nat \<times> (nat \<times> read_item) list" where
  "binder_put_node_cmd_if env buffer p c cond cmd r =
     (case r of (rc, ptr, out) \<Rightarrow>
        if rc = OK \<and> cond then binder_put_node_cmd env buffer ptr p c cmd out else r)"

definition binder_thread_read_node ::
  "kernel_env \<Rightarrow> nat \<Rightarrow> nat \<Rightarrow> nat \<Rightarrow> nat \<Rightarrow> (nat \<times> read_item) list \<Rightarrow> binder_state
     \<Rightarrow> (read_exit \<times> nat \<times> (nat \<times> read_item) list \<times> binder_state) option" where
  "binder_thread_read_node env proc node buffer ptr out s = do {
     n \<leftarrow> h_nodes s node;
     if node_proc n \<noteq> Some proc then None
     else do {
       let s1 = s\<lparr>h_nodes := (h_nodes s)(node \<mapsto> binder_thread_read_node_bits n)\<rparr>;
       s2 \<leftarrow> (if \<not> weak_need n \<and> \<not> strong_need n then do {
                s' \<leftarrow> proc_update proc (\<lambda>x. x\<lparr>proc_nodes := remove1 node (proc_nodes x)\<rparr>) s1;
                Some (binder_free_node node s') }
              else Some s1);
       case binder_put_node_cmd_if env buffer (node_ptr n) (node_cookie n)
              (\<not> weak_need n \<and> has_weak_ref n) BR_DECREFS
           (binder_put_node_cmd_if env buffer (node_ptr n) (node_cookie n)
              (\<not> strong_need n \<and> has_strong_ref n) BR_RELEASE
           (binder_put_node_cmd_if env buffer (node_ptr n) (node_cookie n)
              (strong_need n \<and> \<not> has_strong_ref n) BR_ACQUIRE
           (binder_put_node_cmd_if env buffer (node_ptr n) (node_cookie n)
              (weak_need n \<and> \<not> has_weak_ref n) BR_INCREFS (OK, ptr, out)))) of
         (rc, p, out') \<Rightarrow>
           Some (if rc \<noteq> OK then Read_return rc else Read_continue, p, out', s2) } }"

text \<open>
  \<open>case BINDER_WORK_DEAD_BINDER\<close>, \<open>BINDER_WORK_DEAD_BINDER_AND_CLEAR\<close> and
  \<open>BINDER_WORK_CLEAR_DEATH_NOTIFICATION\<close>.
\<close>

definition binder_thread_read_death ::
  "kernel_env \<Rightarrow> nat \<Rightarrow> nat \<Rightarrow> nat \<Rightarrow> nat \<Rightarrow> (nat \<times> read_item) list \<Rightarrow> binder_state
     \<Rightarrow> (read_exit \<times> nat \<times> (nat \<times> read_item) list \<times> binder_state) option" where
  "binder_thread_read_death env proc d buffer ptr out s = do {
     death \<leftarrow> h_deaths s d;
     ty \<leftarrow> death_work_type death;
     if ty \<noteq> BINDER_WORK_DEAD_BINDER \<and> ty \<noteq> BINDER_WORK_DEAD_BINDER_AND_CLEAR
        \<and> ty \<noteq> BINDER_WORK_CLEAR_DEATH_NOTIFICATION then None
     else do {
       let cmd = (if ty = BINDER_WORK_CLEAR_DEATH_NOTIFICATION
                  then BR_CLEAR_DEATH_NOTIFICATION_DONE else BR_DEAD_BINDER);
       case put_user env buffer ptr (R_cmd cmd) out of
         None \<Rightarrow> Some (Read_return (ERR EFAULT), ptr, out, s)
       | Some out1 \<Rightarrow>
          (case put_user env buffer (ptr + 4) (R_ptr (death_cookie death)) out1 of
             None \<Rightarrow> Some (Read_return (ERR EFAULT), ptr + 4, out1, s)
           | Some out2 \<Rightarrow> do {
               s1 \<leftarrow> (if ty = BINDER_WORK_CLEAR_DEATH_NOTIFICATION
                      then Some (s\<lparr>h_deaths := (h_deaths s)(d := None)\<rparr>)
                      else binder_enqueue_work_ilocked (W_death d)
                             (Some (L_delivered_death proc)) s);
               Some (if cmd = BR_DEAD_BINDER then Read_done else Read_continue,
                     ptr + 12, out2, s1) }) } }"

text \<open>
  The priority rule of the delivery of a transaction that has a target node
  (\<open>t->saved_priority = task_nice(current)\<close> and the two calls of \<open>binder_set_nice\<close>).
\<close>

definition binder_thread_read_priority ::
  "kernel_env \<Rightarrow> nat \<Rightarrow> nat \<Rightarrow> nat \<Rightarrow> binder_state \<Rightarrow> binder_state option" where
  "binder_thread_read_priority env cur t node s = do {
     n \<leftarrow> h_nodes s node;
     s1 \<leftarrow> transaction_update t (\<lambda>x. x\<lparr>saved_priority := task_nice s cur\<rparr>) s;
     tx \<leftarrow> h_transactions s1 t;
     if t_priority tx < uint (min_priority n) \<and> t_flags tx AND TF_ONE_WAY = 0
     then Some (binder_set_nice env cur (t_priority tx) s1)
     else if t_flags tx AND TF_ONE_WAY = 0 \<or> saved_priority tx > uint (min_priority n)
     then Some (binder_set_nice env cur (uint (min_priority n)) s1)
     else Some s1 }"

definition ALIGN :: "u64 \<Rightarrow> u64 \<Rightarrow> u64" where
  "ALIGN x a = (x + (a - 1)) AND NOT (a - 1)"

text \<open>The end of the loop body: the delivery of the transaction \<open>t\<close>.\<close>

definition binder_thread_read_transaction ::
  "kernel_env \<Rightarrow> nat \<Rightarrow> nat \<Rightarrow> nat \<Rightarrow> nat \<Rightarrow> nat \<Rightarrow> (nat \<times> read_item) list \<Rightarrow> binder_state
     \<Rightarrow> (read_exit \<times> nat \<times> (nat \<times> read_item) list \<times> binder_state) option" where
  "binder_thread_read_transaction env proc thread t buffer ptr out s = do {
     tx0 \<leftarrow> h_transactions s t;
     b \<leftarrow> t_buffer tx0;
     buf \<leftarrow> h_buffers s b;
     th \<leftarrow> h_threads s thread;
     pr \<leftarrow> h_procs s proc;
     (target_ptr, cookie, cmd, s1) \<leftarrow>
       (case target_node buf of
          Some node \<Rightarrow> do {
            n \<leftarrow> h_nodes s node;
            s' \<leftarrow> binder_thread_read_priority env (thread_pid th) t node s;
            Some (node_ptr n, node_cookie n, BR_TRANSACTION, s') }
        | None \<Rightarrow> Some (0, 0, BR_REPLY, s));
     tx \<leftarrow> h_transactions s1 t;
     (t_from', s2) \<leftarrow> binder_get_txn_from t s1;
     sender_pid \<leftarrow> (case t_from' of
                     Some f \<Rightarrow> do {
                       fth \<leftarrow> h_threads s2 f;
                       fpr \<leftarrow> h_procs s2 (thread_proc fth);
                       Some (proc_pid fpr) }
                   | None \<Rightarrow> Some 0);
     let data_buffer = data buf + user_buffer_offset (proc_alloc pr);
     let tr = \<lparr>tr_target = target_ptr, tr_cookie = cookie, tr_code = t_code tx,
               tr_flags = t_flags tx, tr_sender_pid = sender_pid,
               tr_sender_euid = sender_euid tx, tr_data_size = data_size buf,
               tr_offsets_size = offsets_size buf, tr_data_buffer = data_buffer,
               tr_data_offsets = data_buffer + ALIGN (data_size buf) 8\<rparr>;
     case put_user env buffer ptr (R_cmd cmd) out of
       None \<Rightarrow> do {
         s3 \<leftarrow> (case t_from' of Some f \<Rightarrow> binder_thread_dec_tmpref f s2 | None \<Rightarrow> Some s2);
         Some (Read_return (ERR EFAULT), ptr, out, s3) }
     | Some out1 \<Rightarrow>
        (case put_user env buffer (ptr + 4) (R_tr tr) out1 of
           None \<Rightarrow> do {
             s3 \<leftarrow> (case t_from' of Some f \<Rightarrow> binder_thread_dec_tmpref f s2 | None \<Rightarrow> Some s2);
             Some (Read_return (ERR EFAULT), ptr + 4, out1, s3) }
         | Some out2 \<Rightarrow> do {
             s3 \<leftarrow> (case t_from' of Some f \<Rightarrow> binder_thread_dec_tmpref f s2 | None \<Rightarrow> Some s2);
             s4 \<leftarrow> buffer_update b (\<lambda>x. x\<lparr>allow_user_free := True\<rparr>) s3;
             s5 \<leftarrow> (if cmd = BR_TRANSACTION \<and> t_flags tx AND TF_ONE_WAY = 0 then do {
                      th' \<leftarrow> h_threads s4 thread;
                      s' \<leftarrow> transaction_update t
                             (\<lambda>x. x\<lparr>to_parent := transaction_stack th', to_thread := Some thread\<rparr>) s4;
                      thread_update thread (\<lambda>x. x\<lparr>transaction_stack := Some t\<rparr>) s' }
                    else binder_free_transaction t s4);
             Some (Read_done, ptr + 68, out2, s5) }) }"

text \<open>The \<open>switch (w->type)\<close> of the loop body, and for a transaction the delivery after it.\<close>

definition binder_thread_read_work ::
  "kernel_env \<Rightarrow> nat \<Rightarrow> nat \<Rightarrow> binder_work \<Rightarrow> nat \<Rightarrow> nat \<Rightarrow> (nat \<times> read_item) list
     \<Rightarrow> binder_state \<Rightarrow> (read_exit \<times> nat \<times> (nat \<times> read_item) list \<times> binder_state) option" where
  "binder_thread_read_work env proc thread w buffer ptr out s =
     (case w of
        W_transaction t \<Rightarrow> binder_thread_read_transaction env proc thread t buffer ptr out s
      | W_return_error e \<Rightarrow> binder_thread_read_return_error env True e buffer ptr out s
      | W_reply_error e \<Rightarrow> binder_thread_read_return_error env False e buffer ptr out s
      | W_tcomplete c \<Rightarrow> binder_thread_read_tcomplete env c buffer ptr out s
      | W_node node \<Rightarrow> binder_thread_read_node env proc node buffer ptr out s
      | W_death d \<Rightarrow> binder_thread_read_death env proc d buffer ptr out s)"

partial_function (option) binder_thread_read_loop ::
  "kernel_env \<Rightarrow> nat \<Rightarrow> nat \<Rightarrow> nat \<Rightarrow> nat \<Rightarrow> bool \<Rightarrow> nat \<Rightarrow> (nat \<times> read_item) list
     \<Rightarrow> binder_state \<Rightarrow> (read_exit \<times> nat \<times> (nat \<times> read_item) list \<times> binder_state) option" where
  "binder_thread_read_loop env proc thread buffer size' wait_for_proc_work ptr out s = do {
     th \<leftarrow> h_threads s thread;
     pr \<leftarrow> h_procs s proc;
     case (if thread_todo th \<noteq> [] then Some (L_thread_todo thread)
           else if proc_todo pr \<noteq> [] \<and> wait_for_proc_work then Some (L_proc_todo proc)
           else None) of
       None \<Rightarrow>
         Some (if ptr = 4 \<and> \<not> looper_need_return th then Read_retry else Read_done, ptr, out, s)
     | Some list \<Rightarrow>
         if ptr \<le> size' \<and> size' - ptr < 68 then Some (Read_done, ptr, out, s)
         else do {
           (w, s1) \<leftarrow> binder_dequeue_work_head_ilocked list s;
           work \<leftarrow> w;
           (ex, ptr', out', s2) \<leftarrow> binder_thread_read_work env proc thread work buffer ptr out s1;
           if ex = Read_continue
           then binder_thread_read_loop env proc thread buffer size' wait_for_proc_work ptr' out' s2
           else Some (ex, ptr', out', s2) } }"

declare binder_thread_read_loop.simps [code]

text \<open>
  A wait: it returns 0 when its condition holds, \<open>-ERESTARTSYS\<close> when a signal is pending,
  and otherwise the thread sleeps.
\<close>

definition wait_event :: "kernel_env \<Rightarrow> bool \<Rightarrow> ret option" where
  "wait_event env cond =
     (if cond then Some OK else if signal_pending env then Some (ERR ERESTARTSYS) else None)"

text \<open>The part of \<open>binder_thread_read\<close> after the label \<open>done\<close>.\<close>

definition binder_thread_read_done ::
  "kernel_env \<Rightarrow> nat \<Rightarrow> nat \<Rightarrow> nat \<Rightarrow> nat \<Rightarrow> (nat \<times> read_item) list \<Rightarrow> binder_state
     \<Rightarrow> (ret \<times> nat \<times> (nat \<times> read_item) list \<times> binder_state) option" where
  "binder_thread_read_done env proc thread buffer ptr out s = do {
     pr \<leftarrow> h_procs s proc;
     th \<leftarrow> h_threads s thread;
     if requested_threads pr + ready_threads pr = 0
        \<and> requested_threads_started pr < max_threads pr
        \<and> looper th AND (BINDER_LOOPER_STATE_REGISTERED OR BINDER_LOOPER_STATE_ENTERED) \<noteq> 0
     then do {
       s1 \<leftarrow> proc_update proc (\<lambda>x. x\<lparr>requested_threads := requested_threads x + 1\<rparr>) s;
       case put_user env buffer 0 (R_cmd BR_SPAWN_LOOPER) out of
         None \<Rightarrow> Some (ERR EFAULT, ptr, out, s1)
       | Some out1 \<Rightarrow> Some (OK, ptr, out1, s1) }
     else Some (OK, ptr, out, s) }"

text \<open>
  \<open>binder_thread_read\<close> from the label \<open>retry\<close> on. The result is the return value, the
  new value of \<open>*consumed\<close>, the stores into the read buffer, and the store.
\<close>

partial_function (option) binder_thread_read_retry ::
  "kernel_env \<Rightarrow> nat \<Rightarrow> nat \<Rightarrow> nat \<Rightarrow> nat \<Rightarrow> nat \<Rightarrow> bool \<Rightarrow> nat \<Rightarrow> (nat \<times> read_item) list
     \<Rightarrow> binder_state \<Rightarrow> (ret \<times> nat \<times> (nat \<times> read_item) list \<times> binder_state) option" where
  "binder_thread_read_retry env proc thread buffer size' consumed non_block ptr out s = do {
     th \<leftarrow> h_threads s thread;
     let wait_for_proc_work = (transaction_stack th = None \<and> thread_todo th = []);
     s1 \<leftarrow> thread_update thread (\<lambda>x. x\<lparr>looper := looper x OR BINDER_LOOPER_STATE_WAITING\<rparr>) s;
     s2 \<leftarrow> (if wait_for_proc_work
            then proc_update proc (\<lambda>x. x\<lparr>ready_threads := ready_threads x + 1\<rparr>) s1
            else Some s1);
     (rc, s3) \<leftarrow>
       (if wait_for_proc_work then do {
          s' \<leftarrow> (if looper th AND (BINDER_LOOPER_STATE_REGISTERED OR BINDER_LOOPER_STATE_ENTERED) = 0
                 then do {
                   let e = binder_user_error s2;
                   r \<leftarrow> wait_event env (binder_stop_on_user_error e < 2);
                   Some e }
                 else Some s2);
          pr \<leftarrow> h_procs s' proc;
          let s'' = binder_set_nice env (thread_pid th) (default_priority pr) s';
          work \<leftarrow> binder_has_proc_work s'' proc thread;
          if non_block then Some (if \<not> work then ERR EAGAIN else OK, s'')
          else do { r \<leftarrow> wait_event env work; Some (r, s'') } }
        else do {
          work \<leftarrow> binder_has_thread_work s2 thread;
          if non_block then Some (if \<not> work then ERR EAGAIN else OK, s2)
          else do { r \<leftarrow> wait_event env work; Some (r, s2) } });
     s4 \<leftarrow> (if wait_for_proc_work
            then proc_update proc (\<lambda>x. x\<lparr>ready_threads := ready_threads x - 1\<rparr>) s3
            else Some s3);
     s5 \<leftarrow> thread_update thread
            (\<lambda>x. x\<lparr>looper := looper x AND NOT BINDER_LOOPER_STATE_WAITING\<rparr>) s4;
     if rc \<noteq> OK then Some (rc, consumed, out, s5)
     else do {
       (ex, ptr', out', s6) \<leftarrow>
         binder_thread_read_loop env proc thread buffer size' wait_for_proc_work ptr out s5;
       case ex of
         Read_retry \<Rightarrow>
           binder_thread_read_retry env proc thread buffer size' consumed non_block ptr' out' s6
       | Read_return r \<Rightarrow> Some (r, consumed, out', s6)
       | Read_done \<Rightarrow> binder_thread_read_done env proc thread buffer ptr' out' s6
       | Read_continue \<Rightarrow> binder_thread_read_done env proc thread buffer ptr' out' s6 } }"

declare binder_thread_read_retry.simps [code]

definition binder_thread_read ::
  "kernel_env \<Rightarrow> nat \<Rightarrow> nat \<Rightarrow> nat \<Rightarrow> nat \<Rightarrow> nat \<Rightarrow> bool \<Rightarrow> binder_state
     \<Rightarrow> (ret \<times> nat \<times> (nat \<times> read_item) list \<times> binder_state) option" where
  "binder_thread_read env proc thread buffer size' consumed non_block s =
     (if consumed = 0 then
        (case put_user env buffer consumed (R_cmd BR_NOOP) [] of
           None \<Rightarrow> Some (ERR EFAULT, consumed, [], s)
         | Some out \<Rightarrow>
             binder_thread_read_retry env proc thread buffer size' consumed non_block
               (consumed + 4) out s)
      else binder_thread_read_retry env proc thread buffer size' consumed non_block consumed [] s)"

subsection \<open>Transaction buffers\<close>

text \<open>
  Modelled from the spec: the interface of the external allocator.
  \<open>binder_alloc_new_buf\<close> fails with \<open>-ESRCH\<close> when the mapping of the target is gone and with
  the allocator's own error when it finds no place; otherwise it hands out a buffer of the
  given sizes. \<open>binder_alloc_free_buf\<close> takes the buffer back, and
  \<open>binder_alloc_prepare_to_free\<close> finds the buffer whose data area a user address names.
\<close>

definition zero_object :: binder_object where
  "zero_object = \<lparr>hdr_type = BINDER_TYPE_OTHER 0,
     as_flat = \<lparr>fbo_flags = 0, fbo_binder = 0, fbo_cookie = 0\<rparr>,
     as_fd = \<lparr>pad_binder = 0, fdo_cookie = 0\<rparr>,
     as_ptr = \<lparr>bbo_flags = 0, bbo_buffer = 0, bbo_length = 0, bbo_parent = 0,
               bbo_parent_offset = 0\<rparr>,
     as_fda = \<lparr>num_fds = 0, fda_parent = 0, fda_parent_offset = 0\<rparr>\<rparr>"

definition binder_alloc_get_user_buffer_offset :: "binder_alloc \<Rightarrow> u64" where
  "binder_alloc_get_user_buffer_offset alloc = user_buffer_offset alloc"

definition binder_alloc_new_buf ::
  "kernel_env \<Rightarrow> nat \<Rightarrow> u64 \<Rightarrow> u64 \<Rightarrow> u64 \<Rightarrow> bool \<Rightarrow> binder_state
     \<Rightarrow> ((errno + nat) \<times> binder_state) option" where
  "binder_alloc_new_buf env proc dsize osize esize is_async s = do {
     pr \<leftarrow> h_procs s proc;
     if \<not> alloc_vma (proc_alloc pr) then Some (Inl ESRCH, s)
     else
       case alloc_place env (proc_pid pr) dsize osize esize is_async of
         Inl e \<Rightarrow> Some (Inl e, s)
       | Inr addr \<Rightarrow> do {
           let b = kzalloc_next s;
           let buf = \<lparr>allow_user_free = False, async_transaction = is_async,
                      buffer_debug_id = 0, buffer_transaction = None, target_node = None,
                      data_size = dsize, offsets_size = osize, extra_buffers_size = esize,
                      data = addr, buffer_objects = (\<lambda>_. zero_object), buffer_offsets = [],
                      buffer_sg = (\<lambda>_. 0)\<rparr>;
           s1 \<leftarrow> proc_update proc
                  (\<lambda>x. x\<lparr>proc_alloc := (proc_alloc x)\<lparr>alloc_buffers :=
                            alloc_buffers (proc_alloc x) @ [b]\<rparr>\<rparr>)
                  (s\<lparr>kzalloc_next := Suc (kzalloc_next s)\<rparr>);
           Some (Inr b, s1\<lparr>h_buffers := (h_buffers s1)(b \<mapsto> buf)\<rparr>) } }"

definition binder_alloc_free_buf :: "nat \<Rightarrow> nat \<Rightarrow> binder_state \<Rightarrow> binder_state option" where
  "binder_alloc_free_buf proc buffer s = do {
     s1 \<leftarrow> proc_update proc
            (\<lambda>x. x\<lparr>proc_alloc := (proc_alloc x)\<lparr>alloc_buffers :=
                      remove1 buffer (alloc_buffers (proc_alloc x))\<rparr>\<rparr>) s;
     Some (s1\<lparr>h_buffers := (h_buffers s1)(buffer := None)\<rparr>) }"

fun find_buffer_by_data :: "binder_state \<Rightarrow> u64 \<Rightarrow> nat list \<Rightarrow> nat option option" where
  "find_buffer_by_data s a [] = Some None"
| "find_buffer_by_data s a (b # bs) =
     do { x \<leftarrow> h_buffers s b;
          if data x = a then Some (Some b) else find_buffer_by_data s a bs }"

definition binder_alloc_prepare_to_free :: "nat \<Rightarrow> u64 \<Rightarrow> binder_state \<Rightarrow> nat option option" where
  "binder_alloc_prepare_to_free proc user_ptr s = do {
     pr \<leftarrow> h_procs s proc;
     find_buffer_by_data s (user_ptr - user_buffer_offset (proc_alloc pr))
       (alloc_buffers (proc_alloc pr)) }"

text \<open>
  The memory of a buffer. The data area is kept as the object found at each offset: a
  store through one of the four structs leaves the other three readings as they were, which
  the driver never looks at, since it reads an object through the struct of its header type
  and a translation keeps the struct. The offsets array is a list of 64-bit words, and a
  pointer into it is an index. The area of the scatter-gather buffers is kept byte by byte
  under its kernel address, little-endian.
\<close>

definition read_u32 :: "(u64 \<Rightarrow> u8) \<Rightarrow> u64 \<Rightarrow> u32" where
  "read_u32 m a = ucast (m a) OR push_bit 8 (ucast (m (a + 1)))
       OR push_bit 16 (ucast (m (a + 2))) OR push_bit 24 (ucast (m (a + 3)))"

definition write_u32 :: "u64 \<Rightarrow> u32 \<Rightarrow> (u64 \<Rightarrow> u8) \<Rightarrow> u64 \<Rightarrow> u8" where
  "write_u32 a v m =
     fold (\<lambda>i f. f(a + of_nat i := ucast (drop_bit (8 * i) v))) [0..<4] m"

definition write_u64 :: "u64 \<Rightarrow> u64 \<Rightarrow> (u64 \<Rightarrow> u8) \<Rightarrow> u64 \<Rightarrow> u8" where
  "write_u64 a v m =
     fold (\<lambda>i f. f(a + of_nat i := ucast (drop_bit (8 * i) v))) [0..<8] m"

definition SIZE_MAX :: u64 where
  "SIZE_MAX = - 1"

definition IS_ALIGNED :: "u64 \<Rightarrow> u64 \<Rightarrow> bool" where
  "IS_ALIGNED x a = (x AND (a - 1) = 0)"

text \<open>
  \<open>binder_validate_object\<close>. The sizes are those of the user interface: 4 bytes for the
  header, 24 for \<open>flat_binder_object\<close> and \<open>binder_fd_object\<close>, 40 for
  \<open>binder_buffer_object\<close>, 32 for \<open>binder_fd_array_object\<close>.
\<close>

definition object_size_of :: "binder_type \<Rightarrow> u64" where
  "object_size_of ty =
     (case ty of
        BINDER_TYPE_BINDER \<Rightarrow> 24 | BINDER_TYPE_WEAK_BINDER \<Rightarrow> 24
      | BINDER_TYPE_HANDLE \<Rightarrow> 24 | BINDER_TYPE_WEAK_HANDLE \<Rightarrow> 24
      | BINDER_TYPE_FD \<Rightarrow> 24
      | BINDER_TYPE_PTR \<Rightarrow> 40
      | BINDER_TYPE_FDA \<Rightarrow> 32
      | BINDER_TYPE_OTHER v \<Rightarrow> 0)"

definition binder_validate_object :: "binder_buffer \<Rightarrow> u64 \<Rightarrow> u64" where
  "binder_validate_object buffer offset =
     (if offset > data_size buffer - 4 \<or> data_size buffer < 4 \<or> \<not> IS_ALIGNED offset 4 then 0
      else
        let object_size = object_size_of (hdr_type (buffer_objects buffer offset)) in
        if object_size = 0 then 0
        else if offset \<le> data_size buffer - object_size \<and> data_size buffer \<ge> object_size
        then object_size else 0)"

text \<open>
  \<open>binder_validate_ptr\<close>. \<open>valid\<close> is the verified part of the offsets array, the
  \<open>num_valid\<close> words from \<open>start\<close>. An object is named by its offset in the data area, and
  \<open>None\<close> is \<open>NULL\<close>.
\<close>

definition binder_validate_ptr :: "binder_buffer \<Rightarrow> u64 \<Rightarrow> u64 list \<Rightarrow> u64 option" where
  "binder_validate_ptr b index valid =
     (if unat index \<ge> length valid then None
      else
        let offp = valid ! unat index in
        if hdr_type (buffer_objects b offp) \<noteq> BINDER_TYPE_PTR then None
        else Some offp)"

text \<open>
  \<open>binder_validate_fixup\<close>: the walk from \<open>last_obj\<close> up its parents. The parent's index is
  not checked by the source; a read outside the offsets array ends the model's run.
\<close>

partial_function (option) binder_validate_fixup_loop ::
  "binder_buffer \<Rightarrow> u64 \<Rightarrow> u64 \<Rightarrow> u64 \<Rightarrow> u64 \<Rightarrow> bool option" where
  "binder_validate_fixup_loop b buffer fixup_offset last_obj last_min_offset =
     (if last_obj \<noteq> buffer then
        let lo = as_ptr (buffer_objects b last_obj) in
        if bbo_flags lo AND BINDER_BUFFER_FLAG_HAS_PARENT = 0 then Some False
        else if unat (bbo_parent lo) < length (buffer_offsets b)
        then binder_validate_fixup_loop b buffer fixup_offset
               (buffer_offsets b ! unat (bbo_parent lo)) (bbo_parent_offset lo + 8)
        else None
      else Some (fixup_offset \<ge> last_min_offset))"

declare binder_validate_fixup_loop.simps [code]

definition binder_validate_fixup ::
  "binder_buffer \<Rightarrow> u64 \<Rightarrow> u64 \<Rightarrow> u64 option \<Rightarrow> u64 \<Rightarrow> bool option" where
  "binder_validate_fixup b buffer fixup_offset last_obj last_min_offset =
     (case last_obj of
        None \<Rightarrow> Some False
      | Some lo \<Rightarrow> binder_validate_fixup_loop b buffer fixup_offset lo last_min_offset)"

subsection \<open>File descriptors of a process\<close>

definition task_get_unused_fd_flags :: "kernel_env \<Rightarrow> nat \<Rightarrow> binder_state \<Rightarrow> (errno + u32) option" where
  "task_get_unused_fd_flags env proc s = do {
     pr \<leftarrow> h_procs s proc;
     if \<not> proc_files pr then Some (Inl ESRCH)
     else Some (get_unused_fd env (proc_pid pr) (map fst (proc_fds pr))) }"

definition task_fd_install :: "nat \<Rightarrow> u32 \<Rightarrow> nat \<Rightarrow> binder_state \<Rightarrow> binder_state option" where
  "task_fd_install proc v file s =
     proc_update proc
       (\<lambda>x. if proc_files x then x\<lparr>proc_fds := proc_fds x @ [(v, file)]\<rparr> else x) s"

definition task_close_fd :: "nat \<Rightarrow> u32 \<Rightarrow> binder_state \<Rightarrow> binder_state option" where
  "task_close_fd proc v s =
     proc_update proc
       (\<lambda>x. if proc_files x then x\<lparr>proc_fds := filter (\<lambda>e. fst e \<noteq> v) (proc_fds x)\<rparr> else x) s"

subsection \<open>Release of the objects of a buffer\<close>

text \<open>The loop of \<open>task_close_fd\<close> over the first \<open>n\<close> entries of an fd array at \<open>fd_array\<close>.\<close>

fun close_fd_array :: "nat \<Rightarrow> nat \<Rightarrow> u64 \<Rightarrow> nat \<Rightarrow> nat \<Rightarrow> binder_state \<Rightarrow> binder_state option" where
  "close_fd_array proc buffer fd_array fd_index 0 s = Some s"
| "close_fd_array proc buffer fd_array fd_index (Suc n) s = do {
     b \<leftarrow> h_buffers s buffer;
     s1 \<leftarrow> task_close_fd proc (read_u32 (buffer_sg b) (fd_array + 4 * of_nat fd_index)) s;
     close_fd_array proc buffer fd_array (Suc fd_index) n s1 }"

text \<open>
  The body of the loop of \<open>binder_transaction_buffer_release\<close> for the word \<open>i\<close> of the
  offsets array; \<open>failed\<close> says that \<open>failed_at\<close> is not \<open>NULL\<close>.
\<close>

definition binder_transaction_buffer_release_fda ::
  "nat \<Rightarrow> nat \<Rightarrow> nat \<Rightarrow> binder_fd_array_object \<Rightarrow> binder_state \<Rightarrow> binder_state option" where
  "binder_transaction_buffer_release_fda proc buffer i fda s = do {
     b \<leftarrow> h_buffers s buffer;
     pr \<leftarrow> h_procs s proc;
     case binder_validate_ptr b (fda_parent fda) (take i (buffer_offsets b)) of
       None \<Rightarrow> Some s
     | Some parent \<Rightarrow>
         let p = as_ptr (buffer_objects b parent);
             parent_buffer = bbo_buffer p - binder_alloc_get_user_buffer_offset (proc_alloc pr);
             fd_buf_size = 4 * num_fds fda
         in
         if num_fds fda \<ge> SIZE_MAX div 4 then Some s
         else if fd_buf_size > bbo_length p \<or> fda_parent_offset fda > bbo_length p - fd_buf_size
         then Some s
         else close_fd_array proc buffer (parent_buffer + fda_parent_offset fda) 0
                (unat (num_fds fda)) s }"

definition binder_transaction_buffer_release_object ::
  "nat \<Rightarrow> nat \<Rightarrow> bool \<Rightarrow> nat \<Rightarrow> binder_state \<Rightarrow> binder_state option" where
  "binder_transaction_buffer_release_object proc buffer failed i s = do {
     b \<leftarrow> h_buffers s buffer;
     if i \<ge> length (buffer_offsets b) then None
     else
       let offp = buffer_offsets b ! i in
       if binder_validate_object b offp = 0 then Some s
       else
         let obj = buffer_objects b offp in
         case hdr_type obj of
           BINDER_TYPE_BINDER \<Rightarrow> do {
             (node, s1) \<leftarrow> binder_get_node proc (fbo_binder (as_flat obj)) s;
             case node of
               None \<Rightarrow> Some s1
             | Some n \<Rightarrow> do { s2 \<leftarrow> binder_dec_node n True False s1; binder_put_node n s2 } }
         | BINDER_TYPE_WEAK_BINDER \<Rightarrow> do {
             (node, s1) \<leftarrow> binder_get_node proc (fbo_binder (as_flat obj)) s;
             case node of
               None \<Rightarrow> Some s1
             | Some n \<Rightarrow> do { s2 \<leftarrow> binder_dec_node n False False s1; binder_put_node n s2 } }
         | BINDER_TYPE_HANDLE \<Rightarrow>
             map_option (\<lambda>(rc, rdata, s1). s1)
               (binder_dec_ref_for_handle proc (handle (as_flat obj)) True s)
         | BINDER_TYPE_WEAK_HANDLE \<Rightarrow>
             map_option (\<lambda>(rc, rdata, s1). s1)
               (binder_dec_ref_for_handle proc (handle (as_flat obj)) False s)
         | BINDER_TYPE_FD \<Rightarrow>
             (if failed then task_close_fd proc (fd (as_fd obj)) s else Some s)
         | BINDER_TYPE_PTR \<Rightarrow> Some s
         | BINDER_TYPE_FDA \<Rightarrow> binder_transaction_buffer_release_fda proc buffer i (as_fda obj) s
         | BINDER_TYPE_OTHER v \<Rightarrow> Some s }"

fun binder_transaction_buffer_release_loop ::
  "nat \<Rightarrow> nat \<Rightarrow> bool \<Rightarrow> nat \<Rightarrow> nat \<Rightarrow> binder_state \<Rightarrow> binder_state option" where
  "binder_transaction_buffer_release_loop proc buffer failed i 0 s = Some s"
| "binder_transaction_buffer_release_loop proc buffer failed i (Suc n) s = do {
     s1 \<leftarrow> binder_transaction_buffer_release_object proc buffer failed i s;
     binder_transaction_buffer_release_loop proc buffer failed (Suc i) n s1 }"

text \<open>
  \<open>binder_transaction_buffer_release\<close>. \<open>failed_at\<close> is the index of the word of the offsets
  array it points at. Without it the loop runs to \<open>off_start + offsets_size\<close>, that is over
  every word that starts before that address.
\<close>

definition binder_transaction_buffer_release ::
  "nat \<Rightarrow> nat \<Rightarrow> nat option \<Rightarrow> binder_state \<Rightarrow> binder_state option" where
  "binder_transaction_buffer_release proc buffer failed_at s = do {
     b \<leftarrow> h_buffers s buffer;
     s1 \<leftarrow> (case target_node b of
              Some node \<Rightarrow> binder_dec_node node True False s
            | None \<Rightarrow> Some s);
     binder_transaction_buffer_release_loop proc buffer (failed_at \<noteq> None) 0
       (case failed_at of
          Some i \<Rightarrow> i
        | None \<Rightarrow> (unat (offsets_size b) + 7) div 8) s1 }"

subsection \<open>Translation of the objects\<close>

text \<open>
  The translation functions get the object by value and return it as they leave it in the
  buffer, beside the result; the caller stores it.
\<close>

definition binder_translate_binder ::
  "kernel_env \<Rightarrow> binder_type \<Rightarrow> flat_binder_object \<Rightarrow> nat \<Rightarrow> nat \<Rightarrow> binder_state
     \<Rightarrow> (ret \<times> binder_type \<times> flat_binder_object \<times> binder_state) option" where
  "binder_translate_binder env ty fp t thread s = do {
     th \<leftarrow> h_threads s thread;
     pr \<leftarrow> h_procs s (thread_proc th);
     tx \<leftarrow> h_transactions s t;
     target_proc \<leftarrow> to_proc tx;
     tpr \<leftarrow> h_procs s target_proc;
     (found, s1) \<leftarrow> binder_get_node (thread_proc th) (fbo_binder fp) s;
     (made, s2) \<leftarrow> (case found of
                      Some n \<Rightarrow> Some (Some n, s1)
                    | None \<Rightarrow> binder_new_node (thread_proc th) (Some fp) s1);
     case made of
       None \<Rightarrow> Some (ERR ENOMEM, ty, fp, s2)
     | Some node \<Rightarrow> do {
         n \<leftarrow> h_nodes s2 node;
         if fbo_cookie fp \<noteq> node_cookie n then do {
           s3 \<leftarrow> binder_put_node node (binder_user_error s2);
           Some (ERR EINVAL, ty, fp, s3) }
         else if security_binder_transfer_binder env (proc_pid pr) (proc_pid tpr) \<noteq> OK then do {
           s3 \<leftarrow> binder_put_node node s2;
           Some (ERR EPERM, ty, fp, s3) }
         else do {
           (rc, rdata, s3) \<leftarrow> binder_inc_ref_for_node target_proc node
                                (ty = BINDER_TYPE_BINDER) (Some (L_thread_todo thread)) s2;
           case rc of
             ERR e \<Rightarrow> do { s4 \<leftarrow> binder_put_node node s3; Some (ERR e, ty, fp, s4) }
           | OK \<Rightarrow> do {
               rd \<leftarrow> rdata;
               s4 \<leftarrow> binder_put_node node s3;
               Some (OK,
                     if ty = BINDER_TYPE_BINDER then BINDER_TYPE_HANDLE
                     else BINDER_TYPE_WEAK_HANDLE,
                     (set_handle (data_desc rd) (fp\<lparr>fbo_binder := 0\<rparr>))\<lparr>fbo_cookie := 0\<rparr>,
                     s4) } } } }"

text \<open>
  \<open>binder_translate_handle\<close>. In the branch for a node of another process the result of
  \<open>binder_inc_ref_for_node\<close> goes to an inner variable \<open>ret\<close>, so that the function returns the
  outer one, which is 0, also when the increment fails.
\<close>

definition binder_translate_handle ::
  "kernel_env \<Rightarrow> binder_type \<Rightarrow> flat_binder_object \<Rightarrow> nat \<Rightarrow> nat \<Rightarrow> binder_state
     \<Rightarrow> (ret \<times> binder_type \<times> flat_binder_object \<times> binder_state) option" where
  "binder_translate_handle env ty fp t thread s = do {
     th \<leftarrow> h_threads s thread;
     pr \<leftarrow> h_procs s (thread_proc th);
     tx \<leftarrow> h_transactions s t;
     target_proc \<leftarrow> to_proc tx;
     tpr \<leftarrow> h_procs s target_proc;
     (found, s1) \<leftarrow> binder_get_node_from_ref (thread_proc th) (handle fp)
                       (ty = BINDER_TYPE_HANDLE) s;
     case found of
       None \<Rightarrow> Some (ERR EINVAL, ty, fp, binder_user_error s1)
     | Some (node, src_rdata) \<Rightarrow>
         if security_binder_transfer_binder env (proc_pid pr) (proc_pid tpr) \<noteq> OK then do {
           s2 \<leftarrow> binder_put_node node s1;
           Some (ERR EPERM, ty, fp, s2) }
         else do {
           n \<leftarrow> h_nodes s1 node;
           if node_proc n = Some target_proc then do {
             let ty1 = (if ty = BINDER_TYPE_HANDLE then BINDER_TYPE_BINDER
                        else BINDER_TYPE_WEAK_BINDER);
             let fp1 = fp\<lparr>fbo_binder := node_ptr n, fbo_cookie := node_cookie n\<rparr>;
             (rc, s2) \<leftarrow> binder_inc_node_nilocked node (ty1 = BINDER_TYPE_BINDER) False None s1;
             s3 \<leftarrow> binder_put_node node s2;
             Some (OK, ty1, fp1, s3) }
           else do {
             (rc, dest_rdata, s2) \<leftarrow> binder_inc_ref_for_node target_proc node
                                      (ty = BINDER_TYPE_HANDLE) None s1;
             case rc of
               ERR e \<Rightarrow> do { s3 \<leftarrow> binder_put_node node s2; Some (OK, ty, fp, s3) }
             | OK \<Rightarrow> do {
                 rd \<leftarrow> dest_rdata;
                 s3 \<leftarrow> binder_put_node node s2;
                 Some (OK, ty,
                       (set_handle (data_desc rd) (fp\<lparr>fbo_binder := 0\<rparr>))\<lparr>fbo_cookie := 0\<rparr>,
                       s3) } } } }"

text \<open>\<open>binder_translate_fd\<close>: the descriptor in the target, or the error.\<close>

definition binder_translate_fd ::
  "kernel_env \<Rightarrow> u32 \<Rightarrow> nat \<Rightarrow> nat \<Rightarrow> nat option \<Rightarrow> binder_state
     \<Rightarrow> ((errno + u32) \<times> binder_state) option" where
  "binder_translate_fd env v t thread in_reply_to s = do {
     th \<leftarrow> h_threads s thread;
     pr \<leftarrow> h_procs s (thread_proc th);
     tx \<leftarrow> h_transactions s t;
     target_proc \<leftarrow> to_proc tx;
     tpr \<leftarrow> h_procs s target_proc;
     target_allows_fd \<leftarrow>
       (case in_reply_to of
          Some r \<Rightarrow> do { rx \<leftarrow> h_transactions s r; Some (t_flags rx AND TF_ACCEPT_FDS \<noteq> 0) }
        | None \<Rightarrow> do {
            b \<leftarrow> t_buffer tx;
            buf \<leftarrow> h_buffers s b;
            node \<leftarrow> target_node buf;
            n \<leftarrow> h_nodes s node;
            Some (accept_fds n) });
     if \<not> target_allows_fd then Some (Inl EPERM, binder_user_error s)
     else
       case fget env v of
         None \<Rightarrow> Some (Inl EBADF, binder_user_error s)
       | Some file \<Rightarrow>
           if security_binder_transfer_file env (proc_pid pr) (proc_pid tpr) file \<noteq> OK
           then Some (Inl EPERM, s)
           else do {
             r \<leftarrow> task_get_unused_fd_flags env target_proc s;
             case r of
               Inl e \<Rightarrow> Some (Inl ENOMEM, s)
             | Inr target_fd \<Rightarrow> do {
                 s1 \<leftarrow> task_fd_install target_proc target_fd file s;
                 Some (Inr target_fd, s1) } } }"

text \<open>
  The two loops of \<open>binder_translate_fd_array\<close>: the translation of the entries from
  \<open>fdi\<close> on, which stops at the first failure with the index it failed at, and the closing
  of the descriptors installed before it.
\<close>

fun binder_translate_fd_array_loop ::
  "kernel_env \<Rightarrow> nat \<Rightarrow> u64 \<Rightarrow> nat \<Rightarrow> nat \<Rightarrow> nat option \<Rightarrow> nat \<Rightarrow> nat \<Rightarrow> binder_state
     \<Rightarrow> ((errno \<times> nat) option \<times> binder_state) option" where
  "binder_translate_fd_array_loop env buffer fd_array t thread in_reply_to fdi 0 s = Some (None, s)"
| "binder_translate_fd_array_loop env buffer fd_array t thread in_reply_to fdi (Suc n) s = do {
     b \<leftarrow> h_buffers s buffer;
     (r, s1) \<leftarrow> binder_translate_fd env (read_u32 (buffer_sg b) (fd_array + 4 * of_nat fdi))
                  t thread in_reply_to s;
     case r of
       Inl e \<Rightarrow> Some (Some (e, fdi), s1)
     | Inr target_fd \<Rightarrow> do {
         s2 \<leftarrow> buffer_update buffer
                (\<lambda>x. x\<lparr>buffer_sg := write_u32 (fd_array + 4 * of_nat fdi) target_fd (buffer_sg x)\<rparr>)
                s1;
         binder_translate_fd_array_loop env buffer fd_array t thread in_reply_to (Suc fdi) n s2 } }"

definition binder_translate_fd_array ::
  "kernel_env \<Rightarrow> binder_fd_array_object \<Rightarrow> binder_buffer_object \<Rightarrow> nat \<Rightarrow> nat \<Rightarrow> nat option
     \<Rightarrow> binder_state \<Rightarrow> (ret \<times> binder_state) option" where
  "binder_translate_fd_array env fda parent t thread in_reply_to s = do {
     tx \<leftarrow> h_transactions s t;
     target_proc \<leftarrow> to_proc tx;
     tpr \<leftarrow> h_procs s target_proc;
     buffer \<leftarrow> t_buffer tx;
     let fd_buf_size = 4 * num_fds fda;
     if num_fds fda \<ge> SIZE_MAX div 4 then Some (ERR EINVAL, binder_user_error s)
     else if fd_buf_size > bbo_length parent
             \<or> fda_parent_offset fda > bbo_length parent - fd_buf_size
     then Some (ERR EINVAL, binder_user_error s)
     else
       let parent_buffer = bbo_buffer parent
                            - binder_alloc_get_user_buffer_offset (proc_alloc tpr);
           fd_array = parent_buffer + fda_parent_offset fda
       in
       if \<not> IS_ALIGNED fd_array 4 then Some (ERR EINVAL, binder_user_error s)
       else do {
         (r, s1) \<leftarrow> binder_translate_fd_array_loop env buffer fd_array t thread in_reply_to 0
                      (unat (num_fds fda)) s;
         case r of
           None \<Rightarrow> Some (OK, s1)
         | Some (e, num_installed_fds) \<Rightarrow> do {
             s2 \<leftarrow> close_fd_array target_proc buffer fd_array 0 num_installed_fds s1;
             Some (ERR e, s2) } } }"

text \<open>
  \<open>binder_fixup_parent\<close>; \<open>bp\<close> is the buffer object at the word \<open>i\<close> of the offsets array,
  and the \<open>i\<close> words before it are the verified ones.
\<close>

definition binder_fixup_parent ::
  "nat \<Rightarrow> nat \<Rightarrow> binder_buffer_object \<Rightarrow> nat \<Rightarrow> u64 option \<Rightarrow> u64 \<Rightarrow> binder_state
     \<Rightarrow> (ret \<times> binder_state) option" where
  "binder_fixup_parent t thread bp num_valid last_fixup_obj last_fixup_min_off s = do {
     tx \<leftarrow> h_transactions s t;
     buffer \<leftarrow> t_buffer tx;
     b \<leftarrow> h_buffers s buffer;
     target_proc \<leftarrow> to_proc tx;
     tpr \<leftarrow> h_procs s target_proc;
     if bbo_flags bp AND BINDER_BUFFER_FLAG_HAS_PARENT = 0 then Some (OK, s)
     else
       case binder_validate_ptr b (bbo_parent bp) (take num_valid (buffer_offsets b)) of
         None \<Rightarrow> Some (ERR EINVAL, binder_user_error s)
       | Some parent \<Rightarrow> do {
           ok \<leftarrow> binder_validate_fixup b parent (bbo_parent_offset bp) last_fixup_obj
                   last_fixup_min_off;
           let p = as_ptr (buffer_objects b parent);
           if \<not> ok then Some (ERR EINVAL, binder_user_error s)
           else if bbo_length p < 8 \<or> bbo_parent_offset bp > bbo_length p - 8
           then Some (ERR EINVAL, binder_user_error s)
           else do {
             let parent_buffer = bbo_buffer p
                                  - binder_alloc_get_user_buffer_offset (proc_alloc tpr);
             s1 \<leftarrow> buffer_update buffer
                    (\<lambda>x. x\<lparr>buffer_sg := write_u64 (parent_buffer + bbo_parent_offset bp)
                                            (bbo_buffer bp) (buffer_sg x)\<rparr>) s;
             Some (OK, s1) } } }"

subsection \<open>\<open>binder_transaction\<close>\<close>

text \<open>
  The labels at the end of \<open>binder_transaction\<close>, and how far up the chain of clean-up
  blocks each of them enters: labels that stand at the same place differ in name only.
\<close>

datatype err_label = err_dead_proc_or_thread | err_translate_failed | err_bad_object_type
  | err_bad_offset | err_bad_parent | err_copy_data_failed | err_binder_alloc_buf_failed
  | err_alloc_tcomplete_failed | err_alloc_t_failed | err_bad_call_stack
  | err_empty_call_stack | err_dead_binder | err_invalid_target_handle
  | err_no_context_mgr_node

definition label_depth :: "err_label \<Rightarrow> nat" where
  "label_depth label =
     (case label of
        err_dead_proc_or_thread \<Rightarrow> 0
      | err_translate_failed \<Rightarrow> 1 | err_bad_object_type \<Rightarrow> 1 | err_bad_offset \<Rightarrow> 1
      | err_bad_parent \<Rightarrow> 1 | err_copy_data_failed \<Rightarrow> 1
      | err_binder_alloc_buf_failed \<Rightarrow> 2
      | err_alloc_tcomplete_failed \<Rightarrow> 3
      | _ \<Rightarrow> 4)"

text \<open>
  The local variables of \<open>binder_transaction\<close> that its parts hand on. \<open>l_offp\<close> is the index
  of the word of the offsets array that \<open>offp\<close> points at. \<open>return_error\<close> starts at 0 in the
  source and is set before every \<open>goto\<close>; the transaction log \<open>e\<close> is left out.
\<close>

record binder_transaction_locals =
  l_target_proc :: "nat option"
  l_target_thread :: "nat option"
  l_target_node :: "nat option"
  l_in_reply_to :: "nat option"
  l_return_error :: binder_return
  l_return_error_param :: ret
  l_t :: "nat option"
  l_tcomplete :: "nat option"
  l_offp :: nat

definition binder_transaction_fail ::
  "binder_return \<Rightarrow> errno \<Rightarrow> binder_transaction_locals \<Rightarrow> binder_transaction_locals" where
  "binder_transaction_fail r e l = l\<lparr>l_return_error := r, l_return_error_param := ERR e\<rparr>"

text \<open>The clean-up blocks from the label on, and the report of the error to the sender.\<close>

definition binder_transaction_error_buffer ::
  "binder_transaction_locals \<Rightarrow> binder_state \<Rightarrow> binder_state option" where
  "binder_transaction_error_buffer l s = do {
     t \<leftarrow> l_t l;
     tx \<leftarrow> h_transactions s t;
     buffer \<leftarrow> t_buffer tx;
     target_proc \<leftarrow> l_target_proc l;
     s1 \<leftarrow> binder_transaction_buffer_release target_proc buffer (Some (l_offp l)) s;
     s2 \<leftarrow> buffer_update buffer (\<lambda>x. x\<lparr>buffer_transaction := None\<rparr>) s1;
     binder_alloc_free_buf target_proc buffer s2 }"

definition binder_transaction_error_report ::
  "nat \<Rightarrow> binder_transaction_locals \<Rightarrow> binder_state \<Rightarrow> binder_state option" where
  "binder_transaction_error_report thread l s = do {
     th \<leftarrow> h_threads s thread;
     if return_error_cmd th \<noteq> BR_OK then None
     else
       case l_in_reply_to l of
         Some in_reply_to \<Rightarrow> do {
           s1 \<leftarrow> thread_update thread (\<lambda>x. x\<lparr>return_error_cmd := BR_TRANSACTION_COMPLETE\<rparr>) s;
           s2 \<leftarrow> binder_enqueue_work_ilocked (W_return_error thread)
                  (Some (L_thread_todo thread)) s1;
           binder_send_failed_reply in_reply_to (l_return_error l) s2 }
       | None \<Rightarrow> do {
           s1 \<leftarrow> thread_update thread (\<lambda>x. x\<lparr>return_error_cmd := l_return_error l\<rparr>) s;
           binder_enqueue_work_ilocked (W_return_error thread)
             (Some (L_thread_todo thread)) s1 } }"

definition binder_transaction_error ::
  "err_label \<Rightarrow> nat \<Rightarrow> binder_transaction_locals \<Rightarrow> binder_state \<Rightarrow> binder_state option" where
  "binder_transaction_error label thread l0 s = do {
     let l1 = (if label = err_dead_proc_or_thread then l0\<lparr>l_return_error := BR_DEAD_REPLY\<rparr>
               else l0);
     s1 \<leftarrow> (if label_depth label \<le> 1 then binder_transaction_error_buffer l1 s else Some s);
     let l2 = (if label_depth label \<le> 1 then l1\<lparr>l_target_node := None\<rparr> else l1);
     s2 \<leftarrow> (if label_depth label \<le> 2
            then do { c \<leftarrow> l_tcomplete l2; Some (s1\<lparr>h_tcompletes := (h_tcompletes s1)(c := None)\<rparr>) }
            else Some s1);
     s3 \<leftarrow> (if label_depth label \<le> 3
            then do { t \<leftarrow> l_t l2; Some (s2\<lparr>h_transactions := (h_transactions s2)(t := None)\<rparr>) }
            else Some s2);
     s4 \<leftarrow> (case l_target_thread l2 of
              Some tt \<Rightarrow> binder_thread_dec_tmpref tt s3
            | None \<Rightarrow> Some s3);
     s5 \<leftarrow> (case l_target_proc l2 of
              Some tp \<Rightarrow> binder_proc_dec_tmpref tp s4
            | None \<Rightarrow> Some s4);
     s6 \<leftarrow> (case l_target_node l2 of
              Some node \<Rightarrow> binder_dec_node node True False s5
            | None \<Rightarrow> Some s5);
     binder_transaction_error_report thread l2 s6 }"

text \<open>The target of a reply: the branch \<open>if (reply)\<close>.\<close>

definition binder_transaction_reply_target ::
  "kernel_env \<Rightarrow> nat \<Rightarrow> binder_transaction_locals \<Rightarrow> binder_state
     \<Rightarrow> (err_label option \<times> binder_transaction_locals \<times> binder_state) option" where
  "binder_transaction_reply_target env thread l s = do {
     th \<leftarrow> h_threads s thread;
     case transaction_stack th of
       None \<Rightarrow>
         Some (Some err_empty_call_stack, binder_transaction_fail BR_FAILED_REPLY EPROTO l,
               binder_user_error s)
     | Some in_reply_to \<Rightarrow> do {
         rx \<leftarrow> h_transactions s in_reply_to;
         let s1 = binder_set_nice env (thread_pid th) (saved_priority rx) s;
         if to_thread rx \<noteq> Some thread then
           Some (Some err_bad_call_stack, binder_transaction_fail BR_FAILED_REPLY EPROTO l,
                 binder_user_error s1)
         else do {
           s2 \<leftarrow> thread_update thread (\<lambda>x. x\<lparr>transaction_stack := to_parent rx\<rparr>) s1;
           (target_thread, s3) \<leftarrow> binder_get_txn_from in_reply_to s2;
           case target_thread of
             None \<Rightarrow>
               Some (Some err_dead_binder,
                     l\<lparr>l_in_reply_to := Some in_reply_to, l_return_error := BR_DEAD_REPLY\<rparr>, s3)
           | Some tt \<Rightarrow> do {
               tth \<leftarrow> h_threads s3 tt;
               if transaction_stack tth \<noteq> Some in_reply_to then
                 Some (Some err_dead_binder, binder_transaction_fail BR_FAILED_REPLY EPROTO l,
                       binder_user_error s3)
               else do {
                 s4 \<leftarrow> proc_update (thread_proc tth)
                        (\<lambda>x. x\<lparr>proc_tmp_ref := proc_tmp_ref x + 1\<rparr>) s3;
                 Some (None,
                       l\<lparr>l_in_reply_to := Some in_reply_to, l_target_thread := Some tt,
                         l_target_proc := Some (thread_proc tth)\<rparr>, s4) } } } } }"

text \<open>
  The target of a call: the \<open>else\<close> branch. First the \<open>while (tmp)\<close> loop that looks on the
  sender's stack for a thread of the target process.
\<close>

partial_function (option) binder_transaction_stack_walk ::
  "nat option \<Rightarrow> nat \<Rightarrow> binder_state \<Rightarrow> (nat option \<times> binder_state) option" where
  "binder_transaction_stack_walk tmp target_proc s =
     (case tmp of
        None \<Rightarrow> Some (None, s)
      | Some t \<Rightarrow> do {
          tx \<leftarrow> h_transactions s t;
          case t_from tx of
            None \<Rightarrow> binder_transaction_stack_walk (from_parent tx) target_proc s
          | Some from \<Rightarrow> do {
              fth \<leftarrow> h_threads s from;
              if thread_proc fth = target_proc then do {
                s1 \<leftarrow> thread_update from (\<lambda>x. x\<lparr>thread_tmp_ref := thread_tmp_ref x + 1\<rparr>) s;
                Some (Some from, s1) }
              else binder_transaction_stack_walk (from_parent tx) target_proc s } })"

declare binder_transaction_stack_walk.simps [code]

definition binder_transaction_target_node ::
  "nat \<Rightarrow> binder_transaction_data \<Rightarrow> binder_transaction_locals \<Rightarrow> binder_state
     \<Rightarrow> (err_label option \<times> binder_transaction_locals \<times> binder_state) option" where
  "binder_transaction_target_node proc tr l s = do {
     pr \<leftarrow> h_procs s proc;
     c \<leftarrow> h_contexts s (proc_context pr);
     if (ucast (tr_target tr) :: u32) \<noteq> 0 then do {
       (ref, s1) \<leftarrow> binder_get_ref proc (ucast (tr_target tr)) True s;
       case ref of
         Some rf \<Rightarrow> do {
           r \<leftarrow> h_refs s1 rf;
           node \<leftarrow> ref_node r;
           (rc, s2) \<leftarrow> binder_inc_node node True False None s1;
           Some (None, l\<lparr>l_target_node := Some node\<rparr>, s2) }
       | None \<Rightarrow>
           Some (Some err_invalid_target_handle,
                 binder_transaction_fail BR_FAILED_REPLY EINVAL l, binder_user_error s1) }
     else
       case binder_context_mgr_node c of
         None \<Rightarrow> Some (Some err_no_context_mgr_node, l\<lparr>l_return_error := BR_DEAD_REPLY\<rparr>, s)
       | Some node \<Rightarrow> do {
           (rc, s1) \<leftarrow> binder_inc_node node True False None s;
           Some (None, l\<lparr>l_target_node := Some node\<rparr>, s1) } }"

definition binder_transaction_call_target ::
  "kernel_env \<Rightarrow> nat \<Rightarrow> nat \<Rightarrow> binder_transaction_data \<Rightarrow> binder_transaction_locals
     \<Rightarrow> binder_state
     \<Rightarrow> (err_label option \<times> binder_transaction_locals \<times> binder_state) option" where
  "binder_transaction_call_target env proc thread tr l0 s0 = do {
     (e, l, s) \<leftarrow> binder_transaction_target_node proc tr l0 s0;
     if e \<noteq> None then Some (e, l, s)
     else do {
       node \<leftarrow> l_target_node l;
       n \<leftarrow> h_nodes s node;
       case node_proc n of
         None \<Rightarrow> Some (Some err_dead_binder, l\<lparr>l_return_error := BR_DEAD_REPLY\<rparr>, s)
       | Some target_proc \<Rightarrow> do {
           s1 \<leftarrow> proc_update target_proc (\<lambda>x. x\<lparr>proc_tmp_ref := proc_tmp_ref x + 1\<rparr>) s;
           let l1 = l\<lparr>l_target_proc := Some target_proc\<rparr>;
           pr \<leftarrow> h_procs s1 proc;
           tpr \<leftarrow> h_procs s1 target_proc;
           th \<leftarrow> h_threads s1 thread;
           if security_binder_transaction env (proc_pid pr) (proc_pid tpr) \<noteq> OK then
             Some (Some err_invalid_target_handle,
                   binder_transaction_fail BR_FAILED_REPLY EPERM l1, s1)
           else if tr_flags tr AND TF_ONE_WAY = 0 \<and> transaction_stack th \<noteq> None then do {
             tmp \<leftarrow> transaction_stack th;
             tmpx \<leftarrow> h_transactions s1 tmp;
             if to_thread tmpx \<noteq> Some thread then
               Some (Some err_bad_call_stack,
                     binder_transaction_fail BR_FAILED_REPLY EPROTO l1, binder_user_error s1)
             else do {
               (target_thread, s2) \<leftarrow> binder_transaction_stack_walk (Some tmp) target_proc s1;
               Some (None, l1\<lparr>l_target_thread := target_thread\<rparr>, s2) } }
           else Some (None, l1, s1) } } }"

text \<open>
  The allocation of the transaction, of the completion marker and of the buffer, with the
  fields they get.
\<close>

definition zero_transaction :: binder_transaction where
  "zero_transaction = \<lparr>t_debug_id = 0, t_work_entry = None, t_from = None, from_parent = None,
     to_proc = None, to_thread = None, to_parent = None, need_reply = False, t_buffer = None,
     t_code = 0, t_flags = 0, t_priority = 0, saved_priority = 0, sender_euid = 0\<rparr>"

definition binder_transaction_alloc ::
  "kernel_env \<Rightarrow> nat \<Rightarrow> nat \<Rightarrow> binder_transaction_data \<Rightarrow> bool \<Rightarrow> u64 \<Rightarrow> int
     \<Rightarrow> binder_transaction_locals \<Rightarrow> binder_state
     \<Rightarrow> (err_label option \<times> binder_transaction_locals \<times> binder_state) option" where
  "binder_transaction_alloc env proc thread tr reply extra_buffers t_debug l s = do {
     pr \<leftarrow> h_procs s proc;
     th \<leftarrow> h_threads s thread;
     target_proc \<leftarrow> l_target_proc l;
     case kzalloc s of
       (None, s1) \<Rightarrow>
         Some (Some err_alloc_t_failed, binder_transaction_fail BR_FAILED_REPLY ENOMEM l, s1)
     | (Some t, s1) \<Rightarrow>
        (case kzalloc (s1\<lparr>h_transactions := (h_transactions s1)(t \<mapsto> zero_transaction)\<rparr>) of
           (None, s2) \<Rightarrow>
             Some (Some err_alloc_tcomplete_failed,
                   binder_transaction_fail BR_FAILED_REPLY ENOMEM (l\<lparr>l_t := Some t\<rparr>), s2)
         | (Some tcomplete, s2) \<Rightarrow> do {
             let l1 = l\<lparr>l_t := Some t, l_tcomplete := Some tcomplete\<rparr>;
             let s3 = s2\<lparr>h_tcompletes := (h_tcompletes s2)(tcomplete \<mapsto> None)\<rparr>;
             s4 \<leftarrow> transaction_update t
                    (\<lambda>x. x\<lparr>t_debug_id := t_debug,
                            t_from := (if \<not> reply \<and> tr_flags tr AND TF_ONE_WAY = 0
                                       then Some thread else None),
                            sender_euid := task_euid env (proc_pid pr),
                            to_proc := Some target_proc,
                            to_thread := l_target_thread l,
                            t_code := tr_code tr,
                            t_flags := tr_flags tr,
                            t_priority := task_nice s2 (thread_pid th)\<rparr>) s3;
             (r, s5) \<leftarrow> binder_alloc_new_buf env target_proc (tr_data_size tr)
                          (tr_offsets_size tr) extra_buffers
                          (\<not> reply \<and> tr_flags tr AND TF_ONE_WAY \<noteq> 0) s4;
             case r of
               Inl e \<Rightarrow>
                 Some (Some err_binder_alloc_buf_failed,
                       binder_transaction_fail (if e = ESRCH then BR_DEAD_REPLY else BR_FAILED_REPLY)
                         e l1, s5)
             | Inr buffer \<Rightarrow> do {
                 s6 \<leftarrow> transaction_update t (\<lambda>x. x\<lparr>t_buffer := Some buffer\<rparr>) s5;
                 s7 \<leftarrow> buffer_update buffer
                        (\<lambda>x. x\<lparr>allow_user_free := False, buffer_debug_id := t_debug,
                                buffer_transaction := Some t, target_node := l_target_node l\<rparr>) s6;
                 Some (None, l1, s7) } }) }"

text \<open>
  The two copies from the sender's memory and the two checks of alignment. \<open>offp\<close> is still
  \<open>off_start\<close>, the index 0.
\<close>

definition binder_transaction_copy ::
  "kernel_env \<Rightarrow> binder_transaction_data \<Rightarrow> u64 \<Rightarrow> binder_transaction_locals \<Rightarrow> binder_state
     \<Rightarrow> (err_label option \<times> binder_transaction_locals \<times> binder_state) option" where
  "binder_transaction_copy env tr extra_buffers l s = do {
     t \<leftarrow> l_t l;
     tx \<leftarrow> h_transactions s t;
     buffer \<leftarrow> t_buffer tx;
     case copy_objects_from_user env (tr_data_buffer tr) (tr_data_size tr) of
       None \<Rightarrow>
         Some (Some err_copy_data_failed, binder_transaction_fail BR_FAILED_REPLY EFAULT l,
               binder_user_error s)
     | Some objs \<Rightarrow> do {
         s1 \<leftarrow> buffer_update buffer (\<lambda>x. x\<lparr>buffer_objects := objs\<rparr>) s;
         case copy_offsets_from_user env (tr_data_offsets tr) (tr_offsets_size tr) of
           None \<Rightarrow>
             Some (Some err_copy_data_failed, binder_transaction_fail BR_FAILED_REPLY EFAULT l,
                   binder_user_error s1)
         | Some offs \<Rightarrow> do {
             s2 \<leftarrow> buffer_update buffer (\<lambda>x. x\<lparr>buffer_offsets := offs\<rparr>) s1;
             if \<not> IS_ALIGNED (tr_offsets_size tr) 8 then
               Some (Some err_bad_offset, binder_transaction_fail BR_FAILED_REPLY EINVAL l,
                     binder_user_error s2)
             else if \<not> IS_ALIGNED extra_buffers 8 then
               Some (Some err_bad_offset, binder_transaction_fail BR_FAILED_REPLY EINVAL l,
                     binder_user_error s2)
             else Some (None, l, s2) } } }"

text \<open>
  The variables of the loop over the offsets array, and its body for each type of object.
  A branch ends with the label and the error it leaves by, or with the new variables.
\<close>

record binder_transaction_cursor =
  off_min :: u64
  sg_bufp :: u64
  last_fixup_obj :: "u64 option"
  last_fixup_min_off :: u64

definition store_object :: "nat \<Rightarrow> u64 \<Rightarrow> binder_object \<Rightarrow> binder_state \<Rightarrow> binder_state option" where
  "store_object buffer offp obj s =
     buffer_update buffer (\<lambda>x. x\<lparr>buffer_objects := (buffer_objects x)(offp := obj)\<rparr>) s"

definition binder_transaction_flat ::
  "kernel_env \<Rightarrow> nat \<Rightarrow> nat \<Rightarrow> nat \<Rightarrow> u64 \<Rightarrow> binder_object \<Rightarrow> binder_transaction_cursor
     \<Rightarrow> binder_state
     \<Rightarrow> (((err_label \<times> errno) + binder_transaction_cursor) \<times> binder_state) option" where
  "binder_transaction_flat env thread t buffer offp obj cur s = do {
     (rc, ty, fp, s1) \<leftarrow>
       (if hdr_type obj = BINDER_TYPE_BINDER \<or> hdr_type obj = BINDER_TYPE_WEAK_BINDER
        then binder_translate_binder env (hdr_type obj) (as_flat obj) t thread s
        else binder_translate_handle env (hdr_type obj) (as_flat obj) t thread s);
     s2 \<leftarrow> store_object buffer offp (obj\<lparr>hdr_type := ty, as_flat := fp\<rparr>) s1;
     case rc of
       ERR e \<Rightarrow> Some (Inl (err_translate_failed, e), s2)
     | OK \<Rightarrow> Some (Inr cur, s2) }"

definition binder_transaction_fd ::
  "kernel_env \<Rightarrow> nat \<Rightarrow> nat \<Rightarrow> nat option \<Rightarrow> nat \<Rightarrow> u64 \<Rightarrow> binder_object
     \<Rightarrow> binder_transaction_cursor \<Rightarrow> binder_state
     \<Rightarrow> (((err_label \<times> errno) + binder_transaction_cursor) \<times> binder_state) option" where
  "binder_transaction_fd env thread t in_reply_to buffer offp obj cur s = do {
     (r, s1) \<leftarrow> binder_translate_fd env (fd (as_fd obj)) t thread in_reply_to s;
     case r of
       Inl e \<Rightarrow> Some (Inl (err_translate_failed, e), s1)
     | Inr target_fd \<Rightarrow> do {
         s2 \<leftarrow> store_object buffer offp
                (obj\<lparr>as_fd := set_fd target_fd ((as_fd obj)\<lparr>pad_binder := 0\<rparr>)\<rparr>) s1;
         Some (Inr cur, s2) } }"

definition binder_transaction_fda ::
  "kernel_env \<Rightarrow> nat \<Rightarrow> nat \<Rightarrow> nat option \<Rightarrow> nat \<Rightarrow> nat \<Rightarrow> binder_fd_array_object
     \<Rightarrow> binder_transaction_cursor \<Rightarrow> binder_state
     \<Rightarrow> (((err_label \<times> errno) + binder_transaction_cursor) \<times> binder_state) option" where
  "binder_transaction_fda env thread t in_reply_to buffer i fda cur s = do {
     b \<leftarrow> h_buffers s buffer;
     case binder_validate_ptr b (fda_parent fda) (take i (buffer_offsets b)) of
       None \<Rightarrow> Some (Inl (err_bad_parent, EINVAL), binder_user_error s)
     | Some parent \<Rightarrow> do {
         ok \<leftarrow> binder_validate_fixup b parent (fda_parent_offset fda) (last_fixup_obj cur)
                 (last_fixup_min_off cur);
         if \<not> ok then Some (Inl (err_bad_parent, EINVAL), binder_user_error s)
         else do {
           (rc, s1) \<leftarrow> binder_translate_fd_array env fda (as_ptr (buffer_objects b parent))
                         t thread in_reply_to s;
           case rc of
             ERR e \<Rightarrow> Some (Inl (err_translate_failed, e), s1)
           | OK \<Rightarrow>
               Some (Inr (cur\<lparr>last_fixup_obj := Some parent,
                              last_fixup_min_off := fda_parent_offset fda + 4 * num_fds fda\<rparr>),
                     s1) } } }"

definition binder_transaction_ptr ::
  "kernel_env \<Rightarrow> nat \<Rightarrow> nat \<Rightarrow> nat \<Rightarrow> nat \<Rightarrow> u64 \<Rightarrow> binder_object \<Rightarrow> u64
     \<Rightarrow> binder_transaction_cursor \<Rightarrow> binder_state
     \<Rightarrow> (((err_label \<times> errno) + binder_transaction_cursor) \<times> binder_state) option" where
  "binder_transaction_ptr env thread t buffer i offp obj sg_buf_end cur s = do {
     tx \<leftarrow> h_transactions s t;
     target_proc \<leftarrow> to_proc tx;
     tpr \<leftarrow> h_procs s target_proc;
     let bp = as_ptr obj;
     let buf_left = sg_buf_end - sg_bufp cur;
     if bbo_length bp > buf_left then Some (Inl (err_bad_offset, EINVAL), binder_user_error s)
     else
       case copy_bytes_from_user env (bbo_buffer bp) (bbo_length bp) of
         None \<Rightarrow> Some (Inl (err_copy_data_failed, EFAULT), binder_user_error s)
       | Some bytes \<Rightarrow> do {
           let bp1 = bp\<lparr>bbo_buffer := sg_bufp cur
                          + binder_alloc_get_user_buffer_offset (proc_alloc tpr)\<rparr>;
           s1 \<leftarrow> buffer_update buffer
                  (\<lambda>x. x\<lparr>buffer_sg := (\<lambda>a. if a - sg_bufp cur < bbo_length bp
                                            then bytes (a - sg_bufp cur) else buffer_sg x a)\<rparr>) s;
           s2 \<leftarrow> store_object buffer offp (obj\<lparr>as_ptr := bp1\<rparr>) s1;
           let cur1 = cur\<lparr>sg_bufp := sg_bufp cur + ALIGN (bbo_length bp) 8\<rparr>;
           (rc, s3) \<leftarrow> binder_fixup_parent t thread bp1 i (last_fixup_obj cur)
                         (last_fixup_min_off cur) s2;
           case rc of
             ERR e \<Rightarrow> Some (Inl (err_translate_failed, e), s3)
           | OK \<Rightarrow> Some (Inr (cur1\<lparr>last_fixup_obj := Some offp, last_fixup_min_off := 0\<rparr>), s3) } }"

definition binder_transaction_object ::
  "kernel_env \<Rightarrow> nat \<Rightarrow> nat \<Rightarrow> nat option \<Rightarrow> u64 \<Rightarrow> nat \<Rightarrow> binder_transaction_cursor
     \<Rightarrow> binder_state
     \<Rightarrow> (((err_label \<times> errno) + binder_transaction_cursor) \<times> binder_state) option" where
  "binder_transaction_object env thread t in_reply_to sg_buf_end i cur s = do {
     tx \<leftarrow> h_transactions s t;
     buffer \<leftarrow> t_buffer tx;
     b \<leftarrow> h_buffers s buffer;
     if i \<ge> length (buffer_offsets b) then None
     else
       let offp = buffer_offsets b ! i;
           object_size = binder_validate_object b offp
       in
       if object_size = 0 \<or> offp < off_min cur
       then Some (Inl (err_bad_offset, EINVAL), binder_user_error s)
       else
         let obj = buffer_objects b offp;
             cur1 = cur\<lparr>off_min := offp + object_size\<rparr>
         in
         case hdr_type obj of
           BINDER_TYPE_BINDER \<Rightarrow> binder_transaction_flat env thread t buffer offp obj cur1 s
         | BINDER_TYPE_WEAK_BINDER \<Rightarrow> binder_transaction_flat env thread t buffer offp obj cur1 s
         | BINDER_TYPE_HANDLE \<Rightarrow> binder_transaction_flat env thread t buffer offp obj cur1 s
         | BINDER_TYPE_WEAK_HANDLE \<Rightarrow> binder_transaction_flat env thread t buffer offp obj cur1 s
         | BINDER_TYPE_FD \<Rightarrow>
             binder_transaction_fd env thread t in_reply_to buffer offp obj cur1 s
         | BINDER_TYPE_FDA \<Rightarrow>
             binder_transaction_fda env thread t in_reply_to buffer i (as_fda obj) cur1 s
         | BINDER_TYPE_PTR \<Rightarrow>
             binder_transaction_ptr env thread t buffer i offp obj sg_buf_end cur1 s
         | BINDER_TYPE_OTHER v \<Rightarrow>
             Some (Inl (err_bad_object_type, EINVAL), binder_user_error s) }"

text \<open>
  The loop \<open>for (; offp < off_end; offp++)\<close> from the index \<open>i\<close> over \<open>n\<close> more words. It ends
  with the label, the error and the index it stopped at, or with nothing after the last word.
\<close>

fun binder_transaction_objects ::
  "kernel_env \<Rightarrow> nat \<Rightarrow> nat \<Rightarrow> nat option \<Rightarrow> u64 \<Rightarrow> nat \<Rightarrow> nat \<Rightarrow> binder_transaction_cursor
     \<Rightarrow> binder_state \<Rightarrow> ((err_label \<times> errno \<times> nat) option \<times> binder_state) option" where
  "binder_transaction_objects env thread t in_reply_to sg_buf_end i 0 cur s = Some (None, s)"
| "binder_transaction_objects env thread t in_reply_to sg_buf_end i (Suc n) cur s = do {
     (r, s1) \<leftarrow> binder_transaction_object env thread t in_reply_to sg_buf_end i cur s;
     case r of
       Inl (label, e) \<Rightarrow> Some (Some (label, e, i), s1)
     | Inr cur1 \<Rightarrow>
         binder_transaction_objects env thread t in_reply_to sg_buf_end (Suc i) n cur1 s1 }"

text \<open>
  After the loop: the completion marker goes to the sender's todo list and the transaction
  to its target. Waking the target up changes nothing in the store.
\<close>

definition binder_transaction_target_dead ::
  "binder_transaction_locals \<Rightarrow> binder_state \<Rightarrow> bool option" where
  "binder_transaction_target_dead l s = do {
     target_proc \<leftarrow> l_target_proc l;
     tpr \<leftarrow> h_procs s target_proc;
     case l_target_thread l of
       None \<Rightarrow> Some (proc_is_dead tpr)
     | Some tt \<Rightarrow> do { tth \<leftarrow> h_threads s tt; Some (proc_is_dead tpr \<or> thread_is_dead tth) } }"

definition binder_transaction_dispatch ::
  "nat \<Rightarrow> bool \<Rightarrow> binder_transaction_locals \<Rightarrow> binder_state
     \<Rightarrow> (err_label option \<times> binder_state) option" where
  "binder_transaction_dispatch thread reply l s0 = do {
     t \<leftarrow> l_t l;
     tcomplete \<leftarrow> l_tcomplete l;
     target_proc \<leftarrow> l_target_proc l;
     let target_list = (case l_target_thread l of
                          Some tt \<Rightarrow> L_thread_todo tt
                        | None \<Rightarrow> L_proc_todo target_proc);
     s \<leftarrow> binder_enqueue_work_ilocked (W_tcomplete tcomplete) (Some (L_thread_todo thread)) s0;
     tx \<leftarrow> h_transactions s t;
     buffer \<leftarrow> t_buffer tx;
     b \<leftarrow> h_buffers s buffer;
     if reply then do {
       tt \<leftarrow> l_target_thread l;
       tth \<leftarrow> h_threads s tt;
       if thread_is_dead tth then Some (Some err_dead_proc_or_thread, s)
       else if async_transaction b then None
       else do {
         in_reply_to \<leftarrow> l_in_reply_to l;
         s1 \<leftarrow> binder_pop_transaction tt in_reply_to s;
         s2 \<leftarrow> binder_free_transaction in_reply_to s1;
         s3 \<leftarrow> binder_enqueue_work_ilocked (W_transaction t) (Some target_list) s2;
         Some (None, s3) } }
     else if t_flags tx AND TF_ONE_WAY = 0 then
       (if async_transaction b then None
        else do {
          th \<leftarrow> h_threads s thread;
          s1 \<leftarrow> transaction_update t
                 (\<lambda>x. x\<lparr>need_reply := True, from_parent := transaction_stack th\<rparr>) s;
          s2 \<leftarrow> thread_update thread (\<lambda>x. x\<lparr>transaction_stack := Some t\<rparr>) s1;
          dead \<leftarrow> binder_transaction_target_dead l s2;
          if dead then do {
            s3 \<leftarrow> binder_pop_transaction thread t s2;
            Some (Some err_dead_proc_or_thread, s3) }
          else do {
            s3 \<leftarrow> binder_enqueue_work_ilocked (W_transaction t) (Some target_list) s2;
            Some (None, s3) } })
     else do {
       node \<leftarrow> l_target_node l;
       if \<not> async_transaction b then None
       else do {
         n \<leftarrow> h_nodes s node;
         s1 \<leftarrow> (if has_async_transaction n then Some s
                else node_update node (\<lambda>x. x\<lparr>has_async_transaction := True\<rparr>) s);
         dead \<leftarrow> binder_transaction_target_dead l s1;
         if dead then Some (Some err_dead_proc_or_thread, s1)
         else do {
           s2 \<leftarrow> binder_enqueue_work_ilocked (W_transaction t)
                  (Some (if has_async_transaction n then L_async_todo node else target_list)) s1;
           Some (None, s2) } } } }"

text \<open>The loop and what follows it, for a transaction that has its buffer filled.\<close>

definition binder_transaction_translate ::
  "kernel_env \<Rightarrow> nat \<Rightarrow> binder_transaction_data \<Rightarrow> bool \<Rightarrow> u64 \<Rightarrow> binder_transaction_locals
     \<Rightarrow> binder_state \<Rightarrow> binder_state option" where
  "binder_transaction_translate env thread tr reply extra_buffers l s = do {
     t \<leftarrow> l_t l;
     tx \<leftarrow> h_transactions s t;
     buffer \<leftarrow> t_buffer tx;
     b \<leftarrow> h_buffers s buffer;
     let off_start = data b + ALIGN (tr_data_size tr) 8;
     let off_end = off_start + tr_offsets_size tr;
     let sg_buf_start = ALIGN off_end 8;
     let sg_buf_end = sg_buf_start + extra_buffers;
     let n = unat (tr_offsets_size tr) div 8;
     (r, s1) \<leftarrow> binder_transaction_objects env thread t (l_in_reply_to l) sg_buf_end 0 n
                  \<lparr>off_min = 0, sg_bufp = sg_buf_start, last_fixup_obj = None,
                   last_fixup_min_off = 0\<rparr> s;
     case r of
       Some (label, e, i) \<Rightarrow>
         binder_transaction_error label thread
           ((binder_transaction_fail BR_FAILED_REPLY e l)\<lparr>l_offp := i\<rparr>) s1
     | None \<Rightarrow> do {
         (d, s2) \<leftarrow> binder_transaction_dispatch thread reply l s1;
         case d of
           Some label \<Rightarrow> binder_transaction_error label thread (l\<lparr>l_offp := n\<rparr>) s2
         | None \<Rightarrow> do {
             s3 \<leftarrow> (case l_target_thread l of
                      Some tt \<Rightarrow> binder_thread_dec_tmpref tt s2
                    | None \<Rightarrow> Some s2);
             target_proc \<leftarrow> l_target_proc l;
             binder_proc_dec_tmpref target_proc s3 } } }"

text \<open>
  \<open>binder_transaction\<close>. The caller's \<open>current\<close> is the thread itself. The function returns
  nothing: a failure is left as \<open>return_error\<close> work on the sender's todo list.
\<close>

definition binder_transaction ::
  "kernel_env \<Rightarrow> nat \<Rightarrow> nat \<Rightarrow> binder_transaction_data \<Rightarrow> bool \<Rightarrow> u64 \<Rightarrow> binder_state
     \<Rightarrow> binder_state option" where
  "binder_transaction env proc thread tr reply extra_buffers s0 = do {
     let s = s0\<lparr>binder_last_id := binder_last_id s0 + 1\<rparr>;
     let t_debug = binder_last_id s;
     let l0 = \<lparr>l_target_proc = None, l_target_thread = None, l_target_node = None,
               l_in_reply_to = None, l_return_error = BR_OK, l_return_error_param = OK,
               l_t = None, l_tcomplete = None, l_offp = 0\<rparr>;
     (e1, l1, s1) \<leftarrow> (if reply then binder_transaction_reply_target env thread l0 s
                      else binder_transaction_call_target env proc thread tr l0 s);
     case e1 of
       Some label \<Rightarrow> binder_transaction_error label thread l1 s1
     | None \<Rightarrow> do {
         (e2, l2, s2) \<leftarrow> binder_transaction_alloc env proc thread tr reply extra_buffers
                           t_debug l1 s1;
         case e2 of
           Some label \<Rightarrow> binder_transaction_error label thread l2 s2
         | None \<Rightarrow> do {
             (e3, l3, s3) \<leftarrow> binder_transaction_copy env tr extra_buffers l2 s2;
             case e3 of
               Some label \<Rightarrow> binder_transaction_error label thread l3 s3
             | None \<Rightarrow> binder_transaction_translate env thread tr reply extra_buffers l3 s3 } } }"

subsection \<open>Writing: \<open>binder_thread_write\<close>\<close>

text \<open>
  How the body of the loop ends for one command: with \<open>break\<close>, and then \<open>ptr\<close> stands
  behind the command's arguments, or with \<open>return\<close>. \<open>ptr\<close> counts from the start of the
  write buffer, so that \<open>*consumed = ptr - buffer\<close> is \<open>ptr\<close> itself. The statistics counters
  are left out.
\<close>

datatype write_exit = Write_break nat | Write_return ret

text \<open>
  \<open>BC_INCREFS\<close>, \<open>BC_ACQUIRE\<close>, \<open>BC_RELEASE\<close>, \<open>BC_DECREFS\<close>. \<open>ret\<close> starts at -1, which is
  the value of \<open>-EPERM\<close>.
\<close>

definition binder_thread_write_refs ::
  "kernel_env \<Rightarrow> nat \<Rightarrow> nat \<Rightarrow> binder_command \<Rightarrow> nat \<Rightarrow> nat \<Rightarrow> binder_state
     \<Rightarrow> (write_exit \<times> binder_state) option" where
  "binder_thread_write_refs env proc thread cmd buffer ptr s =
     (case get_user_u32 env (buffer + ptr) of
        None \<Rightarrow> Some (Write_return (ERR EFAULT), s)
      | Some target \<Rightarrow> do {
          let is_strong = (cmd = BC_ACQUIRE \<or> cmd = BC_RELEASE);
          let increment = (cmd = BC_INCREFS \<or> cmd = BC_ACQUIRE);
          (ret1, rdata1, s1) \<leftarrow>
            (if increment \<and> target = 0 then do {
               pr \<leftarrow> h_procs s proc;
               c \<leftarrow> h_contexts s (proc_context pr);
               case binder_context_mgr_node c of
                 Some ctx_mgr_node \<Rightarrow> binder_inc_ref_for_node proc ctx_mgr_node is_strong None s
               | None \<Rightarrow> Some (ERR EPERM, None, s) }
             else Some (ERR EPERM, None, s));
          (ret2, rdata2, s2) \<leftarrow>
            (if ret1 \<noteq> OK then binder_update_ref_for_handle proc target increment is_strong s1
             else Some (ret1, rdata1, s1));
          if ret2 \<noteq> OK then Some (Write_break (ptr + 4), binder_user_error s2)
          else do {
            rdata \<leftarrow> rdata2;
            Some (Write_break (ptr + 4),
                  if data_desc rdata \<noteq> target then binder_user_error s2 else s2) } })"

text \<open>\<open>BC_INCREFS_DONE\<close> and \<open>BC_ACQUIRE_DONE\<close>.\<close>

definition binder_thread_write_done ::
  "kernel_env \<Rightarrow> nat \<Rightarrow> binder_command \<Rightarrow> nat \<Rightarrow> nat \<Rightarrow> binder_state
     \<Rightarrow> (write_exit \<times> binder_state) option" where
  "binder_thread_write_done env proc cmd buffer ptr s =
     (case get_user_u64 env (buffer + ptr) of
        None \<Rightarrow> Some (Write_return (ERR EFAULT), s)
      | Some node_ptr' \<Rightarrow>
         (case get_user_u64 env (buffer + (ptr + 8)) of
            None \<Rightarrow> Some (Write_return (ERR EFAULT), s)
          | Some cookie \<Rightarrow> do {
              (found, s1) \<leftarrow> binder_get_node proc node_ptr' s;
              case found of
                None \<Rightarrow> Some (Write_break (ptr + 16), binder_user_error s1)
              | Some node \<Rightarrow> do {
                  n \<leftarrow> h_nodes s1 node;
                  if cookie \<noteq> node_cookie n then do {
                    s2 \<leftarrow> binder_put_node node (binder_user_error s1);
                    Some (Write_break (ptr + 16), s2) }
                  else if (if cmd = BC_ACQUIRE_DONE then \<not> pending_strong_ref n
                           else \<not> pending_weak_ref n) then do {
                    s2 \<leftarrow> binder_put_node node (binder_user_error s1);
                    Some (Write_break (ptr + 16), s2) }
                  else do {
                    s2 \<leftarrow> node_update node
                           (\<lambda>x. if cmd = BC_ACQUIRE_DONE then x\<lparr>pending_strong_ref := False\<rparr>
                                else x\<lparr>pending_weak_ref := False\<rparr>) s1;
                    (free_node, s3) \<leftarrow> binder_dec_node_nilocked node (cmd = BC_ACQUIRE_DONE) False s2;
                    s4 \<leftarrow> binder_put_node node s3;
                    Some (Write_break (ptr + 16), s4) } } }))"

text \<open>
  \<open>BC_FREE_BUFFER\<close>. First the block for the buffer of an asynchronous transaction
  (\<open>if (buffer->async_transaction && buffer->target_node)\<close>): the next transaction waiting
  on the node goes to the todo list of the calling thread.
\<close>

definition binder_thread_write_free_async ::
  "nat \<Rightarrow> nat \<Rightarrow> nat \<Rightarrow> binder_state \<Rightarrow> binder_state option" where
  "binder_thread_write_free_async proc thread buf_node s = do {
     n \<leftarrow> h_nodes s buf_node;
     if \<not> has_async_transaction n then None
     else if node_proc n \<noteq> Some proc then None
     else do {
       (w, s1) \<leftarrow> binder_dequeue_work_head_ilocked (L_async_todo buf_node) s;
       case w of
         None \<Rightarrow> node_update buf_node (\<lambda>x. x\<lparr>has_async_transaction := False\<rparr>) s1
       | Some work \<Rightarrow> binder_enqueue_work_ilocked work (Some (L_thread_todo thread)) s1 } }"

definition binder_thread_write_free_buffer ::
  "kernel_env \<Rightarrow> nat \<Rightarrow> nat \<Rightarrow> nat \<Rightarrow> nat \<Rightarrow> binder_state
     \<Rightarrow> (write_exit \<times> binder_state) option" where
  "binder_thread_write_free_buffer env proc thread buffer ptr s =
     (case get_user_u64 env (buffer + ptr) of
        None \<Rightarrow> Some (Write_return (ERR EFAULT), s)
      | Some data_ptr \<Rightarrow> do {
          found \<leftarrow> binder_alloc_prepare_to_free proc data_ptr s;
          case found of
            None \<Rightarrow> Some (Write_break (ptr + 8), binder_user_error s)
          | Some buf \<Rightarrow> do {
              b \<leftarrow> h_buffers s buf;
              if \<not> allow_user_free b then Some (Write_break (ptr + 8), binder_user_error s)
              else do {
                s1 \<leftarrow> (case buffer_transaction b of
                         Some t \<Rightarrow> do {
                           s' \<leftarrow> transaction_update t (\<lambda>x. x\<lparr>t_buffer := None\<rparr>) s;
                           buffer_update buf (\<lambda>x. x\<lparr>buffer_transaction := None\<rparr>) s' }
                       | None \<Rightarrow> Some s);
                s2 \<leftarrow> (case target_node b of
                         Some buf_node \<Rightarrow>
                           if async_transaction b
                           then binder_thread_write_free_async proc thread buf_node s1
                           else Some s1
                       | None \<Rightarrow> Some s1);
                s3 \<leftarrow> binder_transaction_buffer_release proc buf None s2;
                s4 \<leftarrow> binder_alloc_free_buf proc buf s3;
                Some (Write_break (ptr + 8), s4) } } })"

text \<open>\<open>BC_TRANSACTION\<close>, \<open>BC_REPLY\<close> and their scatter-gather forms.\<close>

definition binder_thread_write_transaction ::
  "kernel_env \<Rightarrow> nat \<Rightarrow> nat \<Rightarrow> binder_command \<Rightarrow> nat \<Rightarrow> nat \<Rightarrow> binder_state
     \<Rightarrow> (write_exit \<times> binder_state) option" where
  "binder_thread_write_transaction env proc thread cmd buffer ptr s =
     (if cmd = BC_TRANSACTION_SG \<or> cmd = BC_REPLY_SG then
        (case copy_tr_sg_from_user env (buffer + ptr) of
           None \<Rightarrow> Some (Write_return (ERR EFAULT), s)
         | Some (tr, buffers_size) \<Rightarrow> do {
             s1 \<leftarrow> binder_transaction env proc thread tr (cmd = BC_REPLY_SG) buffers_size s;
             Some (Write_break (ptr + 72), s1) })
      else
        (case copy_tr_from_user env (buffer + ptr) of
           None \<Rightarrow> Some (Write_return (ERR EFAULT), s)
         | Some tr \<Rightarrow> do {
             s1 \<leftarrow> binder_transaction env proc thread tr (cmd = BC_REPLY) 0 s;
             Some (Write_break (ptr + 64), s1) }))"

text \<open>\<open>BC_REGISTER_LOOPER\<close>, \<open>BC_ENTER_LOOPER\<close>, \<open>BC_EXIT_LOOPER\<close>.\<close>

definition binder_thread_write_looper ::
  "nat \<Rightarrow> nat \<Rightarrow> binder_command \<Rightarrow> binder_state \<Rightarrow> binder_state option" where
  "binder_thread_write_looper proc thread cmd s = do {
     th \<leftarrow> h_threads s thread;
     pr \<leftarrow> h_procs s proc;
     if cmd = BC_REGISTER_LOOPER then do {
       s1 \<leftarrow> (if looper th AND BINDER_LOOPER_STATE_ENTERED \<noteq> 0 then
                map_option binder_user_error
                  (thread_update thread
                     (\<lambda>x. x\<lparr>looper := looper x OR BINDER_LOOPER_STATE_INVALID\<rparr>) s)
              else if requested_threads pr = 0 then
                map_option binder_user_error
                  (thread_update thread
                     (\<lambda>x. x\<lparr>looper := looper x OR BINDER_LOOPER_STATE_INVALID\<rparr>) s)
              else proc_update proc
                     (\<lambda>x. x\<lparr>requested_threads := requested_threads x - 1,
                             requested_threads_started := requested_threads_started x + 1\<rparr>) s);
       thread_update thread (\<lambda>x. x\<lparr>looper := looper x OR BINDER_LOOPER_STATE_REGISTERED\<rparr>) s1 }
     else if cmd = BC_ENTER_LOOPER then do {
       s1 \<leftarrow> (if looper th AND BINDER_LOOPER_STATE_REGISTERED \<noteq> 0 then
                map_option binder_user_error
                  (thread_update thread
                     (\<lambda>x. x\<lparr>looper := looper x OR BINDER_LOOPER_STATE_INVALID\<rparr>) s)
              else Some s);
       thread_update thread (\<lambda>x. x\<lparr>looper := looper x OR BINDER_LOOPER_STATE_ENTERED\<rparr>) s1 }
     else thread_update thread (\<lambda>x. x\<lparr>looper := looper x OR BINDER_LOOPER_STATE_EXITED\<rparr>) s }"

text \<open>
  Where a death notification is queued: on the todo list of the thread if it is a looper,
  on that of the process otherwise.
\<close>

definition death_target_list :: "binder_state \<Rightarrow> nat \<Rightarrow> nat \<Rightarrow> work_list option" where
  "death_target_list s proc thread = do {
     th \<leftarrow> h_threads s thread;
     Some (if looper th AND (BINDER_LOOPER_STATE_REGISTERED OR BINDER_LOOPER_STATE_ENTERED) \<noteq> 0
           then L_thread_todo thread else L_proc_todo proc) }"

text \<open>\<open>BC_REQUEST_DEATH_NOTIFICATION\<close> and \<open>BC_CLEAR_DEATH_NOTIFICATION\<close>, for the reference found.\<close>

definition binder_thread_write_request_death ::
  "nat \<Rightarrow> nat \<Rightarrow> nat \<Rightarrow> u64 \<Rightarrow> binder_state \<Rightarrow> binder_state option" where
  "binder_thread_write_request_death proc thread ref cookie s = do {
     r \<leftarrow> h_refs s ref;
     if ref_death r \<noteq> None then Some (binder_user_error s)
     else
       case kzalloc s of
         (None, s1) \<Rightarrow> do {
           s2 \<leftarrow> thread_update thread (\<lambda>x. x\<lparr>return_error_cmd := BR_ERROR\<rparr>) s1;
           binder_enqueue_work_ilocked (W_return_error thread) (Some (L_thread_todo thread)) s2 }
       | (Some death, s1) \<Rightarrow> do {
           let s2 = s1\<lparr>h_deaths := (h_deaths s1)(death \<mapsto>
                      \<lparr>death_work_entry = None, death_work_type = None, death_cookie = cookie\<rparr>)\<rparr>;
           s3 \<leftarrow> ref_update ref (\<lambda>x. x\<lparr>ref_death := Some death\<rparr>) s2;
           node \<leftarrow> ref_node r;
           n \<leftarrow> h_nodes s3 node;
           if node_proc n = None then do {
             s4 \<leftarrow> death_update death (\<lambda>x. x\<lparr>death_work_type := Some BINDER_WORK_DEAD_BINDER\<rparr>) s3;
             binder_enqueue_work_ilocked (W_death death) (death_target_list s4 proc thread) s4 }
           else Some s3 } }"

definition binder_thread_write_clear_death ::
  "nat \<Rightarrow> nat \<Rightarrow> nat \<Rightarrow> u64 \<Rightarrow> binder_state \<Rightarrow> binder_state option" where
  "binder_thread_write_clear_death proc thread ref cookie s = do {
     r \<leftarrow> h_refs s ref;
     case ref_death r of
       None \<Rightarrow> Some (binder_user_error s)
     | Some death \<Rightarrow> do {
         d \<leftarrow> h_deaths s death;
         if death_cookie d \<noteq> cookie then Some (binder_user_error s)
         else do {
           s1 \<leftarrow> ref_update ref (\<lambda>x. x\<lparr>ref_death := None\<rparr>) s;
           if death_work_entry d = None then do {
             s2 \<leftarrow> death_update death
                    (\<lambda>x. x\<lparr>death_work_type := Some BINDER_WORK_CLEAR_DEATH_NOTIFICATION\<rparr>) s1;
             binder_enqueue_work_ilocked (W_death death) (death_target_list s2 proc thread) s2 }
           else if death_work_type d \<noteq> Some BINDER_WORK_DEAD_BINDER then None
           else death_update death
                  (\<lambda>x. x\<lparr>death_work_type := Some BINDER_WORK_DEAD_BINDER_AND_CLEAR\<rparr>) s1 } } }"

definition binder_thread_write_death ::
  "kernel_env \<Rightarrow> nat \<Rightarrow> nat \<Rightarrow> binder_command \<Rightarrow> nat \<Rightarrow> nat \<Rightarrow> binder_state
     \<Rightarrow> (write_exit \<times> binder_state) option" where
  "binder_thread_write_death env proc thread cmd buffer ptr s =
     (case get_user_u32 env (buffer + ptr) of
        None \<Rightarrow> Some (Write_return (ERR EFAULT), s)
      | Some target \<Rightarrow>
         (case get_user_u64 env (buffer + (ptr + 4)) of
            None \<Rightarrow> Some (Write_return (ERR EFAULT), s)
          | Some cookie \<Rightarrow> do {
              (found, s1) \<leftarrow> binder_get_ref proc target False s;
              case found of
                None \<Rightarrow> Some (Write_break (ptr + 12), binder_user_error s1)
              | Some ref \<Rightarrow> do {
                  s2 \<leftarrow> (if cmd = BC_REQUEST_DEATH_NOTIFICATION
                         then binder_thread_write_request_death proc thread ref cookie s1
                         else binder_thread_write_clear_death proc thread ref cookie s1);
                  Some (Write_break (ptr + 12), s2) } }))"

text \<open>
  \<open>BC_DEAD_BINDER_DONE\<close>: the first entry of \<open>delivered_death\<close> with the cookie. The entries
  of that list are death notifications.
\<close>

fun find_death_by_cookie :: "binder_state \<Rightarrow> u64 \<Rightarrow> binder_work list \<Rightarrow> nat option option" where
  "find_death_by_cookie s cookie [] = Some None"
| "find_death_by_cookie s cookie (W_death d # ws) =
     do { x \<leftarrow> h_deaths s d;
          if death_cookie x = cookie then Some (Some d) else find_death_by_cookie s cookie ws }"
| "find_death_by_cookie s cookie (w # ws) = None"

definition binder_thread_write_dead_binder_done ::
  "kernel_env \<Rightarrow> nat \<Rightarrow> nat \<Rightarrow> nat \<Rightarrow> nat \<Rightarrow> binder_state
     \<Rightarrow> (write_exit \<times> binder_state) option" where
  "binder_thread_write_dead_binder_done env proc thread buffer ptr s =
     (case get_user_u64 env (buffer + ptr) of
        None \<Rightarrow> Some (Write_return (ERR EFAULT), s)
      | Some cookie \<Rightarrow> do {
          pr \<leftarrow> h_procs s proc;
          found \<leftarrow> find_death_by_cookie s cookie (delivered_death pr);
          case found of
            None \<Rightarrow> Some (Write_break (ptr + 8), binder_user_error s)
          | Some death \<Rightarrow> do {
              s1 \<leftarrow> binder_dequeue_work_ilocked (W_death death) s;
              d \<leftarrow> h_deaths s1 death;
              s2 \<leftarrow> (if death_work_type d = Some BINDER_WORK_DEAD_BINDER_AND_CLEAR then do {
                       s' \<leftarrow> death_update death
                              (\<lambda>x. x\<lparr>death_work_type :=
                                       Some BINDER_WORK_CLEAR_DEATH_NOTIFICATION\<rparr>) s1;
                       binder_enqueue_work_ilocked (W_death death)
                         (death_target_list s' proc thread) s' }
                     else Some s1);
              Some (Write_break (ptr + 8), s2) } })"

text \<open>The \<open>switch (cmd)\<close>; \<open>ptr\<close> stands behind the command word.\<close>

definition binder_thread_write_cmd ::
  "kernel_env \<Rightarrow> nat \<Rightarrow> nat \<Rightarrow> binder_command \<Rightarrow> nat \<Rightarrow> nat \<Rightarrow> binder_state
     \<Rightarrow> (write_exit \<times> binder_state) option" where
  "binder_thread_write_cmd env proc thread cmd buffer ptr s =
     (case cmd of
        BC_INCREFS \<Rightarrow> binder_thread_write_refs env proc thread cmd buffer ptr s
      | BC_ACQUIRE \<Rightarrow> binder_thread_write_refs env proc thread cmd buffer ptr s
      | BC_RELEASE \<Rightarrow> binder_thread_write_refs env proc thread cmd buffer ptr s
      | BC_DECREFS \<Rightarrow> binder_thread_write_refs env proc thread cmd buffer ptr s
      | BC_INCREFS_DONE \<Rightarrow> binder_thread_write_done env proc cmd buffer ptr s
      | BC_ACQUIRE_DONE \<Rightarrow> binder_thread_write_done env proc cmd buffer ptr s
      | BC_ATTEMPT_ACQUIRE \<Rightarrow> Some (Write_return (ERR EINVAL), s)
      | BC_ACQUIRE_RESULT \<Rightarrow> Some (Write_return (ERR EINVAL), s)
      | BC_FREE_BUFFER \<Rightarrow> binder_thread_write_free_buffer env proc thread buffer ptr s
      | BC_TRANSACTION_SG \<Rightarrow> binder_thread_write_transaction env proc thread cmd buffer ptr s
      | BC_REPLY_SG \<Rightarrow> binder_thread_write_transaction env proc thread cmd buffer ptr s
      | BC_TRANSACTION \<Rightarrow> binder_thread_write_transaction env proc thread cmd buffer ptr s
      | BC_REPLY \<Rightarrow> binder_thread_write_transaction env proc thread cmd buffer ptr s
      | BC_REGISTER_LOOPER \<Rightarrow>
          map_option (Pair (Write_break ptr)) (binder_thread_write_looper proc thread cmd s)
      | BC_ENTER_LOOPER \<Rightarrow>
          map_option (Pair (Write_break ptr)) (binder_thread_write_looper proc thread cmd s)
      | BC_EXIT_LOOPER \<Rightarrow>
          map_option (Pair (Write_break ptr)) (binder_thread_write_looper proc thread cmd s)
      | BC_REQUEST_DEATH_NOTIFICATION \<Rightarrow>
          binder_thread_write_death env proc thread cmd buffer ptr s
      | BC_CLEAR_DEATH_NOTIFICATION \<Rightarrow>
          binder_thread_write_death env proc thread cmd buffer ptr s
      | BC_DEAD_BINDER_DONE \<Rightarrow> binder_thread_write_dead_binder_done env proc thread buffer ptr s
      | BC_OTHER v \<Rightarrow> Some (Write_return (ERR EINVAL), s))"

text \<open>
  The loop \<open>while (ptr < end && thread->return_error.cmd == BR_OK)\<close>. The result is the
  value returned and \<open>*consumed\<close>, which is written at the end of each pass.
\<close>

partial_function (option) binder_thread_write_loop ::
  "kernel_env \<Rightarrow> nat \<Rightarrow> nat \<Rightarrow> nat \<Rightarrow> nat \<Rightarrow> nat \<Rightarrow> nat \<Rightarrow> binder_state
     \<Rightarrow> (ret \<times> nat \<times> binder_state) option" where
  "binder_thread_write_loop env proc thread buffer size' ptr consumed s = do {
     th \<leftarrow> h_threads s thread;
     if ptr < size' \<and> return_error_cmd th = BR_OK then
       (case get_user_cmd env (buffer + ptr) of
          None \<Rightarrow> Some (ERR EFAULT, consumed, s)
        | Some cmd \<Rightarrow> do {
            (r, s1) \<leftarrow> binder_thread_write_cmd env proc thread cmd buffer (ptr + 4) s;
            case r of
              Write_return rc \<Rightarrow> Some (rc, consumed, s1)
            | Write_break ptr1 \<Rightarrow>
                binder_thread_write_loop env proc thread buffer size' ptr1 ptr1 s1 })
     else Some (OK, consumed, s) }"

declare binder_thread_write_loop.simps [code]

definition binder_thread_write ::
  "kernel_env \<Rightarrow> nat \<Rightarrow> nat \<Rightarrow> nat \<Rightarrow> nat \<Rightarrow> nat \<Rightarrow> binder_state
     \<Rightarrow> (ret \<times> nat \<times> binder_state) option" where
  "binder_thread_write env proc thread buffer size' consumed s =
     binder_thread_write_loop env proc thread buffer size' consumed consumed s"

subsection \<open>Vocabulary of the statements\<close>

text \<open>
  The handle-choosing loop of \<open>binder_get_ref_for_node\<close> on the plain sequence of the
  handles in use, and the handle of a reference in a store.
\<close>

fun first_gap :: "u32 \<Rightarrow> u32 list \<Rightarrow> u32" where
  "first_gap d [] = d"
| "first_gap d (x # xs) = (if x > d then d else first_gap (x + 1) xs)"

definition ref_desc :: "binder_state \<Rightarrow> nat \<Rightarrow> u32" where
  "ref_desc s r = data_desc (ref_data (the (h_refs s r)))"

text \<open>Small stores for the worked examples.\<close>

definition empty_state :: binder_state where
  "empty_state = \<lparr>h_contexts = Map.empty, h_procs = Map.empty, h_threads = Map.empty,
     h_nodes = Map.empty, h_refs = Map.empty, h_deaths = Map.empty,
     h_transactions = Map.empty, h_tcompletes = Map.empty, h_buffers = Map.empty,
     binder_procs = [], binder_dead_nodes = [], binder_last_id = 0,
     binder_stop_on_user_error = 0, user_error_log = 0, kzalloc_next = 100,
     kzalloc_oracle = [], task_nice = (\<lambda>_. 0)\<rparr>"

definition empty_proc :: "nat \<Rightarrow> nat \<Rightarrow> binder_proc" where
  "empty_proc pid ctx = \<lparr>proc_threads = [], proc_nodes = [], refs_by_desc = [], refs_by_node = [],
     proc_pid = pid, proc_files = True, proc_fds = [], proc_is_dead = False, proc_todo = [],
     delivered_death = [], max_threads = 0, requested_threads = 0,
     requested_threads_started = 0, ready_threads = 0, proc_tmp_ref = 0,
     default_priority = 0,
     proc_alloc = \<lparr>alloc_buffers = [], user_buffer_offset = 0, alloc_vma = True\<rparr>,
     proc_context = ctx\<rparr>"

definition empty_node :: "nat option \<Rightarrow> u64 \<Rightarrow> binder_node" where
  "empty_node p a = \<lparr>node_debug_id = 0, node_work_entry = None,
                    node_proc = p, node_refs = [], internal_strong_refs = 0,
                    local_weak_refs = 0, local_strong_refs = 0, node_tmp_refs = 0,
                    node_ptr = a, node_cookie = 0,
                    has_strong_ref = False, pending_strong_ref = False,
                    has_weak_ref = False, pending_weak_ref = False,
                    accept_fds = False, min_priority = 0,
                    has_async_transaction = False, async_todo = []\<rparr>"

definition mk_ref :: "nat \<Rightarrow> nat \<Rightarrow> u32 \<Rightarrow> int \<Rightarrow> int \<Rightarrow> binder_ref" where
  "mk_ref p n d st wk = \<lparr>ref_data = \<lparr>data_debug_id = 0, data_desc = d, data_strong = st, data_weak = wk\<rparr>,
               ref_proc = p, ref_node = Some n, ref_death = None\<rparr>"

definition c2_proc :: binder_proc where
  "c2_proc = (empty_proc 1 0)\<lparr>refs_by_desc := [10, 11, 12], refs_by_node := [11, 10, 12]\<rparr>"

definition c2_state :: binder_state where
  "c2_state = empty_state\<lparr>
     h_contexts := [0 \<mapsto> \<lparr>binder_context_mgr_node = Some 21, binder_context_mgr_uid = Some 0\<rparr>],
     h_procs := [1 \<mapsto> c2_proc, 2 \<mapsto> empty_proc 2 0],
     h_nodes := [20 \<mapsto> empty_node (Some 2) 7, 21 \<mapsto> empty_node (Some 2) 0,
                 22 \<mapsto> empty_node (Some 2) 8, 23 \<mapsto> empty_node (Some 2) 9],
     h_refs := [10 \<mapsto> mk_ref 1 21 0 1 1, 11 \<mapsto> mk_ref 1 22 1 1 1, 12 \<mapsto> mk_ref 1 23 3 1 1,
                13 \<mapsto> zero_ref]\<rparr>"

text \<open>
  A run in which the scheduler and the security hooks allow everything and every read from
  user memory faults, and the store of a context with two processes and no manager yet.
\<close>

definition permissive_env :: kernel_env where
  "permissive_env = \<lparr>can_nice = (\<lambda>_ _. True), min_nice = (\<lambda>_. 0), MAX_NICE = 19,
     current_euid = 1000, task_euid = (\<lambda>_. 1000),
     security_binder_set_context_mgr = (\<lambda>_. OK),
     security_binder_transaction = (\<lambda>_ _. OK),
     security_binder_transfer_binder = (\<lambda>_ _. OK),
     security_binder_transfer_file = (\<lambda>_ _ _. OK),
     fget = (\<lambda>f. Some (unat f)),
     get_unused_fd = (\<lambda>_ used. Inr (of_nat (length used) + 3)),
     alloc_place = (\<lambda>_ _ _ _ _. Inr 0x1000),
     get_user_cmd = (\<lambda>_. None), get_user_u32 = (\<lambda>_. None), get_user_u64 = (\<lambda>_. None),
     copy_tr_from_user = (\<lambda>_. None), copy_tr_sg_from_user = (\<lambda>_. None),
     copy_objects_from_user = (\<lambda>_ _. None), copy_offsets_from_user = (\<lambda>_ _. None),
     copy_bytes_from_user = (\<lambda>_ _. None),
     put_user_ok = (\<lambda>_. True),
     signal_pending = False\<rparr>"





fun cmds_of :: "(nat \<times> read_item) list \<Rightarrow> binder_return list" where
  "cmds_of [] = []"
| "cmds_of ((p, R_cmd c) # r) = c # cmds_of r"
| "cmds_of (x # r) = cmds_of r"

definition empty_thread :: "nat \<Rightarrow> nat \<Rightarrow> binder_thread" where
  "empty_thread p pid = \<lparr>thread_proc = p, thread_pid = pid, looper = BINDER_LOOPER_STATE_ENTERED,
     looper_need_return = False, transaction_stack = None, thread_todo = [],
     return_error_entry = None, return_error_cmd = BR_OK,
     reply_error_entry = None, reply_error_cmd = BR_OK,
     thread_tmp_ref = 0, thread_is_dead = False\<rparr>"

definition empty_transaction :: binder_transaction where
  "empty_transaction = \<lparr>t_debug_id = 0, t_work_entry = None, t_from = None, from_parent = None,
     to_proc = None, to_thread = None, to_parent = None, need_reply = False, t_buffer = None,
     t_code = 0, t_flags = 0, t_priority = 0, saved_priority = 0, sender_euid = 0\<rparr>"

definition empty_buffer :: binder_buffer where
  "empty_buffer = \<lparr>allow_user_free = False, async_transaction = False, buffer_debug_id = 0,
     buffer_transaction = None, target_node = None, data_size = 0, offsets_size = 0,
     extra_buffers_size = 0, data = 0x1000, buffer_objects = (\<lambda>_. zero_object), buffer_offsets = [],
     buffer_sg = (\<lambda>_. 0)\<rparr>"




text \<open>
  Thread 5 of process 1 has a dead-binder notification and, behind it, a
  transaction-complete marker on its todo list.
\<close>

definition c9_state :: binder_state where
  "c9_state = empty_state\<lparr>
     h_contexts := [0 \<mapsto> \<lparr>binder_context_mgr_node = None, binder_context_mgr_uid = None\<rparr>],
     h_procs := [1 \<mapsto> (empty_proc 1 0)\<lparr>proc_threads := [5], refs_by_desc := [10],
                            refs_by_node := [10]\<rparr>],
     h_threads := [5 \<mapsto> (empty_thread 1 7)\<lparr>thread_todo := [W_death 50, W_tcomplete 60]\<rparr>],
     h_nodes := [20 \<mapsto> (empty_node None 7)\<lparr>node_refs := [10]\<rparr>],
     h_refs := [10 \<mapsto> (mk_ref 1 20 1 0 1)\<lparr>ref_death := Some 50\<rparr>],
     h_deaths := [50 \<mapsto> \<lparr>death_work_entry = Some (L_thread_todo 5),
                            death_work_type = Some BINDER_WORK_DEAD_BINDER,
                            death_cookie = 0xAA\<rparr>],
     h_tcompletes := [60 \<mapsto> Some (L_thread_todo 5)],
     binder_dead_nodes := [20]\<rparr>"

text \<open>
  A write buffer at address 0 that holds \<open>BC_ENTER_LOOPER\<close> and then \<open>BC_ATTEMPT_ACQUIRE\<close>,
  and the store of a process with one thread.
\<close>

definition c8_env :: kernel_env where
  "c8_env = permissive_env\<lparr>get_user_cmd :=
     (\<lambda>a. if a = 0 then Some BC_ENTER_LOOPER
           else if a = 4 then Some BC_ATTEMPT_ACQUIRE else None)\<rparr>"

definition c8_state :: binder_state where
  "c8_state = empty_state\<lparr>
     h_contexts := [0 \<mapsto> \<lparr>binder_context_mgr_node = None, binder_context_mgr_uid = None\<rparr>],
     h_procs := [1 \<mapsto> (empty_proc 1 0)\<lparr>proc_threads := [5]\<rparr>],
     h_threads := [5 \<mapsto> (empty_thread 1 7)\<lparr>looper := 0\<rparr>]\<rparr>"



text \<open>
  Process 1 owns the node 20, to which process 2 holds the strong reference 10 with the
  handle 1. One asynchronous transaction to the node has been delivered in the buffer 40 at
  0x1000, a second one, 31, waits on \<open>async_todo\<close>. In \<open>c4_free_env\<close> the write buffer (of the
  thread 5 of process 1) holds \<open>BC_FREE_BUFFER\<close> for 0x1000; in \<open>c4_send_env\<close> the write buffer
  (of the thread 6 of process 2) holds \<open>BC_TRANSACTION\<close> for a one-way call without data to
  the handle 1.
\<close>

definition c4_state :: binder_state where
  "c4_state = empty_state\<lparr>
     h_contexts := [0 \<mapsto> \<lparr>binder_context_mgr_node = None, binder_context_mgr_uid = None\<rparr>],
     h_procs := [1 \<mapsto> (empty_proc 1 0)\<lparr>proc_threads := [5], proc_nodes := [20],
                            proc_alloc := \<lparr>alloc_buffers = [40, 41], user_buffer_offset = 0,
                                            alloc_vma = True\<rparr>\<rparr>,
                 2 \<mapsto> (empty_proc 2 0)\<lparr>proc_threads := [6], refs_by_desc := [10],
                            refs_by_node := [10]\<rparr>],
     h_threads := [5 \<mapsto> empty_thread 1 7, 6 \<mapsto> empty_thread 2 8],
     h_nodes := [20 \<mapsto> (empty_node (Some 1) 7)\<lparr>internal_strong_refs := 1,
                             local_strong_refs := 2, has_strong_ref := True,
                             has_weak_ref := True, node_refs := [10],
                             has_async_transaction := True,
                             async_todo := [W_transaction 31]\<rparr>],
     h_refs := [10 \<mapsto> mk_ref 2 20 1 1 0],
     h_transactions := [31 \<mapsto> empty_transaction\<lparr>t_work_entry := Some (L_async_todo 20),
                             to_proc := Some 1, t_buffer := Some 41, t_flags := TF_ONE_WAY\<rparr>],
     h_buffers := [40 \<mapsto> empty_buffer\<lparr>allow_user_free := True, async_transaction := True,
                             target_node := Some 20\<rparr>,
                   41 \<mapsto> empty_buffer\<lparr>async_transaction := True,
                             buffer_transaction := Some 31, target_node := Some 20,
                             data := 0x2000\<rparr>]\<rparr>"

definition c4_free_env :: kernel_env where
  "c4_free_env = permissive_env\<lparr>
     get_user_cmd := (\<lambda>a. if a = 0 then Some BC_FREE_BUFFER else None),
     get_user_u64 := (\<lambda>a. if a = 4 then Some 0x1000 else None)\<rparr>"

definition c4_send_env :: kernel_env where
  "c4_send_env = permissive_env\<lparr>
     get_user_cmd := (\<lambda>a. if a = 0 then Some BC_TRANSACTION else None),
     copy_tr_from_user := (\<lambda>a. if a = 4 then
        Some \<lparr>tr_target = 1, tr_cookie = 0, tr_code = 0, tr_flags = TF_ONE_WAY,
              tr_sender_pid = 0, tr_sender_euid = 0, tr_data_size = 0, tr_offsets_size = 0,
              tr_data_buffer = 0, tr_data_offsets = 0\<rparr> else None),
     copy_objects_from_user := (\<lambda>_ _. Some (\<lambda>_. zero_object)),
     copy_offsets_from_user := (\<lambda>_ _. Some []),
     alloc_place := (\<lambda>_ _ _ _ _. Inr 0x3000)\<rparr>"

text \<open>The store and the local variables of such a send when it gets to the dispatch.\<close>

definition c4_dispatch_state :: binder_state where
  "c4_dispatch_state = c4_state\<lparr>
     h_transactions := (h_transactions c4_state)(100 \<mapsto> empty_transaction\<lparr>to_proc := Some 1,
                             t_buffer := Some 102, t_flags := TF_ONE_WAY\<rparr>),
     h_tcompletes := [101 \<mapsto> None],
     h_buffers := (h_buffers c4_state)(102 \<mapsto> empty_buffer\<lparr>async_transaction := True,
                             buffer_transaction := Some 100, target_node := Some 20,
                             data := 0x3000\<rparr>)\<rparr>"

definition c4_locals :: binder_transaction_locals where
  "c4_locals = \<lparr>l_target_proc = Some 1, l_target_thread = None, l_target_node = Some 20,
     l_in_reply_to = None, l_return_error = BR_OK, l_return_error_param = OK,
     l_t = Some 100, l_tcomplete = Some 101, l_offp = 0\<rparr>"

text \<open>
  Thread 5 of process 1 works on the transaction 30 that thread 6 of process 2 sent it.
  Thread 6 has meanwhile been handed the nested transaction 32, which is now the top of its
  stack. Thread 9 of process 2 has nothing on its stack. The write buffer of the replying
  thread holds \<open>BC_REPLY\<close> without data.
\<close>

definition c1_state :: binder_state where
  "c1_state = empty_state\<lparr>
     h_contexts := [0 \<mapsto> \<lparr>binder_context_mgr_node = None, binder_context_mgr_uid = None\<rparr>],
     h_procs := [1 \<mapsto> (empty_proc 1 0)\<lparr>proc_threads := [5]\<rparr>,
                 2 \<mapsto> (empty_proc 2 0)\<lparr>proc_threads := [6, 9]\<rparr>],
     h_threads := [5 \<mapsto> (empty_thread 1 7)\<lparr>transaction_stack := Some 30\<rparr>,
                   6 \<mapsto> (empty_thread 2 8)\<lparr>transaction_stack := Some 32\<rparr>,
                   9 \<mapsto> empty_thread 2 9],
     h_transactions := [30 \<mapsto> empty_transaction\<lparr>t_from := Some 6, to_proc := Some 1,
                                to_thread := Some 5, need_reply := True\<rparr>,
                        32 \<mapsto> empty_transaction\<lparr>to_proc := Some 2, to_thread := Some 6,
                                to_parent := Some 30, need_reply := True\<rparr>]\<rparr>"

definition c1_tr :: binder_transaction_data where
  "c1_tr = \<lparr>tr_target = 0, tr_cookie = 0, tr_code = 0, tr_flags = 0,
            tr_sender_pid = 0, tr_sender_euid = 0, tr_data_size = 0, tr_offsets_size = 0,
            tr_data_buffer = 0, tr_data_offsets = 0\<rparr>"

definition c1_env :: kernel_env where
  "c1_env = permissive_env\<lparr>
     get_user_cmd := (\<lambda>a. if a = 0 then Some BC_REPLY else None),
     copy_tr_from_user := (\<lambda>a. if a = 4 then Some c1_tr else None)\<rparr>"

section \<open>Properties\<close>

subsection \<open>Auxiliary facts\<close>




lemma binder_set_nice_frame:
  "h_threads (binder_set_nice env cur v s) = h_threads s
   \<and> h_transactions (binder_set_nice env cur v s) = h_transactions s
   \<and> h_procs (binder_set_nice env cur v s) = h_procs s
   \<and> h_nodes (binder_set_nice env cur v s) = h_nodes s
   \<and> h_buffers (binder_set_nice env cur v s) = h_buffers s
   \<and> h_tcompletes (binder_set_nice env cur v s) = h_tcompletes s"
  by (simp add: binder_set_nice_def set_user_nice_def binder_user_error_def Let_def)

subsection \<open>Rejected replies\<close>

text \<open>The report of an error to a sender that has no transaction to fail.\<close>

lemma binder_transaction_error_report_sender:
  assumes th: "h_threads s thread = Some th" and ok: "return_error_cmd th = BR_OK"
    and unq: "return_error_entry th = None" and nr: "l_in_reply_to l = None"
  shows "binder_transaction_error_report thread l s
     = Some (s\<lparr>h_threads := (h_threads s)(thread \<mapsto>
          th\<lparr>return_error_cmd := l_return_error l,
            thread_todo := thread_todo th @ [W_return_error thread],
            return_error_entry := Some (L_thread_todo thread)\<rparr>)\<rparr>)"
  using assms
  by (simp add: binder_transaction_error_report_def thread_update_def
        binder_enqueue_work_ilocked_def work_entry_def get_list_def set_list_def
        set_work_entry_def)

lemma binder_transaction_error_no_target:
  assumes "label_depth label = 4" "l_target_thread l = None" "l_target_proc l = None"
    "l_target_node l = None"
  shows "binder_transaction_error label thread l s = binder_transaction_error_report thread l s"
  using assms by (auto simp: binder_transaction_error_def label_depth_def Let_def)

lemma binder_transaction_reply_empty_stack:
  assumes th: "h_threads s thread = Some th" and st: "transaction_stack th = None"
  shows "binder_transaction_reply_target env thread l s
     = Some (Some err_empty_call_stack, binder_transaction_fail BR_FAILED_REPLY EPROTO l,
             binder_user_error s)"
  using assms by (simp add: binder_transaction_reply_target_def)

lemma binder_transaction_reply_bad_stack:
  assumes th: "h_threads s thread = Some th" and st: "transaction_stack th = Some r"
    and rx: "h_transactions s r = Some rx" and other: "to_thread rx \<noteq> Some thread"
  shows "binder_transaction_reply_target env thread l s
     = Some (Some err_bad_call_stack, binder_transaction_fail BR_FAILED_REPLY EPROTO l,
             binder_user_error (binder_set_nice env (thread_pid th) (saved_priority rx) s))"
  using assms by (simp add: binder_transaction_reply_target_def)

lemma binder_transaction_reply_bad_target_stack:
  assumes th: "h_threads s thread = Some th" and st: "transaction_stack th = Some r"
    and rx: "h_transactions s r = Some rx" and mine: "to_thread rx = Some thread"
    and fr: "t_from rx = Some tt"
    and tth: "h_threads s tt = Some tth"
    and bad: "(if tt = thread then to_parent rx else transaction_stack tth) \<noteq> Some r"
  shows "\<exists>s'. binder_transaction_reply_target env thread l s
     = Some (Some err_dead_binder, binder_transaction_fail BR_FAILED_REPLY EPROTO l, s')
     \<and> (\<exists>th'. h_threads s' thread = Some th' \<and> transaction_stack th' = to_parent rx
            \<and> thread_todo th' = thread_todo th \<and> return_error_cmd th' = return_error_cmd th
            \<and> return_error_entry th' = return_error_entry th)
     \<and> (\<exists>tth'. h_threads s' tt = Some tth' \<and> thread_tmp_ref tth' = thread_tmp_ref tth + 1)
     \<and> h_transactions s' = h_transactions s"
proof -
  define s1 where "s1 = binder_set_nice env (thread_pid th) (saved_priority rx) s"
  note f = binder_set_nice_frame[of env "thread_pid th" "saved_priority rx" s]
  define s2 where "s2 = s1\<lparr>h_threads := (h_threads s1)(thread \<mapsto> th\<lparr>transaction_stack := to_parent rx\<rparr>)\<rparr>"
  have u2: "thread_update thread (\<lambda>x. x\<lparr>transaction_stack := to_parent rx\<rparr>) s1 = Some s2"
    using th f by (simp add: thread_update_def s1_def s2_def)
  define tth2 where "tth2 = (if tt = thread then th\<lparr>transaction_stack := to_parent rx\<rparr> else tth)"
  have t2: "h_threads s2 tt = Some tth2" using tth th f by (simp add: s2_def s1_def tth2_def)
  define s3 where "s3 = s2\<lparr>h_threads := (h_threads s2)(tt \<mapsto> tth2\<lparr>thread_tmp_ref := thread_tmp_ref tth2 + 1\<rparr>)\<rparr>"
  have g: "binder_get_txn_from r s2 = Some (Some tt, s3)"
    using rx fr t2 f by (simp add: binder_get_txn_from_def thread_update_def s2_def s1_def s3_def)
  have stack3: "transaction_stack (tth2\<lparr>thread_tmp_ref := thread_tmp_ref tth2 + 1\<rparr>) \<noteq> Some r"
    using bad th tth by (auto simp: tth2_def)
  have run: "binder_transaction_reply_target env thread l s
     = Some (Some err_dead_binder, binder_transaction_fail BR_FAILED_REPLY EPROTO l,
             binder_user_error s3)"
    unfolding binder_transaction_reply_target_def
    using th st rx mine u2 g stack3
    by (simp add: s1_def[symmetric] Let_def s3_def)
  have same: "tt = thread \<Longrightarrow> tth = th" using th tth by simp
  show ?thesis
    unfolding run using f same
    by (auto simp: binder_user_error_def s3_def s2_def s1_def tth2_def)
qed

text \<open>
  A reply that is rejected at one of the three checks: the error handling has no target to
  release and reports \<open>BR_FAILED_REPLY\<close> to the sender.
\<close>

lemma binder_transaction_reply_rejected_report:
  assumes tgt: "binder_transaction_reply_target env thread
        \<lparr>l_target_proc = None, l_target_thread = None, l_target_node = None,
         l_in_reply_to = None, l_return_error = BR_OK, l_return_error_param = OK,
         l_t = None, l_tcomplete = None, l_offp = 0\<rparr>
        (s\<lparr>binder_last_id := binder_last_id s + 1\<rparr>)
      = Some (Some label, binder_transaction_fail BR_FAILED_REPLY EPROTO
        \<lparr>l_target_proc = None, l_target_thread = None, l_target_node = None,
         l_in_reply_to = None, l_return_error = BR_OK, l_return_error_param = OK,
         l_t = None, l_tcomplete = None, l_offp = 0\<rparr>, s1)"
    and depth: "label_depth label = 4"
    and th1: "h_threads s1 thread = Some th1" and ok: "return_error_cmd th1 = BR_OK"
    and unq: "return_error_entry th1 = None"
  shows "binder_transaction env proc thread tr True extra s
     = Some (s1\<lparr>h_threads := (h_threads s1)(thread \<mapsto>
          th1\<lparr>return_error_cmd := BR_FAILED_REPLY,
            thread_todo := thread_todo th1 @ [W_return_error thread],
            return_error_entry := Some (L_thread_todo thread)\<rparr>)\<rparr>)"
proof -
  let ?l = "binder_transaction_fail BR_FAILED_REPLY EPROTO
        \<lparr>l_target_proc = None, l_target_thread = None, l_target_node = None,
         l_in_reply_to = None, l_return_error = BR_OK, l_return_error_param = OK,
         l_t = None, l_tcomplete = None, l_offp = 0\<rparr>"
  have e: "binder_transaction_error label thread ?l s1
             = binder_transaction_error_report thread ?l s1"
    by (rule binder_transaction_error_no_target[OF depth])
       (simp_all add: binder_transaction_fail_def)
  have r: "binder_transaction_error_report thread ?l s1
     = Some (s1\<lparr>h_threads := (h_threads s1)(thread \<mapsto>
          th1\<lparr>return_error_cmd := l_return_error ?l,
            thread_todo := thread_todo th1 @ [W_return_error thread],
            return_error_entry := Some (L_thread_todo thread)\<rparr>)\<rparr>)"
    by (rule binder_transaction_error_report_sender[OF th1 ok unq])
       (simp add: binder_transaction_fail_def)
  show ?thesis
    unfolding binder_transaction_def
    using tgt e r by (simp add: binder_transaction_fail_def Let_def)
qed

text \<open>
  Claim C1. A \<open>BC_REPLY\<close> of a thread whose \<open>return_error\<close> is free is rejected with
  \<open>BR_FAILED_REPLY\<close>, queued as \<open>return_error\<close> work on the thread's own todo list, in each
  of three cases, and no transaction is changed or freed. When the thread's transaction
  stack is empty, or its top is not a transaction whose \<open>to_thread\<close> is the thread, the
  stack is as before. When the top is such a transaction but is not the top of the stack of
  the thread it came from, the thread's stack has lost its top: the rejection comes after
  \<open>thread->transaction_stack = in_reply_to->to_parent\<close>.
\<close>

theorem binder_transaction_reply_rejected:
  assumes th: "h_threads s thread = Some th" and ok: "return_error_cmd th = BR_OK"
    and unq: "return_error_entry th = None"
  shows "(transaction_stack th = None
          \<longrightarrow> (\<exists>s' th'. binder_transaction env proc thread tr True extra s = Some s'
                 \<and> h_threads s' thread = Some th'
                 \<and> return_error_cmd th' = BR_FAILED_REPLY
                 \<and> thread_todo th' = thread_todo th @ [W_return_error thread]
                 \<and> transaction_stack th' = None
                 \<and> h_transactions s' = h_transactions s))
     \<and> (transaction_stack th = Some r \<and> h_transactions s r = Some rx
          \<and> to_thread rx \<noteq> Some thread
          \<longrightarrow> (\<exists>s' th'. binder_transaction env proc thread tr True extra s = Some s'
                 \<and> h_threads s' thread = Some th'
                 \<and> return_error_cmd th' = BR_FAILED_REPLY
                 \<and> thread_todo th' = thread_todo th @ [W_return_error thread]
                 \<and> transaction_stack th' = Some r
                 \<and> h_transactions s' = h_transactions s))
     \<and> (transaction_stack th = Some r \<and> h_transactions s r = Some rx
          \<and> to_thread rx = Some thread \<and> t_from rx = Some tt \<and> h_threads s tt = Some tth
          \<and> (if tt = thread then to_parent rx else transaction_stack tth) \<noteq> Some r
          \<longrightarrow> (\<exists>s' th'. binder_transaction env proc thread tr True extra s = Some s'
                 \<and> h_threads s' thread = Some th'
                 \<and> return_error_cmd th' = BR_FAILED_REPLY
                 \<and> thread_todo th' = thread_todo th @ [W_return_error thread]
                 \<and> transaction_stack th' = to_parent rx
                 \<and> h_transactions s' = h_transactions s))"
proof (intro conjI impI)
  define s0 where "s0 = s\<lparr>binder_last_id := binder_last_id s + 1\<rparr>"
  have th0: "h_threads s0 thread = Some th" using th by (simp add: s0_def)
  {
    assume st: "transaction_stack th = None"
    have run: "binder_transaction env proc thread tr True extra s
       = Some ((binder_user_error s0)\<lparr>h_threads := (h_threads (binder_user_error s0))(thread \<mapsto>
            th\<lparr>return_error_cmd := BR_FAILED_REPLY,
              thread_todo := thread_todo th @ [W_return_error thread],
              return_error_entry := Some (L_thread_todo thread)\<rparr>)\<rparr>)"
    proof (rule binder_transaction_reply_rejected_report[where label = err_empty_call_stack])
      show "binder_transaction_reply_target env thread
        \<lparr>l_target_proc = None, l_target_thread = None, l_target_node = None,
         l_in_reply_to = None, l_return_error = BR_OK, l_return_error_param = OK,
         l_t = None, l_tcomplete = None, l_offp = 0\<rparr>
        (s\<lparr>binder_last_id := binder_last_id s + 1\<rparr>)
      = Some (Some err_empty_call_stack, binder_transaction_fail BR_FAILED_REPLY EPROTO
        \<lparr>l_target_proc = None, l_target_thread = None, l_target_node = None,
         l_in_reply_to = None, l_return_error = BR_OK, l_return_error_param = OK,
         l_t = None, l_tcomplete = None, l_offp = 0\<rparr>, binder_user_error s0)"
        using binder_transaction_reply_empty_stack[OF th0 st] by (simp only: s0_def)
      show "label_depth err_empty_call_stack = 4" by (simp add: label_depth_def)
      show "h_threads (binder_user_error s0) thread = Some th"
        using th0 by (simp add: binder_user_error_def)
    qed (rule ok, rule unq)
    show "\<exists>s' th'. binder_transaction env proc thread tr True extra s = Some s'
                 \<and> h_threads s' thread = Some th'
                 \<and> return_error_cmd th' = BR_FAILED_REPLY
                 \<and> thread_todo th' = thread_todo th @ [W_return_error thread]
                 \<and> transaction_stack th' = None
                 \<and> h_transactions s' = h_transactions s"
      unfolding run using st by (simp add: binder_user_error_def s0_def)
  }
  {
    assume a: "transaction_stack th = Some r \<and> h_transactions s r = Some rx
          \<and> to_thread rx \<noteq> Some thread"
    then have st: "transaction_stack th = Some r" and rx0: "h_transactions s0 r = Some rx"
      and other: "to_thread rx \<noteq> Some thread"
      by (simp_all add: s0_def)
    define s1 where "s1 = binder_user_error (binder_set_nice env (thread_pid th) (saved_priority rx) s0)"
    note f = binder_set_nice_frame[of env "thread_pid th" "saved_priority rx" s0]
    have th1: "h_threads s1 thread = Some th" and tx1: "h_transactions s1 = h_transactions s"
      using th0 f by (simp_all add: s1_def binder_user_error_def s0_def)
    have run: "binder_transaction env proc thread tr True extra s
       = Some (s1\<lparr>h_threads := (h_threads s1)(thread \<mapsto>
            th\<lparr>return_error_cmd := BR_FAILED_REPLY,
              thread_todo := thread_todo th @ [W_return_error thread],
              return_error_entry := Some (L_thread_todo thread)\<rparr>)\<rparr>)"
    proof (rule binder_transaction_reply_rejected_report[where label = err_bad_call_stack])
      show "binder_transaction_reply_target env thread
        \<lparr>l_target_proc = None, l_target_thread = None, l_target_node = None,
         l_in_reply_to = None, l_return_error = BR_OK, l_return_error_param = OK,
         l_t = None, l_tcomplete = None, l_offp = 0\<rparr>
        (s\<lparr>binder_last_id := binder_last_id s + 1\<rparr>)
      = Some (Some err_bad_call_stack, binder_transaction_fail BR_FAILED_REPLY EPROTO
        \<lparr>l_target_proc = None, l_target_thread = None, l_target_node = None,
         l_in_reply_to = None, l_return_error = BR_OK, l_return_error_param = OK,
         l_t = None, l_tcomplete = None, l_offp = 0\<rparr>, s1)"
        using binder_transaction_reply_bad_stack[OF th0 st rx0 other]
        by (simp only: s0_def s1_def)
      show "label_depth err_bad_call_stack = 4" by (simp add: label_depth_def)
    qed (rule th1, rule ok, rule unq)
    show "\<exists>s' th'. binder_transaction env proc thread tr True extra s = Some s'
                 \<and> h_threads s' thread = Some th'
                 \<and> return_error_cmd th' = BR_FAILED_REPLY
                 \<and> thread_todo th' = thread_todo th @ [W_return_error thread]
                 \<and> transaction_stack th' = Some r
                 \<and> h_transactions s' = h_transactions s"
      unfolding run using st tx1 by simp
  }
  {
    assume a: "transaction_stack th = Some r \<and> h_transactions s r = Some rx
          \<and> to_thread rx = Some thread \<and> t_from rx = Some tt \<and> h_threads s tt = Some tth
          \<and> (if tt = thread then to_parent rx else transaction_stack tth) \<noteq> Some r"
    then have st: "transaction_stack th = Some r" and rx0: "h_transactions s0 r = Some rx"
      and mine: "to_thread rx = Some thread" and fr: "t_from rx = Some tt"
      and tth0: "h_threads s0 tt = Some tth"
      and bad: "(if tt = thread then to_parent rx else transaction_stack tth) \<noteq> Some r"
      by (simp_all add: s0_def)
    obtain s1 th1 where tgt: "binder_transaction_reply_target env thread
        \<lparr>l_target_proc = None, l_target_thread = None, l_target_node = None,
         l_in_reply_to = None, l_return_error = BR_OK, l_return_error_param = OK,
         l_t = None, l_tcomplete = None, l_offp = 0\<rparr> s0
      = Some (Some err_dead_binder, binder_transaction_fail BR_FAILED_REPLY EPROTO
        \<lparr>l_target_proc = None, l_target_thread = None, l_target_node = None,
         l_in_reply_to = None, l_return_error = BR_OK, l_return_error_param = OK,
         l_t = None, l_tcomplete = None, l_offp = 0\<rparr>, s1)"
      and th1: "h_threads s1 thread = Some th1" and st1: "transaction_stack th1 = to_parent rx"
      and todo1: "thread_todo th1 = thread_todo th"
      and ok1: "return_error_cmd th1 = return_error_cmd th"
      and unq1: "return_error_entry th1 = return_error_entry th"
      and tx1: "h_transactions s1 = h_transactions s0"
      using binder_transaction_reply_bad_target_stack[OF th0 st rx0 mine fr tth0 bad] by blast
    have run: "binder_transaction env proc thread tr True extra s
       = Some (s1\<lparr>h_threads := (h_threads s1)(thread \<mapsto>
            th1\<lparr>return_error_cmd := BR_FAILED_REPLY,
              thread_todo := thread_todo th1 @ [W_return_error thread],
              return_error_entry := Some (L_thread_todo thread)\<rparr>)\<rparr>)"
    proof (rule binder_transaction_reply_rejected_report[where label = err_dead_binder])
      show "binder_transaction_reply_target env thread
        \<lparr>l_target_proc = None, l_target_thread = None, l_target_node = None,
         l_in_reply_to = None, l_return_error = BR_OK, l_return_error_param = OK,
         l_t = None, l_tcomplete = None, l_offp = 0\<rparr>
        (s\<lparr>binder_last_id := binder_last_id s + 1\<rparr>)
      = Some (Some err_dead_binder, binder_transaction_fail BR_FAILED_REPLY EPROTO
        \<lparr>l_target_proc = None, l_target_thread = None, l_target_node = None,
         l_in_reply_to = None, l_return_error = BR_OK, l_return_error_param = OK,
         l_t = None, l_tcomplete = None, l_offp = 0\<rparr>, s1)"
        using tgt by (simp only: s0_def)
      show "label_depth err_dead_binder = 4" by (simp add: label_depth_def)
      show "return_error_cmd th1 = BR_OK" using ok ok1 by simp
      show "return_error_entry th1 = None" using unq unq1 by simp
    qed (rule th1)
    show "\<exists>s' th'. binder_transaction env proc thread tr True extra s = Some s'
                 \<and> h_threads s' thread = Some th'
                 \<and> return_error_cmd th' = BR_FAILED_REPLY
                 \<and> thread_todo th' = thread_todo th @ [W_return_error thread]
                 \<and> transaction_stack th' = to_parent rx
                 \<and> h_transactions s' = h_transactions s"
      unfolding run using st1 todo1 tx1 by (simp add: s0_def)
  }
qed

theorem binder_transaction_reply_rejected_witness:
  "(\<exists>s' th'. binder_transaction c1_env 1 5 c1_tr True 0 c1_state = Some s'
       \<and> h_threads s' 5 = Some th'
       \<and> return_error_cmd th' = BR_FAILED_REPLY
       \<and> thread_todo th' = [W_return_error 5]
       \<and> transaction_stack th' = None
       \<and> h_transactions s' = h_transactions c1_state)
   \<and> (\<exists>s' th'. binder_transaction c1_env 2 9 c1_tr True 0 c1_state = Some s'
       \<and> h_threads s' 9 = Some th'
       \<and> return_error_cmd th' = BR_FAILED_REPLY
       \<and> thread_todo th' = [W_return_error 9]
       \<and> transaction_stack th' = None)"
proof -
  define th5 where "th5 = (empty_thread 1 7)\<lparr>transaction_stack := Some 30\<rparr>"
  define th6 where "th6 = (empty_thread 2 8)\<lparr>transaction_stack := Some 32\<rparr>"
  define t30 where "t30 = empty_transaction\<lparr>t_from := Some 6, to_proc := Some 1,
                                to_thread := Some 5, need_reply := True\<rparr>"
  have th5: "h_threads c1_state 5 = Some th5" and th9: "h_threads c1_state 9 = Some (empty_thread 2 9)"
    by (simp_all add: c1_state_def empty_state_def th5_def)
  have ok: "return_error_cmd th5 = BR_OK" "return_error_entry th5 = None"
    "return_error_cmd (empty_thread 2 9) = BR_OK" "return_error_entry (empty_thread 2 9) = None"
    by (simp_all add: th5_def empty_thread_def)
  have c: "transaction_stack th5 = Some 30 \<and> h_transactions c1_state 30 = Some t30
          \<and> to_thread t30 = Some 5 \<and> t_from t30 = Some 6 \<and> h_threads c1_state 6 = Some th6
          \<and> (if 6 = (5::nat) then to_parent t30 else transaction_stack th6) \<noteq> Some 30"
    by (simp add: c1_state_def empty_state_def th5_def th6_def t30_def)
  have todo: "thread_todo th5 = []" "to_parent t30 = None"
    "thread_todo (empty_thread 2 9) = []" "transaction_stack (empty_thread 2 9) = None"
    by (simp_all add: th5_def t30_def empty_thread_def empty_transaction_def)
  have first: "\<exists>s' th'. binder_transaction c1_env 1 5 c1_tr True 0 c1_state = Some s'
       \<and> h_threads s' 5 = Some th'
       \<and> return_error_cmd th' = BR_FAILED_REPLY
       \<and> thread_todo th' = [W_return_error 5]
       \<and> transaction_stack th' = None
       \<and> h_transactions s' = h_transactions c1_state"
    using binder_transaction_reply_rejected[where env = c1_env and proc = 1 and tr = c1_tr
        and extra = 0 and r = 30 and rx = t30 and tt = 6 and tth = th6,
        OF th5 ok(1) ok(2), THEN conjunct2, THEN conjunct2] c todo
    by simp
  have second: "\<exists>s' th'. binder_transaction c1_env 2 9 c1_tr True 0 c1_state = Some s'
       \<and> h_threads s' 9 = Some th'
       \<and> return_error_cmd th' = BR_FAILED_REPLY
       \<and> thread_todo th' = [W_return_error 9]
       \<and> transaction_stack th' = None"
    using binder_transaction_reply_rejected[where env = c1_env and proc = 2 and tr = c1_tr
        and extra = 0, OF th9 ok(3) ok(4), THEN conjunct1] todo
    by auto
  show ?thesis using first second by blast
qed

text \<open>
  The reply of thread 5 meets the third case: the stack of thread 5 has the top 30, whose
  \<open>to_thread\<close> is thread 5, and the stack of thread 6, which sent it, has the top 32.
  \<open>binder_thread_write\<close> consumes the command, the thread gets \<open>BR_FAILED_REPLY\<close>, and the
  stack of thread 5 is empty afterwards.
\<close>

theorem binder_transaction_reply_counterexample:
  "map_option transaction_stack (h_threads c1_state 5) = Some (Some 30)
   \<and> map_option to_thread (h_transactions c1_state 30) = Some (Some 5)
   \<and> map_option t_from (h_transactions c1_state 30) = Some (Some 6)
   \<and> map_option transaction_stack (h_threads c1_state 6) = Some (Some 32)
   \<and> map_option (\<lambda>(rc, consumed, s').
         (rc, consumed, map_option return_error_cmd (h_threads s' 5),
          map_option thread_todo (h_threads s' 5),
          map_option transaction_stack (h_threads s' 5)))
        (binder_thread_write c1_env 1 5 0 68 0 c1_state)
       = Some (OK, 68, Some BR_FAILED_REPLY, Some [W_return_error 5], Some None)"
  by code_simp

subsection \<open>Handle allocation\<close>

lemma word_succ_le_iff: "(d::'a::len word) < m \<Longrightarrow> (d + 1 \<le> n) = (d < n)"
  by uint_arith

lemma first_gap_least_ge:
  "sorted_wrt (<) xs \<Longrightarrow> \<forall>x\<in>set xs. d \<le> x \<Longrightarrow> \<exists>n\<ge>d. n \<notin> set xs
   \<Longrightarrow> first_gap d xs = (LEAST n. d \<le> n \<and> n \<notin> set xs)"
proof (induction xs arbitrary: d)
  case Nil
  have "(LEAST n. d \<le> n \<and> n \<notin> set ([]::u32 list)) = d"
    by (intro Least_equality) auto
  then show ?case by simp
next
  case (Cons x xs)
  show ?case
  proof (cases "x > d")
    case True
    then have "d \<notin> set (x # xs)" using Cons.prems(1) by auto
    then have "(LEAST n. d \<le> n \<and> n \<notin> set (x # xs)) = d"
      by (intro Least_equality) auto
    then show ?thesis using True by simp
  next
    case False
    then have xd: "x = d" using Cons.prems(2) by auto
    obtain n where n: "d \<le> n" "n \<notin> set (x # xs)" using Cons.prems(3) by blast
    then have dn: "d < n" using xd by (cases "d = n") auto
    note iff = word_succ_le_iff[OF dn]
    have ge: "\<forall>y\<in>set xs. d + 1 \<le> y" using Cons.prems(1) xd by (auto simp: iff)
    have ex: "\<exists>n\<ge>d + 1. n \<notin> set xs" using n dn by (auto intro!: exI[of _ n] simp: iff)
    have s: "sorted_wrt (<) xs" using Cons.prems(1) by simp
    have eq: "(\<lambda>n. d \<le> n \<and> n \<notin> set (x # xs)) = (\<lambda>n. d + 1 \<le> n \<and> n \<notin> set xs)"
      using xd by (auto simp: iff fun_eq_iff)
    show ?thesis using Cons.IH[OF s ge ex] False xd unfolding eq by simp
  qed
qed

lemma first_gap_least:
  assumes "sorted_wrt (<) xs" "d \<le> 1" "\<exists>n\<ge>d. n \<notin> set xs"
  shows "first_gap d xs = (LEAST n. d \<le> n \<and> n \<notin> set xs)"
proof (cases "d = 1 \<and> xs \<noteq> [] \<and> hd xs = 0")
  case False
  have "\<forall>x\<in>set xs. d \<le> x"
  proof (cases "d = 0")
    case True then show ?thesis by simp
  next
    case d: False
    then have d1: "d = 1" using assms(2) by uint_arith
    show ?thesis
    proof (cases xs)
      case Nil then show ?thesis by simp
    next
      case (Cons y ys)
      then have "y \<noteq> 0" using False d1 by auto
      then have "1 \<le> y" by uint_arith
      moreover have "\<forall>z\<in>set ys. y < z" using assms(1) Cons by simp
      ultimately show ?thesis using Cons d1 by auto
    qed
  qed
  then show ?thesis using assms first_gap_least_ge by blast
next
  case True
  then obtain ys where xs: "xs = 0 # ys" and d1: "d = 1" by (cases xs) auto
  have s: "sorted_wrt (<) ys" and gt: "\<forall>z\<in>set ys. 0 < z" using assms(1) xs by auto
  have ge: "\<forall>z\<in>set ys. (1::u32) \<le> z"
  proof
    fix z assume "z \<in> set ys"
    then have "0 < z" using gt by blast
    then show "1 \<le> z" by uint_arith
  qed
  have ex: "\<exists>n\<ge>1. n \<notin> set ys" using assms(3) xs d1 by auto
  have eq: "(\<lambda>n. (1::u32) \<le> n \<and> n \<notin> set (0 # ys)) = (\<lambda>n. 1 \<le> n \<and> n \<notin> set ys)"
    by (auto simp: fun_eq_iff)
  show ?thesis using first_gap_least_ge[OF s ge ex] unfolding xs d1 eq by simp
qed

lemma new_desc_cong:
  "\<forall>r\<in>set rs. h_refs s r = h_refs s' r \<Longrightarrow> new_desc s d rs = new_desc s' d rs"
  by (induction rs arbitrary: d) (auto split: bind_splits)

lemma insert_ref_by_desc_cong:
  "\<forall>r\<in>set rs. h_refs s r = h_refs s' r
   \<Longrightarrow> insert_ref_by_desc s d new rs = insert_ref_by_desc s' d new rs"
  by (induction rs) (auto split: bind_splits)

lemma insert_ref_by_node_cong:
  "\<forall>r\<in>set rs. h_refs s r = h_refs s' r
   \<Longrightarrow> insert_ref_by_node s n new rs = insert_ref_by_node s' n new rs"
  by (induction rs) (auto split: bind_splits)

lemma new_desc_first_gap:
  "\<forall>r\<in>set rs. h_refs s r \<noteq> None \<Longrightarrow> new_desc s d rs = Some (first_gap d (map (ref_desc s) rs))"
  by (induction rs arbitrary: d) (auto simp: ref_desc_def)

lemma insert_ref_by_node_total:
  "\<forall>r\<in>set rs. h_refs s r \<noteq> None \<Longrightarrow> \<exists>res. insert_ref_by_node s n new rs = Some res"
  by (induction rs) auto

lemma insert_ref_by_desc_sorted:
  "\<forall>r\<in>set rs. h_refs s r \<noteq> None \<Longrightarrow> d \<notin> ref_desc s ` set rs
   \<Longrightarrow> \<exists>res. insert_ref_by_desc s d new rs = Some res \<and> set res = insert new (set rs)
         \<and> (\<forall>f. f new = d \<longrightarrow> (\<forall>r\<in>set rs. f r = ref_desc s r)
                \<longrightarrow> sorted_wrt (<) (map (ref_desc s) rs) \<longrightarrow> sorted_wrt (<) (map f res))"
proof (induction rs)
  case Nil
  then show ?case by simp
next
  case (Cons r rs)
  then obtain x where x: "h_refs s r = Some x" by auto
  have dr: "ref_desc s r = data_desc (ref_data x)" using x by (simp add: ref_desc_def)
  have p1: "\<forall>r\<in>set rs. h_refs s r \<noteq> None" and p2: "d \<notin> ref_desc s ` set rs"
    using Cons.prems by auto
  from Cons.IH[OF p1 p2] obtain res where res: "insert_ref_by_desc s d new rs = Some res"
      "set res = insert new (set rs)"
      and srt: "\<And>f. f new = d \<Longrightarrow> (\<forall>r\<in>set rs. f r = ref_desc s r)
                \<Longrightarrow> sorted_wrt (<) (map (ref_desc s) rs) \<Longrightarrow> sorted_wrt (<) (map f res)"
    by blast
  have ne: "d \<noteq> ref_desc s r" using Cons.prems(2) by auto
  show ?case
  proof (cases "d < ref_desc s r")
    case True
    have eq: "insert_ref_by_desc s d new (r # rs) = Some (new # r # rs)"
      using True x dr by simp
    have "sorted_wrt (<) (map f (new # r # rs))"
      if f: "f new = d" "\<forall>q\<in>set (r # rs). f q = ref_desc s q"
        and st: "sorted_wrt (<) (map (ref_desc s) (r # rs))" for f
    proof -
      have m: "map f (r # rs) = map (ref_desc s) (r # rs)" using f(2) by (intro map_cong) auto
      have "\<forall>y\<in>set (map (ref_desc s) (r # rs)). d < y"
        using st True by (auto intro: less_trans)
      then show ?thesis using st f(1) unfolding list.map(2)[of f new] m by simp
    qed
    then show ?thesis unfolding eq by auto
  next
    case False
    then have gt: "ref_desc s r < d" using ne by auto
    have eq: "insert_ref_by_desc s d new (r # rs) = Some (r # res)"
      using False gt x dr res(1) by simp
    have "sorted_wrt (<) (map f (r # res))"
      if f: "f new = d" "\<forall>q\<in>set (r # rs). f q = ref_desc s q"
        and st: "sorted_wrt (<) (map (ref_desc s) (r # rs))" for f
    proof -
      have a: "sorted_wrt (<) (map f res)" using srt[of f] f st by simp
      have "\<forall>q\<in>set res. f r < f q"
      proof
        fix q assume "q \<in> set res"
        then have "q = new \<or> q \<in> set rs" using res(2) by auto
        then show "f r < f q" using f gt st by auto
      qed
      then show ?thesis using a by simp
    qed
    then show ?thesis unfolding eq using res(2) by auto
  qed
qed

text \<open>
  Claim C2. When \<open>binder_get_ref_for_node\<close> creates a reference (the process holds none
  for the node), the handle it stores in the new reference is the least handle, from 1 on,
  that no reference of the process uses, and from 0 on when the node is the context
  manager's node. The index \<open>refs_by_desc\<close> stays strictly increasing, so the handles of
  a process are pairwise distinct. The handle is a \<open>uint32_t\<close>: the statement asks that
  some handle from the start value on is free.
\<close>

theorem binder_get_ref_for_node_smallest_free_handle:
  assumes pr: "h_procs s proc = Some pr"
    and c: "h_contexts s (proc_context pr) = Some c"
    and n: "h_nodes s node = Some n"
    and r0: "h_refs s new = Some r0"
    and live_d: "\<forall>r\<in>set (refs_by_desc pr). h_refs s r \<noteq> None"
    and live_n: "\<forall>r\<in>set (refs_by_node pr). h_refs s r \<noteq> None"
    and fresh_d: "new \<notin> set (refs_by_desc pr)"
    and fresh_n: "new \<notin> set (refs_by_node pr)"
    and nofound: "find_ref_by_node s node (refs_by_node pr) = Some None"
    and srt: "sorted_wrt (<) (map (ref_desc s) (refs_by_desc pr))"
    and start: "start = (if Some node = binder_context_mgr_node c then 0 else 1)"
    and free: "\<exists>d\<ge>start. d \<notin> ref_desc s ` set (refs_by_desc pr)"
  shows "\<exists>s' pr'. binder_get_ref_for_node proc node (Some new) s = Some (Some new, s')
          \<and> h_procs s' proc = Some pr'
          \<and> ref_desc s' new = (LEAST d. start \<le> d \<and> d \<notin> ref_desc s ` set (refs_by_desc pr))
          \<and> set (refs_by_desc pr') = insert new (set (refs_by_desc pr))
          \<and> sorted_wrt (<) (map (ref_desc s') (refs_by_desc pr'))"
proof -
  define s1 where "s1 = s\<lparr>binder_last_id := binder_last_id s + 1\<rparr>"
  define x1 where "x1 = r0\<lparr>ref_data := (ref_data r0)\<lparr>data_debug_id := binder_last_id s1\<rparr>,
                            ref_proc := proc, ref_node := Some node\<rparr>"
  define s2 where "s2 = s1\<lparr>h_refs := (h_refs s1)(new \<mapsto> x1)\<rparr>"
  have u2: "ref_update new
                    (\<lambda>x. x\<lparr>ref_data := (ref_data x)\<lparr>data_debug_id := binder_last_id s1\<rparr>,
                            ref_proc := proc, ref_node := Some node\<rparr>) s1 = Some s2"
    using r0 by (simp add: ref_update_def s1_def s2_def x1_def)
  have same2d: "\<forall>r\<in>set (refs_by_desc pr). h_refs s2 r = h_refs s r"
    using fresh_d by (auto simp: s2_def s1_def)
  have same2n: "\<forall>r\<in>set (refs_by_node pr). h_refs s2 r = h_refs s r"
    using fresh_n by (auto simp: s2_def s1_def)
  obtain by_node where bn: "insert_ref_by_node s2 node new (refs_by_node pr) = Some by_node"
    using insert_ref_by_node_total[OF live_n, of node new]
          insert_ref_by_node_cong[OF same2n, of node new] by auto
  define s3 where "s3 = s2\<lparr>h_procs := (h_procs s2)(proc \<mapsto> pr\<lparr>refs_by_node := by_node\<rparr>)\<rparr>"
  have u3: "proc_update proc (\<lambda>x. x\<lparr>refs_by_node := by_node\<rparr>) s2 = Some s3"
    using pr by (simp add: proc_update_def s3_def s2_def s1_def)
  have same3d: "\<forall>r\<in>set (refs_by_desc pr). h_refs s3 r = h_refs s r"
    using same2d by (simp add: s3_def)
  define xs where "xs = map (ref_desc s) (refs_by_desc pr)"
  have le1: "start \<le> 1" using start by auto
  have free': "\<exists>d\<ge>start. d \<notin> set xs" using free by (simp add: xs_def)
  define d where "d = first_gap start xs"
  have d_least: "d = (LEAST d. start \<le> d \<and> d \<notin> set xs)"
    using first_gap_least[OF _ le1 free'] srt by (simp add: d_def xs_def)
  have "start \<le> d \<and> d \<notin> set xs"
    unfolding d_least using free' by (rule_tac LeastI_ex) auto
  then have d_free: "d \<notin> ref_desc s ` set (refs_by_desc pr)" by (simp add: xs_def)
  have nd3: "new_desc s3 start (refs_by_desc pr) = Some d"
    using new_desc_cong[OF same3d, of start] new_desc_first_gap[OF live_d, of start]
    by (simp add: d_def xs_def)
  define x4 where "x4 = x1\<lparr>ref_data := (ref_data x1)\<lparr>data_desc := d\<rparr>\<rparr>"
  define s4 where "s4 = s3\<lparr>h_refs := (h_refs s3)(new \<mapsto> x4)\<rparr>"
  have u4: "ref_update new (\<lambda>x. x\<lparr>ref_data := (ref_data x)\<lparr>data_desc := d\<rparr>\<rparr>) s3 = Some s4"
    by (simp add: ref_update_def s4_def s3_def s2_def x4_def)
  have same4d: "\<forall>r\<in>set (refs_by_desc pr). h_refs s4 r = h_refs s r"
    using same3d fresh_d by (auto simp: s4_def)
  obtain by_desc where bd: "insert_ref_by_desc s4 d new (refs_by_desc pr) = Some by_desc"
     and bd_set: "set by_desc = insert new (set (refs_by_desc pr))"
     and bd_srt: "\<And>f. f new = d \<Longrightarrow> (\<forall>r\<in>set (refs_by_desc pr). f r = ref_desc s r)
                \<Longrightarrow> sorted_wrt (<) (map f by_desc)"
    using insert_ref_by_desc_sorted[OF live_d d_free, of new]
          insert_ref_by_desc_cong[OF same4d, of d new] srt by auto
  define s5 where "s5 = s4\<lparr>h_procs := (h_procs s4)(proc \<mapsto> pr\<lparr>refs_by_node := by_node, refs_by_desc := by_desc\<rparr>)\<rparr>"
  have u5: "proc_update proc (\<lambda>x. x\<lparr>refs_by_desc := by_desc\<rparr>) s4 = Some s5"
    by (simp add: proc_update_def s5_def s4_def s3_def)
  define s6 where "s6 = s5\<lparr>h_nodes := (h_nodes s5)(node \<mapsto> n\<lparr>node_refs := new # node_refs n\<rparr>)\<rparr>"
  have u6: "node_update node (\<lambda>x. x\<lparr>node_refs := new # node_refs x\<rparr>) s5 = Some s6"
    using n by (simp add: node_update_def s6_def s5_def s4_def s3_def s2_def s1_def)
  have run: "binder_get_ref_for_node proc node (Some new) s = Some (Some new, s6)"
    unfolding binder_get_ref_for_node_def
    using pr c nofound u2 bn u3 nd3 u4 bd u5 u6
    by (simp add: Let_def s1_def[symmetric] start)
  have h6: "h_refs s6 = (h_refs s)(new \<mapsto> x4)"
    by (simp add: s6_def s5_def s4_def s3_def s2_def s1_def)
  have p6: "h_procs s6 proc = Some (pr\<lparr>refs_by_node := by_node, refs_by_desc := by_desc\<rparr>)"
    by (simp add: s6_def s5_def)
  have dnew: "ref_desc s6 new = d" by (simp add: ref_desc_def h6 x4_def)
  have dold: "\<forall>r\<in>set (refs_by_desc pr). ref_desc s6 r = ref_desc s r"
    using fresh_d by (auto simp: ref_desc_def h6)
  show ?thesis
    using run p6 dnew bd_set bd_srt[OF dnew dold] d_least
    by (simp add: xs_def)
qed

theorem binder_get_ref_for_node_smallest_free_handle_witness:
  "\<exists>s'. binder_get_ref_for_node 1 20 (Some 13) c2_state = Some (Some 13, s')
        \<and> ref_desc s' 13 = 2"
proof -
  have ds: "ref_desc c2_state ` set (refs_by_desc c2_proc) = {0, 1, 3}"
    by (auto simp: c2_state_def c2_proc_def empty_state_def ref_desc_def mk_ref_def empty_proc_def)
  have least: "(LEAST d::u32. 1 \<le> d \<and> d \<notin> {0, 1, 3}) = 2"
  proof (rule Least_equality)
    show "(1::u32) \<le> 2 \<and> (2::u32) \<notin> {0, 1, 3}" by simp
  next
    fix y :: u32 assume "1 \<le> y \<and> y \<notin> {0, 1, 3}"
    then have "y \<noteq> 0" "y \<noteq> 1" by auto
    then show "2 \<le> y" by uint_arith
  qed
  have "\<exists>s' pr'. binder_get_ref_for_node 1 20 (Some 13) c2_state = Some (Some 13, s')
          \<and> h_procs s' 1 = Some pr'
          \<and> ref_desc s' 13 = (LEAST d. 1 \<le> d \<and> d \<notin> ref_desc c2_state ` set (refs_by_desc c2_proc))
          \<and> set (refs_by_desc pr') = insert 13 (set (refs_by_desc c2_proc))
          \<and> sorted_wrt (<) (map (ref_desc s') (refs_by_desc pr'))"
  proof (rule binder_get_ref_for_node_smallest_free_handle
      [where c = "\<lparr>binder_context_mgr_node = Some 21, binder_context_mgr_uid = Some 0\<rparr>"
         and n = "empty_node (Some 2) 7" and ?r0.0 = zero_ref])
    show "\<exists>d\<ge>1. d \<notin> ref_desc c2_state ` set (refs_by_desc c2_proc)"
      unfolding ds by (rule exI[of _ 2]) simp
  qed (simp_all add: c2_state_def c2_proc_def empty_state_def ref_desc_def mk_ref_def
         empty_proc_def)
  then show ?thesis unfolding ds least by blast
qed

subsection \<open>Asynchronous transactions of a node\<close>

lemma binder_thread_write_free_async_empty:
  assumes n: "h_nodes s node = Some n" and has: "has_async_transaction n"
    and own: "node_proc n = Some proc" and empty: "async_todo n = []"
  shows "binder_thread_write_free_async proc thread node s
           = Some (s\<lparr>h_nodes := (h_nodes s)(node \<mapsto> n\<lparr>has_async_transaction := False\<rparr>)\<rparr>)"
  using assms
  by (simp add: binder_thread_write_free_async_def binder_dequeue_work_head_ilocked_def
        get_list_def node_update_def)

lemma binder_thread_write_free_async_promote:
  assumes n: "h_nodes s node = Some n" and has: "has_async_transaction n"
    and own: "node_proc n = Some proc" and todo: "async_todo n = W_transaction t # rest"
    and tx: "h_transactions s t = Some tx" and th: "h_threads s thread = Some th"
  shows "binder_thread_write_free_async proc thread node s
           = Some (s\<lparr>h_nodes := (h_nodes s)(node \<mapsto> n\<lparr>async_todo := rest\<rparr>),
                    h_transactions := (h_transactions s)(t \<mapsto>
                       tx\<lparr>t_work_entry := Some (L_thread_todo thread)\<rparr>),
                    h_threads := (h_threads s)(thread \<mapsto>
                       th\<lparr>thread_todo := thread_todo th @ [W_transaction t]\<rparr>)\<rparr>)"
proof -
  define s1 where "s1 = s\<lparr>h_nodes := (h_nodes s)(node \<mapsto> n\<lparr>async_todo := rest\<rparr>)\<rparr>"
  define s2 where "s2 = s1\<lparr>h_transactions := (h_transactions s1)(t \<mapsto> tx\<lparr>t_work_entry := None\<rparr>)\<rparr>"
  have deq: "binder_dequeue_work_head_ilocked (L_async_todo node) s = Some (Some (W_transaction t), s2)"
    using n todo tx
    by (simp add: binder_dequeue_work_head_ilocked_def get_list_def set_list_def node_update_def
          set_work_entry_def transaction_update_def s1_def s2_def)
  have enq: "binder_enqueue_work_ilocked (W_transaction t) (Some (L_thread_todo thread)) s2
     = Some (s\<lparr>h_nodes := (h_nodes s)(node \<mapsto> n\<lparr>async_todo := rest\<rparr>),
                    h_transactions := (h_transactions s)(t \<mapsto>
                       tx\<lparr>t_work_entry := Some (L_thread_todo thread)\<rparr>),
                    h_threads := (h_threads s)(thread \<mapsto>
                       th\<lparr>thread_todo := thread_todo th @ [W_transaction t]\<rparr>)\<rparr>)"
    using th
    by (simp add: binder_enqueue_work_ilocked_def work_entry_def get_list_def set_list_def
          thread_update_def set_work_entry_def transaction_update_def s1_def s2_def)
  show ?thesis
    unfolding binder_thread_write_free_async_def
    using n has own deq enq by simp
qed

text \<open>
  The end of \<open>BC_FREE_BUFFER\<close> for a buffer without objects whose target node keeps a strong
  reference from another process: one local strong count goes, and the buffer is freed.
\<close>

lemma binder_transaction_buffer_release_no_objects:
  assumes b: "h_buffers s2 buf = Some b" and tn: "target_node b = Some node"
    and none: "offsets_size b = 0"
    and n2: "h_nodes s2 node = Some n2" and held: "internal_strong_refs n2 \<noteq> 0"
  shows "binder_transaction_buffer_release proc buf None s2
           = Some (s2\<lparr>h_nodes := (h_nodes s2)(node \<mapsto>
                        n2\<lparr>local_strong_refs := local_strong_refs n2 - 1\<rparr>)\<rparr>)"
proof -
  have "binder_dec_node node True False s2
           = Some (s2\<lparr>h_nodes := (h_nodes s2)(node \<mapsto>
                        n2\<lparr>local_strong_refs := local_strong_refs n2 - 1\<rparr>)\<rparr>)"
    using n2 held
    by (simp add: binder_dec_node_def binder_dec_node_nilocked_def node_update_def)
  then show ?thesis
    using b tn none by (simp add: binder_transaction_buffer_release_def)
qed

lemma binder_thread_write_free_buffer_async:
  assumes rd: "get_user_u64 env (buffer + ptr) = Some data_ptr"
    and found: "binder_alloc_prepare_to_free proc data_ptr s = Some (Some buf)"
    and b: "h_buffers s buf = Some b" and auf: "allow_user_free b"
    and asy: "async_transaction b" and tn: "target_node b = Some node"
    and bt: "buffer_transaction b = None"
    and blk: "binder_thread_write_free_async proc thread node s = Some s2"
  shows "binder_thread_write_free_buffer env proc thread buffer ptr s
           = do { s3 \<leftarrow> binder_transaction_buffer_release proc buf None s2;
                  s4 \<leftarrow> binder_alloc_free_buf proc buf s3;
                  Some (Write_break (ptr + 8), s4) }"
  using assms by (simp add: binder_thread_write_free_buffer_def)

lemma binder_thread_write_free_buffer_async_total:
  assumes rd: "get_user_u64 env (buffer + ptr) = Some data_ptr"
    and found: "binder_alloc_prepare_to_free proc data_ptr s = Some (Some buf)"
    and b: "h_buffers s buf = Some b" and auf: "allow_user_free b"
    and asy: "async_transaction b" and tn: "target_node b = Some node"
    and bt: "buffer_transaction b = None"
    and blk: "binder_thread_write_free_async proc thread node s = Some s2"
    and b2: "h_buffers s2 = h_buffers s" and p2: "h_procs s2 = h_procs s"
    and pr: "h_procs s proc = Some pr"
    and none: "offsets_size b = 0"
    and n2: "h_nodes s2 node = Some n2" and held: "internal_strong_refs n2 \<noteq> 0"
  shows "binder_thread_write_free_buffer env proc thread buffer ptr s
           = Some (Write_break (ptr + 8),
               s2\<lparr>h_nodes := (h_nodes s2)(node \<mapsto>
                        n2\<lparr>local_strong_refs := local_strong_refs n2 - 1\<rparr>),
                  h_procs := (h_procs s)(proc \<mapsto>
                        pr\<lparr>proc_alloc := (proc_alloc pr)\<lparr>alloc_buffers :=
                              remove1 buf (alloc_buffers (proc_alloc pr))\<rparr>\<rparr>),
                  h_buffers := (h_buffers s)(buf := None)\<rparr>)"
proof -
  have bb: "h_buffers s2 buf = Some b" using b b2 by simp
  have rel: "binder_transaction_buffer_release proc buf None s2
           = Some (s2\<lparr>h_nodes := (h_nodes s2)(node \<mapsto>
                        n2\<lparr>local_strong_refs := local_strong_refs n2 - 1\<rparr>)\<rparr>)"
    by (rule binder_transaction_buffer_release_no_objects[OF bb tn none n2 held])
  show ?thesis
    unfolding binder_thread_write_free_buffer_async[OF rd found b auf asy tn bt blk] rel
    using pr p2 b2
    by (simp add: binder_alloc_free_buf_def proc_update_def)
qed

text \<open>
  The dispatch of a one-way transaction to a node that has an asynchronous transaction in
  flight.
\<close>

lemma binder_transaction_dispatch_async_parked:
  assumes lt: "l_t l = Some t" and ltc: "l_tcomplete l = Some tc"
    and ltp: "l_target_proc l = Some tp" and ltt: "l_target_thread l = None"
    and ltn: "l_target_node l = Some node"
    and tc: "h_tcompletes s tc = Some None" and th: "h_threads s thread = Some th"
    and tx: "h_transactions s t = Some tx" and oneway: "t_flags tx AND TF_ONE_WAY \<noteq> 0"
    and unq: "t_work_entry tx = None" and tb: "t_buffer tx = Some buf"
    and b: "h_buffers s buf = Some b" and asy: "async_transaction b"
    and n: "h_nodes s node = Some n" and has: "has_async_transaction n"
    and tpr: "h_procs s tp = Some tpr" and alive: "\<not> proc_is_dead tpr"
  shows "binder_transaction_dispatch thread False l s
     = Some (None,
         s\<lparr>h_tcompletes := (h_tcompletes s)(tc \<mapsto> Some (L_thread_todo thread)),
           h_threads := (h_threads s)(thread \<mapsto>
              th\<lparr>thread_todo := thread_todo th @ [W_tcomplete tc]\<rparr>),
           h_nodes := (h_nodes s)(node \<mapsto> n\<lparr>async_todo := async_todo n @ [W_transaction t]\<rparr>),
           h_transactions := (h_transactions s)(t \<mapsto>
              tx\<lparr>t_work_entry := Some (L_async_todo node)\<rparr>)\<rparr>)"
proof -
  define s1 where "s1 = s\<lparr>h_threads := (h_threads s)(thread \<mapsto>
              th\<lparr>thread_todo := thread_todo th @ [W_tcomplete tc]\<rparr>),
          h_tcompletes := (h_tcompletes s)(tc \<mapsto> Some (L_thread_todo thread))\<rparr>"
  have e1: "binder_enqueue_work_ilocked (W_tcomplete tc) (Some (L_thread_todo thread)) s = Some s1"
    using tc th
    by (simp add: binder_enqueue_work_ilocked_def work_entry_def get_list_def set_list_def
          thread_update_def set_work_entry_def s1_def)
  have dead: "binder_transaction_target_dead l s1 = Some False"
    using ltp ltt tpr alive by (simp add: binder_transaction_target_dead_def s1_def)
  have e2: "binder_enqueue_work_ilocked (W_transaction t) (Some (L_async_todo node)) s1
     = Some (s\<lparr>h_tcompletes := (h_tcompletes s)(tc \<mapsto> Some (L_thread_todo thread)),
           h_threads := (h_threads s)(thread \<mapsto>
              th\<lparr>thread_todo := thread_todo th @ [W_tcomplete tc]\<rparr>),
           h_nodes := (h_nodes s)(node \<mapsto> n\<lparr>async_todo := async_todo n @ [W_transaction t]\<rparr>),
           h_transactions := (h_transactions s)(t \<mapsto>
              tx\<lparr>t_work_entry := Some (L_async_todo node)\<rparr>)\<rparr>)"
    using tx unq n
    by (simp add: binder_enqueue_work_ilocked_def work_entry_def get_list_def set_list_def
          node_update_def set_work_entry_def transaction_update_def s1_def)
  have facts: "h_transactions s1 t = Some tx" "h_buffers s1 buf = Some b" "h_nodes s1 node = Some n"
    using tx b n by (simp_all add: s1_def)
  show ?thesis
    unfolding binder_transaction_dispatch_def
    using lt ltc ltp ltt ltn e1 facts tb oneway asy has dead e2
    by (simp add: Let_def)
qed

text \<open>
  Claim C4. \<open>BC_FREE_BUFFER\<close> of a buffer that the user may free, that is marked
  \<open>async_transaction\<close> and has the target node \<open>node\<close> runs the block of the source lines
  3079-3095 once, then releases the objects of the buffer and frees it. The block clears
  \<open>has_async_transaction\<close> when \<open>async_todo\<close> is empty; otherwise it takes the first
  transaction off \<open>async_todo\<close> and puts it at the end of the todo list of the calling thread,
  and nothing else moves. For a buffer without objects whose node another process holds a
  strong reference to, this is all the command does besides dropping one local strong count
  and the buffer. In the other direction, the dispatch of a one-way transaction to a node
  whose \<open>has_async_transaction\<close> is set puts the transaction at the end of the node's
  \<open>async_todo\<close>: no todo list of a process changes, and the only todo list of a thread that
  changes is the sender's, which gets the completion marker.
\<close>

theorem binder_async_todo_promotion:
  assumes n: "h_nodes s node = Some n" and has: "has_async_transaction n"
  shows "(node_proc n = Some proc \<and> async_todo n = []
          \<longrightarrow> binder_thread_write_free_async proc thread node s
                = Some (s\<lparr>h_nodes := (h_nodes s)(node \<mapsto> n\<lparr>has_async_transaction := False\<rparr>)\<rparr>))
     \<and> (node_proc n = Some proc \<and> async_todo n = W_transaction t # rest
          \<and> h_transactions s t = Some tx \<and> h_threads s thread = Some th
          \<longrightarrow> binder_thread_write_free_async proc thread node s
                = Some (s\<lparr>h_nodes := (h_nodes s)(node \<mapsto> n\<lparr>async_todo := rest\<rparr>),
                    h_transactions := (h_transactions s)(t \<mapsto>
                       tx\<lparr>t_work_entry := Some (L_thread_todo thread)\<rparr>),
                    h_threads := (h_threads s)(thread \<mapsto>
                       th\<lparr>thread_todo := thread_todo th @ [W_transaction t]\<rparr>)\<rparr>))
     \<and> (get_user_u64 env (buffer + ptr) = Some data_ptr
          \<and> binder_alloc_prepare_to_free proc data_ptr s = Some (Some buf)
          \<and> h_buffers s buf = Some b \<and> allow_user_free b \<and> async_transaction b
          \<and> target_node b = Some node \<and> buffer_transaction b = None
          \<longrightarrow> binder_thread_write_cmd env proc thread BC_FREE_BUFFER buffer ptr s
                = do { s2 \<leftarrow> binder_thread_write_free_async proc thread node s;
                       s3 \<leftarrow> binder_transaction_buffer_release proc buf None s2;
                       s4 \<leftarrow> binder_alloc_free_buf proc buf s3;
                       Some (Write_break (ptr + 8), s4) })
     \<and> (get_user_u64 env (buffer + ptr) = Some data_ptr
          \<and> binder_alloc_prepare_to_free proc data_ptr s = Some (Some buf)
          \<and> h_buffers s buf = Some b \<and> allow_user_free b \<and> async_transaction b
          \<and> target_node b = Some node \<and> buffer_transaction b = None
          \<and> offsets_size b = 0 \<and> internal_strong_refs n \<noteq> 0 \<and> h_procs s proc = Some pr
          \<and> node_proc n = Some proc \<and> async_todo n = W_transaction t # rest
          \<and> h_transactions s t = Some tx \<and> h_threads s thread = Some th
          \<longrightarrow> (\<exists>s'. binder_thread_write_cmd env proc thread BC_FREE_BUFFER buffer ptr s
                       = Some (Write_break (ptr + 8), s')
                 \<and> h_nodes s' = (h_nodes s)(node \<mapsto>
                      n\<lparr>async_todo := rest, local_strong_refs := local_strong_refs n - 1\<rparr>)
                 \<and> h_threads s' = (h_threads s)(thread \<mapsto>
                      th\<lparr>thread_todo := thread_todo th @ [W_transaction t]\<rparr>)
                 \<and> h_transactions s' = (h_transactions s)(t \<mapsto>
                      tx\<lparr>t_work_entry := Some (L_thread_todo thread)\<rparr>)
                 \<and> h_buffers s' = (h_buffers s)(buf := None)
                 \<and> (\<forall>p. map_option proc_todo (h_procs s' p) = map_option proc_todo (h_procs s p))))
     \<and> (l_t l = Some t' \<and> l_tcomplete l = Some tc \<and> l_target_proc l = Some tp
          \<and> l_target_thread l = None \<and> l_target_node l = Some node
          \<and> h_tcompletes s tc = Some None \<and> h_threads s sender = Some sth
          \<and> h_transactions s t' = Some tx' \<and> t_flags tx' AND TF_ONE_WAY \<noteq> 0
          \<and> t_work_entry tx' = None \<and> t_buffer tx' = Some buf' \<and> h_buffers s buf' = Some b'
          \<and> async_transaction b' \<and> h_procs s tp = Some tpr \<and> \<not> proc_is_dead tpr
          \<longrightarrow> binder_transaction_dispatch sender False l s
                = Some (None,
                    s\<lparr>h_tcompletes := (h_tcompletes s)(tc \<mapsto> Some (L_thread_todo sender)),
                      h_threads := (h_threads s)(sender \<mapsto>
                         sth\<lparr>thread_todo := thread_todo sth @ [W_tcomplete tc]\<rparr>),
                      h_nodes := (h_nodes s)(node \<mapsto>
                         n\<lparr>async_todo := async_todo n @ [W_transaction t']\<rparr>),
                      h_transactions := (h_transactions s)(t' \<mapsto>
                         tx'\<lparr>t_work_entry := Some (L_async_todo node)\<rparr>)\<rparr>))"
proof (intro conjI impI)
  assume "node_proc n = Some proc \<and> async_todo n = []"
  then show "binder_thread_write_free_async proc thread node s
                = Some (s\<lparr>h_nodes := (h_nodes s)(node \<mapsto> n\<lparr>has_async_transaction := False\<rparr>)\<rparr>)"
    using binder_thread_write_free_async_empty[OF n has] by blast
next
  assume "node_proc n = Some proc \<and> async_todo n = W_transaction t # rest
          \<and> h_transactions s t = Some tx \<and> h_threads s thread = Some th"
  then show "binder_thread_write_free_async proc thread node s
                = Some (s\<lparr>h_nodes := (h_nodes s)(node \<mapsto> n\<lparr>async_todo := rest\<rparr>),
                    h_transactions := (h_transactions s)(t \<mapsto>
                       tx\<lparr>t_work_entry := Some (L_thread_todo thread)\<rparr>),
                    h_threads := (h_threads s)(thread \<mapsto>
                       th\<lparr>thread_todo := thread_todo th @ [W_transaction t]\<rparr>)\<rparr>)"
    using binder_thread_write_free_async_promote[OF n has] by blast
next
  assume "get_user_u64 env (buffer + ptr) = Some data_ptr
          \<and> binder_alloc_prepare_to_free proc data_ptr s = Some (Some buf)
          \<and> h_buffers s buf = Some b \<and> allow_user_free b \<and> async_transaction b
          \<and> target_node b = Some node \<and> buffer_transaction b = None"
  then show "binder_thread_write_cmd env proc thread BC_FREE_BUFFER buffer ptr s
                = do { s2 \<leftarrow> binder_thread_write_free_async proc thread node s;
                       s3 \<leftarrow> binder_transaction_buffer_release proc buf None s2;
                       s4 \<leftarrow> binder_alloc_free_buf proc buf s3;
                       Some (Write_break (ptr + 8), s4) }"
    by (simp add: binder_thread_write_cmd_def binder_thread_write_free_buffer_def)
next
  assume a: "get_user_u64 env (buffer + ptr) = Some data_ptr
          \<and> binder_alloc_prepare_to_free proc data_ptr s = Some (Some buf)
          \<and> h_buffers s buf = Some b \<and> allow_user_free b \<and> async_transaction b
          \<and> target_node b = Some node \<and> buffer_transaction b = None
          \<and> offsets_size b = 0 \<and> internal_strong_refs n \<noteq> 0 \<and> h_procs s proc = Some pr
          \<and> node_proc n = Some proc \<and> async_todo n = W_transaction t # rest
          \<and> h_transactions s t = Some tx \<and> h_threads s thread = Some th"
  define s2 where "s2 = s\<lparr>h_nodes := (h_nodes s)(node \<mapsto> n\<lparr>async_todo := rest\<rparr>),
                    h_transactions := (h_transactions s)(t \<mapsto>
                       tx\<lparr>t_work_entry := Some (L_thread_todo thread)\<rparr>),
                    h_threads := (h_threads s)(thread \<mapsto>
                       th\<lparr>thread_todo := thread_todo th @ [W_transaction t]\<rparr>)\<rparr>"
  have blk: "binder_thread_write_free_async proc thread node s = Some s2"
    unfolding s2_def using binder_thread_write_free_async_promote[OF n has] a by blast
  have run: "binder_thread_write_free_buffer env proc thread buffer ptr s
           = Some (Write_break (ptr + 8),
               s2\<lparr>h_nodes := (h_nodes s2)(node \<mapsto>
                        (n\<lparr>async_todo := rest\<rparr>)\<lparr>local_strong_refs :=
                            local_strong_refs (n\<lparr>async_todo := rest\<rparr>) - 1\<rparr>),
                  h_procs := (h_procs s)(proc \<mapsto>
                        pr\<lparr>proc_alloc := (proc_alloc pr)\<lparr>alloc_buffers :=
                              remove1 buf (alloc_buffers (proc_alloc pr))\<rparr>\<rparr>),
                  h_buffers := (h_buffers s)(buf := None)\<rparr>)"
  proof -
    from a have rd: "get_user_u64 env (buffer + ptr) = Some data_ptr"
      and found: "binder_alloc_prepare_to_free proc data_ptr s = Some (Some buf)"
      and b: "h_buffers s buf = Some b" and auf: "allow_user_free b"
      and asy: "async_transaction b" and tn: "target_node b = Some node"
      and bt: "buffer_transaction b = None" and none: "offsets_size b = 0"
      and held: "internal_strong_refs (n\<lparr>async_todo := rest\<rparr>) \<noteq> 0"
      and pr: "h_procs s proc = Some pr"
      by simp_all
    have b2: "h_buffers s2 = h_buffers s" and p2: "h_procs s2 = h_procs s"
      and n2: "h_nodes s2 node = Some (n\<lparr>async_todo := rest\<rparr>)"
      by (simp_all add: s2_def)
    show ?thesis
      by (rule binder_thread_write_free_buffer_async_total
            [OF rd found b auf asy tn bt blk b2 p2 pr none n2 held])
  qed
  show "\<exists>s'. binder_thread_write_cmd env proc thread BC_FREE_BUFFER buffer ptr s
                       = Some (Write_break (ptr + 8), s')
                 \<and> h_nodes s' = (h_nodes s)(node \<mapsto>
                      n\<lparr>async_todo := rest, local_strong_refs := local_strong_refs n - 1\<rparr>)
                 \<and> h_threads s' = (h_threads s)(thread \<mapsto>
                      th\<lparr>thread_todo := thread_todo th @ [W_transaction t]\<rparr>)
                 \<and> h_transactions s' = (h_transactions s)(t \<mapsto>
                      tx\<lparr>t_work_entry := Some (L_thread_todo thread)\<rparr>)
                 \<and> h_buffers s' = (h_buffers s)(buf := None)
                 \<and> (\<forall>p. map_option proc_todo (h_procs s' p) = map_option proc_todo (h_procs s p))"
    using run a by (simp add: binder_thread_write_cmd_def s2_def)
next
  assume "l_t l = Some t' \<and> l_tcomplete l = Some tc \<and> l_target_proc l = Some tp
          \<and> l_target_thread l = None \<and> l_target_node l = Some node
          \<and> h_tcompletes s tc = Some None \<and> h_threads s sender = Some sth
          \<and> h_transactions s t' = Some tx' \<and> t_flags tx' AND TF_ONE_WAY \<noteq> 0
          \<and> t_work_entry tx' = None \<and> t_buffer tx' = Some buf' \<and> h_buffers s buf' = Some b'
          \<and> async_transaction b' \<and> h_procs s tp = Some tpr \<and> \<not> proc_is_dead tpr"
  then show "binder_transaction_dispatch sender False l s
                = Some (None,
                    s\<lparr>h_tcompletes := (h_tcompletes s)(tc \<mapsto> Some (L_thread_todo sender)),
                      h_threads := (h_threads s)(sender \<mapsto>
                         sth\<lparr>thread_todo := thread_todo sth @ [W_tcomplete tc]\<rparr>),
                      h_nodes := (h_nodes s)(node \<mapsto>
                         n\<lparr>async_todo := async_todo n @ [W_transaction t']\<rparr>),
                      h_transactions := (h_transactions s)(t' \<mapsto>
                         tx'\<lparr>t_work_entry := Some (L_async_todo node)\<rparr>)\<rparr>)"
    using binder_transaction_dispatch_async_parked[where l = l and s = s and n = n, OF _ _ _ _ _ _ _ _ _ _ _ _ _ n has]
    by blast
qed

theorem binder_async_todo_promotion_witness:
  "(\<exists>s'. binder_thread_write_cmd c4_free_env 1 5 BC_FREE_BUFFER 0 4 c4_state
           = Some (Write_break 12, s')
        \<and> map_option async_todo (h_nodes s' 20) = Some []
        \<and> map_option has_async_transaction (h_nodes s' 20) = Some True
        \<and> map_option thread_todo (h_threads s' 5) = Some [W_transaction 31]
        \<and> map_option thread_todo (h_threads s' 6) = Some []
        \<and> map_option proc_todo (h_procs s' 1) = Some []
        \<and> h_buffers s' 40 = None)
   \<and> (\<exists>s'. binder_transaction_dispatch 6 False c4_locals c4_dispatch_state = Some (None, s')
        \<and> map_option async_todo (h_nodes s' 20) = Some [W_transaction 31, W_transaction 100]
        \<and> map_option thread_todo (h_threads s' 5) = Some []
        \<and> map_option thread_todo (h_threads s' 6) = Some [W_tcomplete 101]
        \<and> h_procs s' = h_procs c4_dispatch_state)
   \<and> map_option (\<lambda>(rc, consumed, s').
         (rc, consumed, map_option async_todo (h_nodes s' 20),
          map_option thread_todo (h_threads s' 5), map_option thread_todo (h_threads s' 6),
          map_option proc_todo (h_procs s' 1), map_option proc_todo (h_procs s' 2)))
        (binder_thread_write c4_send_env 2 6 0 68 0 c4_state)
       = Some (OK, 68, Some [W_transaction 31, W_transaction 100], Some [],
               Some [W_tcomplete 101], Some [], Some [])"
proof -
  define n where "n = (empty_node (Some 1) 7)\<lparr>internal_strong_refs := 1,
                             local_strong_refs := 2, has_strong_ref := True,
                             has_weak_ref := True, node_refs := [10],
                             has_async_transaction := True,
                             async_todo := [W_transaction 31]\<rparr>"
  have n: "h_nodes c4_state 20 = Some n" and nd: "h_nodes c4_dispatch_state 20 = Some n"
    by (simp_all add: c4_state_def c4_dispatch_state_def empty_state_def n_def)
  have has: "has_async_transaction n" by (simp add: n_def)
  have free: "get_user_u64 c4_free_env (0 + 4) = Some 0x1000
          \<and> binder_alloc_prepare_to_free 1 0x1000 c4_state = Some (Some 40)
          \<and> h_buffers c4_state 40 = Some (the (h_buffers c4_state 40))
          \<and> allow_user_free (the (h_buffers c4_state 40))
          \<and> async_transaction (the (h_buffers c4_state 40))
          \<and> target_node (the (h_buffers c4_state 40)) = Some 20
          \<and> buffer_transaction (the (h_buffers c4_state 40)) = None
          \<and> offsets_size (the (h_buffers c4_state 40)) = 0 \<and> internal_strong_refs n \<noteq> 0
          \<and> h_procs c4_state 1 = Some (the (h_procs c4_state 1))
          \<and> node_proc n = Some 1 \<and> async_todo n = W_transaction 31 # []
          \<and> h_transactions c4_state 31 = Some (the (h_transactions c4_state 31))
          \<and> h_threads c4_state 5 = Some (empty_thread 1 7)"
    by (simp add: c4_free_env_def c4_state_def empty_state_def n_def empty_node_def
          empty_buffer_def binder_alloc_prepare_to_free_def empty_proc_def)
  obtain s' where r: "binder_thread_write_cmd c4_free_env 1 5 BC_FREE_BUFFER 0 4 c4_state
                       = Some (Write_break (4 + 8), s')"
      and hn: "h_nodes s' = (h_nodes c4_state)(20 \<mapsto>
                      n\<lparr>async_todo := [], local_strong_refs := local_strong_refs n - 1\<rparr>)"
      and ht: "h_threads s' = (h_threads c4_state)(5 \<mapsto>
                      (empty_thread 1 7)\<lparr>thread_todo :=
                         thread_todo (empty_thread 1 7) @ [W_transaction 31]\<rparr>)"
      and hb: "h_buffers s' = (h_buffers c4_state)(40 := None)"
      and hp: "\<forall>p. map_option proc_todo (h_procs s' p) = map_option proc_todo (h_procs c4_state p)"
    using binder_async_todo_promotion[where env = c4_free_env and buffer = 0 and ptr = 4
        and proc = 1 and thread = 5 and rest = "[]", OF n has, THEN conjunct2, THEN conjunct2,
        THEN conjunct2, THEN conjunct1] free
    by blast
  have a: "\<exists>s'. binder_thread_write_cmd c4_free_env 1 5 BC_FREE_BUFFER 0 4 c4_state
           = Some (Write_break 12, s')
        \<and> map_option async_todo (h_nodes s' 20) = Some []
        \<and> map_option has_async_transaction (h_nodes s' 20) = Some True
        \<and> map_option thread_todo (h_threads s' 5) = Some [W_transaction 31]
        \<and> map_option thread_todo (h_threads s' 6) = Some []
        \<and> map_option proc_todo (h_procs s' 1) = Some []
        \<and> h_buffers s' 40 = None"
    using r hn ht hb hp[rule_format, of 1]
    by (intro exI[of _ s'])
       (simp add: n_def c4_state_def empty_state_def empty_thread_def empty_proc_def)
  have disp: "l_t c4_locals = Some 100 \<and> l_tcomplete c4_locals = Some 101
          \<and> l_target_proc c4_locals = Some 1
          \<and> l_target_thread c4_locals = None \<and> l_target_node c4_locals = Some 20
          \<and> h_tcompletes c4_dispatch_state 101 = Some None
          \<and> h_threads c4_dispatch_state 6 = Some (empty_thread 2 8)
          \<and> h_transactions c4_dispatch_state 100
               = Some (the (h_transactions c4_dispatch_state 100))
          \<and> t_flags (the (h_transactions c4_dispatch_state 100)) AND TF_ONE_WAY \<noteq> 0
          \<and> t_work_entry (the (h_transactions c4_dispatch_state 100)) = None
          \<and> t_buffer (the (h_transactions c4_dispatch_state 100)) = Some 102
          \<and> h_buffers c4_dispatch_state 102 = Some (the (h_buffers c4_dispatch_state 102))
          \<and> async_transaction (the (h_buffers c4_dispatch_state 102))
          \<and> h_procs c4_dispatch_state 1 = Some (the (h_procs c4_dispatch_state 1))
          \<and> \<not> proc_is_dead (the (h_procs c4_dispatch_state 1))"
    by (simp add: c4_locals_def c4_dispatch_state_def c4_state_def empty_state_def
          empty_transaction_def empty_buffer_def empty_proc_def TF_ONE_WAY_def)
  have d: "binder_transaction_dispatch 6 False c4_locals c4_dispatch_state
                = Some (None,
                    c4_dispatch_state\<lparr>h_tcompletes := (h_tcompletes c4_dispatch_state)(101 \<mapsto>
                          Some (L_thread_todo 6)),
                      h_threads := (h_threads c4_dispatch_state)(6 \<mapsto>
                         (empty_thread 2 8)\<lparr>thread_todo :=
                            thread_todo (empty_thread 2 8) @ [W_tcomplete 101]\<rparr>),
                      h_nodes := (h_nodes c4_dispatch_state)(20 \<mapsto>
                         n\<lparr>async_todo := async_todo n @ [W_transaction 100]\<rparr>),
                      h_transactions := (h_transactions c4_dispatch_state)(100 \<mapsto>
                         (the (h_transactions c4_dispatch_state 100))\<lparr>t_work_entry :=
                            Some (L_async_todo 20)\<rparr>)\<rparr>)"
    using binder_async_todo_promotion[where l = c4_locals and sender = 6, OF nd has,
        THEN conjunct2, THEN conjunct2, THEN conjunct2, THEN conjunct2] disp
    by blast
  have b: "\<exists>s'. binder_transaction_dispatch 6 False c4_locals c4_dispatch_state = Some (None, s')
        \<and> map_option async_todo (h_nodes s' 20) = Some [W_transaction 31, W_transaction 100]
        \<and> map_option thread_todo (h_threads s' 5) = Some []
        \<and> map_option thread_todo (h_threads s' 6) = Some [W_tcomplete 101]
        \<and> h_procs s' = h_procs c4_dispatch_state"
    unfolding d
    by (simp add: n_def c4_dispatch_state_def c4_state_def empty_state_def empty_thread_def)
  have full: "map_option (\<lambda>(rc, consumed, s').
         (rc, consumed, map_option async_todo (h_nodes s' 20),
          map_option thread_todo (h_threads s' 5), map_option thread_todo (h_threads s' 6),
          map_option proc_todo (h_procs s' 1), map_option proc_todo (h_procs s' 2)))
        (binder_thread_write c4_send_env 2 6 0 68 0 c4_state)
       = Some (OK, 68, Some [W_transaction 31, W_transaction 100], Some [],
               Some [W_tcomplete 101], Some [], Some [])"
    by code_simp
  show ?thesis using a b full by blast
qed

subsection \<open>Priority on delivery\<close>


lemma h_transactions_binder_set_nice [simp]:
  "h_transactions (binder_set_nice env cur v s) = h_transactions s"
  by (simp add: binder_set_nice_def set_user_nice_def binder_user_error_def Let_def)




subsection \<open>Node work\<close>

lemma cmds_of_append [simp]: "cmds_of (xs @ ys) = cmds_of xs @ cmds_of ys"
  by (induction xs rule: cmds_of.induct) auto

lemma binder_put_node_cmd_out:
  "binder_put_node_cmd env buffer ptr p c cmd out = (rc, ptr', out')
   \<Longrightarrow> \<exists>new. out' = out @ new \<and> (rc = OK \<longrightarrow> cmds_of new = [cmd] \<and> ptr' = ptr + 20)
          \<and> (rc \<noteq> OK \<longrightarrow> rc = ERR EFAULT \<and> (cmds_of new = [] \<or> cmds_of new = [cmd]) \<and> ptr' = ptr)"
  by (auto simp: binder_put_node_cmd_def put_user_def split: if_splits)






subsection \<open>The context manager slot\<close>

text \<open>Nothing that \<open>binder_deferred_release\<close> calls after its first step writes a context.\<close>

named_theorems ctx_frame

lemma update_ctx [ctx_frame]:
  "proc_update p f s = Some s' \<Longrightarrow> h_contexts s' = h_contexts s"
  "thread_update t g s = Some s' \<Longrightarrow> h_contexts s' = h_contexts s"
  "node_update n h s = Some s' \<Longrightarrow> h_contexts s' = h_contexts s"
  "ref_update r i s = Some s' \<Longrightarrow> h_contexts s' = h_contexts s"
  "death_update d j s = Some s' \<Longrightarrow> h_contexts s' = h_contexts s"
  "transaction_update x k s = Some s' \<Longrightarrow> h_contexts s' = h_contexts s"
  "buffer_update b l s = Some s' \<Longrightarrow> h_contexts s' = h_contexts s"
  by (auto simp: proc_update_def thread_update_def node_update_def ref_update_def
        death_update_def transaction_update_def buffer_update_def split: bind_splits)

lemma set_list_ctx [ctx_frame]: "set_list l ws s = Some s' \<Longrightarrow> h_contexts s' = h_contexts s"
  by (auto simp: set_list_def split: work_list.splits dest: update_ctx)

lemma set_work_entry_ctx [ctx_frame]:
  "set_work_entry w e s = Some s' \<Longrightarrow> h_contexts s' = h_contexts s"
  by (auto simp: set_work_entry_def split: binder_work.splits bind_splits dest: update_ctx)

lemma binder_enqueue_work_ilocked_ctx [ctx_frame]:
  "binder_enqueue_work_ilocked w l s = Some s' \<Longrightarrow> h_contexts s' = h_contexts s"
  by (auto simp: binder_enqueue_work_ilocked_def split: option.splits bind_splits if_splits
      dest!: set_list_ctx set_work_entry_ctx)

lemma binder_dequeue_work_ilocked_ctx [ctx_frame]:
  "binder_dequeue_work_ilocked w s = Some s' \<Longrightarrow> h_contexts s' = h_contexts s"
  by (auto simp: binder_dequeue_work_ilocked_def split: option.splits bind_splits if_splits
      dest!: set_list_ctx set_work_entry_ctx)

lemma binder_dequeue_work_head_ilocked_ctx [ctx_frame]:
  "binder_dequeue_work_head_ilocked l s = Some (w, s') \<Longrightarrow> h_contexts s' = h_contexts s"
  by (auto simp: binder_dequeue_work_head_ilocked_def split: list.splits bind_splits if_splits
      dest!: set_list_ctx set_work_entry_ctx)

lemma binder_free_node_ctx [simp]: "h_contexts (binder_free_node n s) = h_contexts s"
  by (simp add: binder_free_node_def)

lemma binder_user_error_ctx [simp]: "h_contexts (binder_user_error s) = h_contexts s"
  by (simp add: binder_user_error_def)

lemma binder_inc_node_tmpref_ctx [ctx_frame]:
  "binder_inc_node_tmpref n s = Some s' \<Longrightarrow> h_contexts s' = h_contexts s"
  by (auto simp: binder_inc_node_tmpref_def binder_inc_node_tmpref_ilocked_def dest: update_ctx)

lemma binder_dec_node_nilocked_ctx [ctx_frame]:
  "binder_dec_node_nilocked n st i s = Some (b, s') \<Longrightarrow> h_contexts s' = h_contexts s"
  unfolding binder_dec_node_nilocked_def
  by (auto split: bind_splits if_splits option.splits
      dest!: ctx_frame)

lemma binder_dec_node_ctx [ctx_frame]:
  "binder_dec_node n st i s = Some s' \<Longrightarrow> h_contexts s' = h_contexts s"
  by (auto simp: binder_dec_node_def split: bind_splits if_splits dest!: ctx_frame)

lemma binder_dec_node_tmpref_ctx [ctx_frame]:
  "binder_dec_node_tmpref n s = Some s' \<Longrightarrow> h_contexts s' = h_contexts s"
  by (auto simp: binder_dec_node_tmpref_def split: bind_splits if_splits dest!: ctx_frame)

lemma binder_put_node_ctx [ctx_frame]:
  "binder_put_node n s = Some s' \<Longrightarrow> h_contexts s' = h_contexts s"
  by (auto simp: binder_put_node_def dest!: ctx_frame)

lemma binder_cleanup_ref_ctx [ctx_frame]:
  "binder_cleanup_ref r s = Some s' \<Longrightarrow> h_contexts s' = h_contexts s"
  unfolding binder_cleanup_ref_def
  by (auto split: bind_splits if_splits option.splits dest!: ctx_frame)

lemma binder_free_ref_ctx [ctx_frame]:
  "binder_free_ref r s = Some s' \<Longrightarrow> h_contexts s' = h_contexts s"
  by (auto simp: binder_free_ref_def Let_def split: bind_splits option.splits)

lemma binder_pop_transaction_ctx [ctx_frame]:
  "binder_pop_transaction th t s = Some s' \<Longrightarrow> h_contexts s' = h_contexts s"
  by (auto simp: binder_pop_transaction_def split: bind_splits if_splits dest!: ctx_frame)

lemma binder_alloc_deferred_release_ctx [ctx_frame]:
  "binder_alloc_deferred_release p s = Some s' \<Longrightarrow> h_contexts s' = h_contexts s"
  by (auto simp: binder_alloc_deferred_release_def Let_def split: bind_splits dest!: ctx_frame)

lemma binder_free_proc_ctx [ctx_frame]:
  "binder_free_proc p s = Some s' \<Longrightarrow> h_contexts s' = h_contexts s"
  by (auto simp: binder_free_proc_def split: bind_splits if_splits dest!: ctx_frame)

lemma binder_proc_dec_tmpref_ctx [ctx_frame]:
  "binder_proc_dec_tmpref p s = Some s' \<Longrightarrow> h_contexts s' = h_contexts s"
  by (auto simp: binder_proc_dec_tmpref_def split: bind_splits if_splits dest!: ctx_frame)

lemma binder_free_thread_ctx [ctx_frame]:
  "binder_free_thread t s = Some s' \<Longrightarrow> h_contexts s' = h_contexts s"
  by (auto simp: binder_free_thread_def split: bind_splits if_splits dest!: ctx_frame)

lemma binder_thread_dec_tmpref_ctx [ctx_frame]:
  "binder_thread_dec_tmpref t s = Some s' \<Longrightarrow> h_contexts s' = h_contexts s"
  by (auto simp: binder_thread_dec_tmpref_def split: bind_splits if_splits dest!: ctx_frame)

lemma binder_get_txn_from_ctx [ctx_frame]:
  "binder_get_txn_from t s = Some (r, s') \<Longrightarrow> h_contexts s' = h_contexts s"
  by (auto simp: binder_get_txn_from_def split: bind_splits option.splits dest!: ctx_frame)

lemma binder_free_transaction_ctx [ctx_frame]:
  "binder_free_transaction t s = Some s' \<Longrightarrow> h_contexts s' = h_contexts s"
  by (auto simp: binder_free_transaction_def split: bind_splits option.splits dest!: ctx_frame)

lemma binder_send_failed_reply_loop_ctx [ctx_frame]:
  "binder_send_failed_reply_loop t e s = Some s' \<Longrightarrow> h_contexts s' = h_contexts s"
proof (induction rule: binder_send_failed_reply_loop.raw_induct[rotated 1, consumes 1])
  case 1
  then show ?case
    by (auto split: bind_splits option.splits if_splits dest!: ctx_frame)
qed

lemma binder_send_failed_reply_ctx [ctx_frame]:
  "binder_send_failed_reply t e s = Some s' \<Longrightarrow> h_contexts s' = h_contexts s"
  by (auto simp: binder_send_failed_reply_def split: bind_splits if_splits dest!: ctx_frame)

lemma binder_release_work_ctx [ctx_frame]:
  "binder_release_work l s = Some s' \<Longrightarrow> h_contexts s' = h_contexts s"
proof (induction rule: binder_release_work.raw_induct[rotated 1, consumes 1])
  case 1
  then show ?case
    by (auto split: bind_splits option.splits if_splits binder_work.splits dest!: ctx_frame)
qed

lemma binder_thread_release_loop_ctx_snd:
  "binder_thread_release_loop th t n s = Some r \<Longrightarrow> h_contexts (snd r) = h_contexts s"
proof (induction rule: binder_thread_release_loop.raw_induct[rotated 1, consumes 1])
  case 1
  then show ?case
    by (auto split: bind_splits option.splits if_splits dest!: ctx_frame)
qed

lemma binder_thread_release_loop_ctx [ctx_frame]:
  "binder_thread_release_loop th t n s = Some (m, s') \<Longrightarrow> h_contexts s' = h_contexts s"
  by (drule binder_thread_release_loop_ctx_snd) simp

lemma binder_thread_release_ctx [ctx_frame]:
  "binder_thread_release p t s = Some (m, s') \<Longrightarrow> h_contexts s' = h_contexts s"
  unfolding binder_thread_release_def
  by (auto split: bind_splits option.splits if_splits dest!: ctx_frame)

lemma binder_node_release_refs_ctx [ctx_frame]:
  "binder_node_release_refs rs n s = Some (m, s') \<Longrightarrow> h_contexts s' = h_contexts s"
  by (induction rs n s rule: binder_node_release_refs.induct)
     (auto split: bind_splits option.splits if_splits dest!: ctx_frame)

lemma binder_node_release_ctx [ctx_frame]:
  "binder_node_release n r s = Some (m, s') \<Longrightarrow> h_contexts s' = h_contexts s"
  unfolding binder_node_release_def
  by (auto simp: Let_def split: bind_splits option.splits if_splits dest!: ctx_frame)

lemma binder_deferred_release_threads_ctx [ctx_frame]:
  "binder_deferred_release_threads p s = Some s' \<Longrightarrow> h_contexts s' = h_contexts s"
proof (induction rule: binder_deferred_release_threads.raw_induct[rotated 1, consumes 1])
  case 1
  then show ?case
    by (auto split: bind_splits list.splits dest!: ctx_frame)
qed

lemma binder_deferred_release_nodes_ctx [ctx_frame]:
  "binder_deferred_release_nodes p n s = Some s' \<Longrightarrow> h_contexts s' = h_contexts s"
proof (induction rule: binder_deferred_release_nodes.raw_induct[rotated 1, consumes 1])
  case 1
  then show ?case
    by (auto split: bind_splits list.splits dest!: ctx_frame)
qed

lemma binder_deferred_release_refs_ctx [ctx_frame]:
  "binder_deferred_release_refs p s = Some s' \<Longrightarrow> h_contexts s' = h_contexts s"
proof (induction rule: binder_deferred_release_refs.raw_induct[rotated 1, consumes 1])
  case 1
  then show ?case
    by (auto split: bind_splits list.splits dest!: ctx_frame)
qed







subsection \<open>Commands that are not supported\<close>

text \<open>
  Claim C8. When the loop of \<open>binder_thread_write\<close> reads the command word
  \<open>BC_ATTEMPT_ACQUIRE\<close>, \<open>BC_ACQUIRE_RESULT\<close> or a word that is no command, the call returns
  \<open>-EINVAL\<close> at once: the store and \<open>*consumed\<close> stay as the commands before left them, and
  nothing behind the word is read.
\<close>

theorem binder_thread_write_unsupported_command:
  assumes th: "h_threads s thread = Some th"
    and more: "ptr < size'" and ok: "return_error_cmd th = BR_OK"
    and cmd: "get_user_cmd env (buffer + ptr) = Some cmd"
    and un: "cmd = BC_ATTEMPT_ACQUIRE \<or> cmd = BC_ACQUIRE_RESULT \<or> (\<exists>v. cmd = BC_OTHER v)"
  shows "binder_thread_write_loop env proc thread buffer size' ptr consumed s
           = Some (ERR EINVAL, consumed, s)"
proof -
  have "binder_thread_write_cmd env proc thread cmd buffer (ptr + 4) s
          = Some (Write_return (ERR EINVAL), s)"
    using un by (auto simp: binder_thread_write_cmd_def)
  then show ?thesis
    using th more ok cmd by (subst binder_thread_write_loop.simps) simp
qed

theorem binder_thread_write_unsupported_command_witness:
  "binder_thread_write_loop c8_env 1 5 0 8 4 0 c8_state = Some (ERR EINVAL, 0, c8_state)
   \<and> map_option (\<lambda>(rc, consumed, s'). (rc, consumed, map_option looper (h_threads s' 5)))
        (binder_thread_write c8_env 1 5 0 8 0 c8_state)
       = Some (ERR EINVAL, 4, Some BINDER_LOOPER_STATE_ENTERED)"
proof -
  have th: "h_threads c8_state 5 = Some ((empty_thread 1 7)\<lparr>looper := 0\<rparr>)"
    by (simp add: c8_state_def empty_state_def)
  have ok: "return_error_cmd ((empty_thread 1 7)\<lparr>looper := 0\<rparr>) = BR_OK"
    by (simp add: empty_thread_def)
  have cmd: "get_user_cmd c8_env (0 + 4) = Some BC_ATTEMPT_ACQUIRE"
    by (simp add: c8_env_def permissive_env_def)
  have a: "binder_thread_write_loop c8_env 1 5 0 8 4 0 c8_state = Some (ERR EINVAL, 0, c8_state)"
    using binder_thread_write_unsupported_command[OF th _ ok cmd, of 8 1 0] by simp
  have b: "map_option (\<lambda>(rc, consumed, s'). (rc, consumed, map_option looper (h_threads s' 5)))
        (binder_thread_write c8_env 1 5 0 8 0 c8_state)
       = Some (ERR EINVAL, 4, Some BINDER_LOOPER_STATE_ENTERED)"
    by code_simp
  show ?thesis using a b by blast
qed

subsection \<open>Death notifications on the read side\<close>

lemma dequeue_head_thread_death:
  assumes th: "h_threads s thread = Some th" and todo: "thread_todo th = W_death d # rest"
    and death: "h_deaths s d = Some death"
  shows "binder_dequeue_work_head_ilocked (L_thread_todo thread) s
         = Some (Some (W_death d),
                 s\<lparr>h_threads := (h_threads s)(thread \<mapsto> th\<lparr>thread_todo := rest\<rparr>),
                   h_deaths := (h_deaths s)(d \<mapsto> death\<lparr>death_work_entry := None\<rparr>)\<rparr>)"
  using assms
  by (simp add: binder_dequeue_work_head_ilocked_def get_list_def set_list_def thread_update_def
        set_work_entry_def death_update_def)

lemma dequeue_head_proc_death:
  assumes pr: "h_procs s proc = Some pr" and todo: "proc_todo pr = W_death d # rest"
    and death: "h_deaths s d = Some death"
  shows "binder_dequeue_work_head_ilocked (L_proc_todo proc) s
         = Some (Some (W_death d),
                 s\<lparr>h_procs := (h_procs s)(proc \<mapsto> pr\<lparr>proc_todo := rest\<rparr>),
                   h_deaths := (h_deaths s)(d \<mapsto> death\<lparr>death_work_entry := None\<rparr>)\<rparr>)"
  using assms
  by (simp add: binder_dequeue_work_head_ilocked_def get_list_def set_list_def proc_update_def
        set_work_entry_def death_update_def)

lemma binder_thread_read_death_dead:
  assumes death: "h_deaths s d = Some death" and pr: "h_procs s proc = Some pr"
    and ty: "death_work_type death = Some BINDER_WORK_DEAD_BINDER
             \<or> death_work_type death = Some BINDER_WORK_DEAD_BINDER_AND_CLEAR"
    and e: "death_work_entry death = None"
    and ok: "put_user_ok env (buffer + ptr)" "put_user_ok env (buffer + (ptr + 4))"
  shows "binder_thread_read_death env proc d buffer ptr out s
         = Some (Read_done, ptr + 12,
                 out @ [(ptr, R_cmd BR_DEAD_BINDER), (ptr + 4, R_ptr (death_cookie death))],
                 s\<lparr>h_procs := (h_procs s)(proc \<mapsto> pr\<lparr>delivered_death := delivered_death pr @ [W_death d]\<rparr>),
                   h_deaths := (h_deaths s)(d \<mapsto> death\<lparr>death_work_entry := Some (L_delivered_death proc)\<rparr>)\<rparr>)"
  using assms
  by (auto simp: binder_thread_read_death_def put_user_def binder_enqueue_work_ilocked_def
        work_entry_def get_list_def set_list_def proc_update_def set_work_entry_def
        death_update_def Let_def)

lemma binder_thread_read_death_clear:
  assumes death: "h_deaths s d = Some death"
    and ty: "death_work_type death = Some BINDER_WORK_CLEAR_DEATH_NOTIFICATION"
    and ok: "put_user_ok env (buffer + ptr)" "put_user_ok env (buffer + (ptr + 4))"
  shows "binder_thread_read_death env proc d buffer ptr out s
         = Some (Read_continue, ptr + 12,
                 out @ [(ptr, R_cmd BR_CLEAR_DEATH_NOTIFICATION_DONE),
                        (ptr + 4, R_ptr (death_cookie death))],
                 s\<lparr>h_deaths := (h_deaths s)(d := None)\<rparr>)"
  using assms
  by (auto simp: binder_thread_read_death_def put_user_def Let_def)

lemma binder_thread_read_loop_death_thread_todo:
  assumes th: "h_threads s thread = Some th" and pr: "h_procs s proc = Some pr"
    and todo: "thread_todo th = W_death d # rest"
    and death: "h_deaths s d = Some death"
    and space: "\<not> (ptr \<le> size' \<and> size' - ptr < 68)"
    and ok: "put_user_ok env (buffer + ptr)" "put_user_ok env (buffer + (ptr + 4))"
  shows "(death_work_type death = Some BINDER_WORK_DEAD_BINDER
            \<or> death_work_type death = Some BINDER_WORK_DEAD_BINDER_AND_CLEAR
          \<longrightarrow> binder_thread_read_loop env proc thread buffer size' wait_for_proc_work ptr out s
              = Some (Read_done, ptr + 12,
                   out @ [(ptr, R_cmd BR_DEAD_BINDER), (ptr + 4, R_ptr (death_cookie death))],
                   s\<lparr>h_threads := (h_threads s)(thread \<mapsto> th\<lparr>thread_todo := rest\<rparr>),
                     h_procs := (h_procs s)(proc \<mapsto>
                        pr\<lparr>delivered_death := delivered_death pr @ [W_death d]\<rparr>),
                     h_deaths := (h_deaths s)(d \<mapsto>
                        death\<lparr>death_work_entry := Some (L_delivered_death proc)\<rparr>)\<rparr>))
       \<and> (death_work_type death = Some BINDER_WORK_CLEAR_DEATH_NOTIFICATION
          \<longrightarrow> binder_thread_read_loop env proc thread buffer size' wait_for_proc_work ptr out s
              = binder_thread_read_loop env proc thread buffer size' wait_for_proc_work (ptr + 12)
                  (out @ [(ptr, R_cmd BR_CLEAR_DEATH_NOTIFICATION_DONE),
                          (ptr + 4, R_ptr (death_cookie death))])
                  (s\<lparr>h_threads := (h_threads s)(thread \<mapsto> th\<lparr>thread_todo := rest\<rparr>),
                     h_deaths := (h_deaths s)(d := None)\<rparr>))"
proof (intro conjI impI)
  let ?s1 = "s\<lparr>h_threads := (h_threads s)(thread \<mapsto> th\<lparr>thread_todo := rest\<rparr>),
                   h_deaths := (h_deaths s)(d \<mapsto> death\<lparr>death_work_entry := None\<rparr>)\<rparr>"
  note deq = dequeue_head_thread_death[OF th todo death]
  have sp: "(ptr \<le> size' \<and> size' - ptr < 68) = False" using space by simp
  {
    assume ty: "death_work_type death = Some BINDER_WORK_DEAD_BINDER
            \<or> death_work_type death = Some BINDER_WORK_DEAD_BINDER_AND_CLEAR"
    have h: "binder_thread_read_death env proc d buffer ptr out ?s1
         = Some (Read_done, ptr + 12,
                 out @ [(ptr, R_cmd BR_DEAD_BINDER), (ptr + 4, R_ptr (death_cookie death))],
                 ?s1\<lparr>h_procs := (h_procs ?s1)(proc \<mapsto> pr\<lparr>delivered_death := delivered_death pr @ [W_death d]\<rparr>),
                   h_deaths := (h_deaths ?s1)(d \<mapsto> (death\<lparr>death_work_entry := None\<rparr>)\<lparr>death_work_entry := Some (L_delivered_death proc)\<rparr>)\<rparr>)"
      using binder_thread_read_death_dead[of ?s1 d "death\<lparr>death_work_entry := None\<rparr>" proc pr env buffer ptr out]
        pr ty ok by simp
    show "binder_thread_read_loop env proc thread buffer size' wait_for_proc_work ptr out s
              = Some (Read_done, ptr + 12,
                   out @ [(ptr, R_cmd BR_DEAD_BINDER), (ptr + 4, R_ptr (death_cookie death))],
                   s\<lparr>h_threads := (h_threads s)(thread \<mapsto> th\<lparr>thread_todo := rest\<rparr>),
                     h_procs := (h_procs s)(proc \<mapsto>
                        pr\<lparr>delivered_death := delivered_death pr @ [W_death d]\<rparr>),
                     h_deaths := (h_deaths s)(d \<mapsto>
                        death\<lparr>death_work_entry := Some (L_delivered_death proc)\<rparr>)\<rparr>)"
      apply (subst binder_thread_read_loop.simps)
      using th pr todo deq h
      by (simp add: binder_thread_read_work_def sp)
  }
  {
    assume ty: "death_work_type death = Some BINDER_WORK_CLEAR_DEATH_NOTIFICATION"
    have h: "binder_thread_read_death env proc d buffer ptr out ?s1
         = Some (Read_continue, ptr + 12,
                 out @ [(ptr, R_cmd BR_CLEAR_DEATH_NOTIFICATION_DONE),
                        (ptr + 4, R_ptr (death_cookie death))],
                 ?s1\<lparr>h_deaths := (h_deaths ?s1)(d := None)\<rparr>)"
      using binder_thread_read_death_clear[of ?s1 d "death\<lparr>death_work_entry := None\<rparr>" env buffer ptr proc out]
        ty ok by simp
    show "binder_thread_read_loop env proc thread buffer size' wait_for_proc_work ptr out s
              = binder_thread_read_loop env proc thread buffer size' wait_for_proc_work (ptr + 12)
                  (out @ [(ptr, R_cmd BR_CLEAR_DEATH_NOTIFICATION_DONE),
                          (ptr + 4, R_ptr (death_cookie death))])
                  (s\<lparr>h_threads := (h_threads s)(thread \<mapsto> th\<lparr>thread_todo := rest\<rparr>),
                     h_deaths := (h_deaths s)(d := None)\<rparr>)"
      apply (subst binder_thread_read_loop.simps)
      using th pr todo deq h
      by (simp add: binder_thread_read_work_def sp)
  }
qed

lemma binder_thread_read_loop_death_proc_todo:
  assumes th: "h_threads s thread = Some th" and pr: "h_procs s proc = Some pr"
    and empty: "thread_todo th = []" and wfpw: "wait_for_proc_work"
    and todo: "proc_todo pr = W_death d # rest"
    and death: "h_deaths s d = Some death"
    and space: "\<not> (ptr \<le> size' \<and> size' - ptr < 68)"
    and ok: "put_user_ok env (buffer + ptr)" "put_user_ok env (buffer + (ptr + 4))"
  shows "(death_work_type death = Some BINDER_WORK_DEAD_BINDER
            \<or> death_work_type death = Some BINDER_WORK_DEAD_BINDER_AND_CLEAR
          \<longrightarrow> binder_thread_read_loop env proc thread buffer size' wait_for_proc_work ptr out s
              = Some (Read_done, ptr + 12,
                   out @ [(ptr, R_cmd BR_DEAD_BINDER), (ptr + 4, R_ptr (death_cookie death))],
                   s\<lparr>h_procs := (h_procs s)(proc \<mapsto>
                        pr\<lparr>proc_todo := rest,
                           delivered_death := delivered_death pr @ [W_death d]\<rparr>),
                     h_deaths := (h_deaths s)(d \<mapsto>
                        death\<lparr>death_work_entry := Some (L_delivered_death proc)\<rparr>)\<rparr>))
       \<and> (death_work_type death = Some BINDER_WORK_CLEAR_DEATH_NOTIFICATION
          \<longrightarrow> binder_thread_read_loop env proc thread buffer size' wait_for_proc_work ptr out s
              = binder_thread_read_loop env proc thread buffer size' wait_for_proc_work (ptr + 12)
                  (out @ [(ptr, R_cmd BR_CLEAR_DEATH_NOTIFICATION_DONE),
                          (ptr + 4, R_ptr (death_cookie death))])
                  (s\<lparr>h_procs := (h_procs s)(proc \<mapsto> pr\<lparr>proc_todo := rest\<rparr>),
                     h_deaths := (h_deaths s)(d := None)\<rparr>))"
proof (intro conjI impI)
  let ?s1 = "s\<lparr>h_procs := (h_procs s)(proc \<mapsto> pr\<lparr>proc_todo := rest\<rparr>),
                   h_deaths := (h_deaths s)(d \<mapsto> death\<lparr>death_work_entry := None\<rparr>)\<rparr>"
  note deq = dequeue_head_proc_death[OF pr todo death]
  have sp: "(ptr \<le> size' \<and> size' - ptr < 68) = False" using space by simp
  {
    assume ty: "death_work_type death = Some BINDER_WORK_DEAD_BINDER
            \<or> death_work_type death = Some BINDER_WORK_DEAD_BINDER_AND_CLEAR"
    have h: "binder_thread_read_death env proc d buffer ptr out ?s1
         = Some (Read_done, ptr + 12,
                 out @ [(ptr, R_cmd BR_DEAD_BINDER), (ptr + 4, R_ptr (death_cookie death))],
                 ?s1\<lparr>h_procs := (h_procs ?s1)(proc \<mapsto> (pr\<lparr>proc_todo := rest\<rparr>)\<lparr>delivered_death := delivered_death pr @ [W_death d]\<rparr>),
                   h_deaths := (h_deaths ?s1)(d \<mapsto> (death\<lparr>death_work_entry := None\<rparr>)\<lparr>death_work_entry := Some (L_delivered_death proc)\<rparr>)\<rparr>)"
      using binder_thread_read_death_dead[of ?s1 d "death\<lparr>death_work_entry := None\<rparr>" proc
               "pr\<lparr>proc_todo := rest\<rparr>" env buffer ptr out]
        ty ok by simp
    show "binder_thread_read_loop env proc thread buffer size' wait_for_proc_work ptr out s
              = Some (Read_done, ptr + 12,
                   out @ [(ptr, R_cmd BR_DEAD_BINDER), (ptr + 4, R_ptr (death_cookie death))],
                   s\<lparr>h_procs := (h_procs s)(proc \<mapsto>
                        pr\<lparr>proc_todo := rest,
                           delivered_death := delivered_death pr @ [W_death d]\<rparr>),
                     h_deaths := (h_deaths s)(d \<mapsto>
                        death\<lparr>death_work_entry := Some (L_delivered_death proc)\<rparr>)\<rparr>)"
      apply (subst binder_thread_read_loop.simps)
      using th pr todo empty wfpw deq h
      by (simp add: binder_thread_read_work_def sp)
  }
  {
    assume ty: "death_work_type death = Some BINDER_WORK_CLEAR_DEATH_NOTIFICATION"
    have h: "binder_thread_read_death env proc d buffer ptr out ?s1
         = Some (Read_continue, ptr + 12,
                 out @ [(ptr, R_cmd BR_CLEAR_DEATH_NOTIFICATION_DONE),
                        (ptr + 4, R_ptr (death_cookie death))],
                 ?s1\<lparr>h_deaths := (h_deaths ?s1)(d := None)\<rparr>)"
      using binder_thread_read_death_clear[of ?s1 d "death\<lparr>death_work_entry := None\<rparr>" env buffer ptr proc out]
        ty ok by simp
    show "binder_thread_read_loop env proc thread buffer size' wait_for_proc_work ptr out s
              = binder_thread_read_loop env proc thread buffer size' wait_for_proc_work (ptr + 12)
                  (out @ [(ptr, R_cmd BR_CLEAR_DEATH_NOTIFICATION_DONE),
                          (ptr + 4, R_ptr (death_cookie death))])
                  (s\<lparr>h_procs := (h_procs s)(proc \<mapsto> pr\<lparr>proc_todo := rest\<rparr>),
                     h_deaths := (h_deaths s)(d := None)\<rparr>)"
      apply (subst binder_thread_read_loop.simps)
      using th pr todo empty wfpw deq h
      by (simp add: binder_thread_read_work_def sp)
  }
qed

text \<open>
  Claim C9. When the work item that a pass of the loop of \<open>binder_thread_read\<close> takes, from
  the thread's todo list or from the process's, is a death notification of type
  \<open>BINDER_WORK_DEAD_BINDER\<close> or \<open>BINDER_WORK_DEAD_BINDER_AND_CLEAR\<close>, the loop writes
  \<open>BR_DEAD_BINDER\<close> and the cookie, puts the item at the end of \<open>delivered_death\<close> and
  ends (\<open>goto done\<close>) with the rest of the list still queued. For an item of type
  \<open>BINDER_WORK_CLEAR_DEATH_NOTIFICATION\<close> it writes
  \<open>BR_CLEAR_DEATH_NOTIFICATION_DONE\<close>, frees the registration and goes on with the rest.
\<close>

theorem binder_thread_read_dead_binder_stops:
  assumes th: "h_threads s thread = Some th" and pr: "h_procs s proc = Some pr"
    and sel: "(thread_todo th = W_death d # rest \<and> l = L_thread_todo thread)
              \<or> (thread_todo th = [] \<and> wait_for_proc_work \<and> proc_todo pr = W_death d # rest
                  \<and> l = L_proc_todo proc)"
    and death: "h_deaths s d = Some death"
    and space: "\<not> (ptr \<le> size' \<and> size' - ptr < 68)"
    and ok: "put_user_ok env (buffer + ptr)" "put_user_ok env (buffer + (ptr + 4))"
  shows "(death_work_type death = Some BINDER_WORK_DEAD_BINDER
            \<or> death_work_type death = Some BINDER_WORK_DEAD_BINDER_AND_CLEAR
          \<longrightarrow> (\<exists>s'. binder_thread_read_loop env proc thread buffer size' wait_for_proc_work ptr out s
                 = Some (Read_done, ptr + 12,
                     out @ [(ptr, R_cmd BR_DEAD_BINDER), (ptr + 4, R_ptr (death_cookie death))], s')
               \<and> get_list s' l = Some rest
               \<and> get_list s' (L_delivered_death proc) = Some (delivered_death pr @ [W_death d])
               \<and> work_entry s' (W_death d) = Some (Some (L_delivered_death proc))))
       \<and> (death_work_type death = Some BINDER_WORK_CLEAR_DEATH_NOTIFICATION
          \<longrightarrow> (\<exists>s'. binder_thread_read_loop env proc thread buffer size' wait_for_proc_work ptr out s
                 = binder_thread_read_loop env proc thread buffer size' wait_for_proc_work (ptr + 12)
                    (out @ [(ptr, R_cmd BR_CLEAR_DEATH_NOTIFICATION_DONE),
                            (ptr + 4, R_ptr (death_cookie death))]) s'
               \<and> get_list s' l = Some rest \<and> h_deaths s' d = None))"
  using sel
proof
  assume a: "thread_todo th = W_death d # rest \<and> l = L_thread_todo thread"
  note L = binder_thread_read_loop_death_thread_todo[OF th pr conjunct1[OF a] death space ok,
              of wait_for_proc_work out]
  show ?thesis
  proof (intro conjI impI)
    assume "death_work_type death = Some BINDER_WORK_DEAD_BINDER
            \<or> death_work_type death = Some BINDER_WORK_DEAD_BINDER_AND_CLEAR"
    with L show "\<exists>s'. binder_thread_read_loop env proc thread buffer size' wait_for_proc_work ptr out s
                 = Some (Read_done, ptr + 12,
                     out @ [(ptr, R_cmd BR_DEAD_BINDER), (ptr + 4, R_ptr (death_cookie death))], s')
               \<and> get_list s' l = Some rest
               \<and> get_list s' (L_delivered_death proc) = Some (delivered_death pr @ [W_death d])
               \<and> work_entry s' (W_death d) = Some (Some (L_delivered_death proc))"
      using a by (simp add: get_list_def work_entry_def)
  next
    assume "death_work_type death = Some BINDER_WORK_CLEAR_DEATH_NOTIFICATION"
    with L show "\<exists>s'. binder_thread_read_loop env proc thread buffer size' wait_for_proc_work ptr out s
                 = binder_thread_read_loop env proc thread buffer size' wait_for_proc_work (ptr + 12)
                    (out @ [(ptr, R_cmd BR_CLEAR_DEATH_NOTIFICATION_DONE),
                            (ptr + 4, R_ptr (death_cookie death))]) s'
               \<and> get_list s' l = Some rest \<and> h_deaths s' d = None"
      using a
      by (intro exI[of _ "s\<lparr>h_threads := (h_threads s)(thread \<mapsto> th\<lparr>thread_todo := rest\<rparr>),
                     h_deaths := (h_deaths s)(d := None)\<rparr>"]) (simp add: get_list_def)
  qed
next
  assume a: "thread_todo th = [] \<and> wait_for_proc_work \<and> proc_todo pr = W_death d # rest
                  \<and> l = L_proc_todo proc"
  then have e: "thread_todo th = []" and w: "wait_for_proc_work"
    and t: "proc_todo pr = W_death d # rest" and l: "l = L_proc_todo proc" by auto
  note L = binder_thread_read_loop_death_proc_todo[OF th pr e w t death space ok, of out]
  show ?thesis
  proof (intro conjI impI)
    assume "death_work_type death = Some BINDER_WORK_DEAD_BINDER
            \<or> death_work_type death = Some BINDER_WORK_DEAD_BINDER_AND_CLEAR"
    with L show "\<exists>s'. binder_thread_read_loop env proc thread buffer size' wait_for_proc_work ptr out s
                 = Some (Read_done, ptr + 12,
                     out @ [(ptr, R_cmd BR_DEAD_BINDER), (ptr + 4, R_ptr (death_cookie death))], s')
               \<and> get_list s' l = Some rest
               \<and> get_list s' (L_delivered_death proc) = Some (delivered_death pr @ [W_death d])
               \<and> work_entry s' (W_death d) = Some (Some (L_delivered_death proc))"
      using l by (simp add: get_list_def work_entry_def)
  next
    assume "death_work_type death = Some BINDER_WORK_CLEAR_DEATH_NOTIFICATION"
    with L show "\<exists>s'. binder_thread_read_loop env proc thread buffer size' wait_for_proc_work ptr out s
                 = binder_thread_read_loop env proc thread buffer size' wait_for_proc_work (ptr + 12)
                    (out @ [(ptr, R_cmd BR_CLEAR_DEATH_NOTIFICATION_DONE),
                            (ptr + 4, R_ptr (death_cookie death))]) s'
               \<and> get_list s' l = Some rest \<and> h_deaths s' d = None"
      using l
      by (intro exI[of _ "s\<lparr>h_procs := (h_procs s)(proc \<mapsto> pr\<lparr>proc_todo := rest\<rparr>),
                     h_deaths := (h_deaths s)(d := None)\<rparr>"]) (simp add: get_list_def)
  qed
qed

theorem binder_thread_read_dead_binder_stops_witness:
  "(\<exists>s'. binder_thread_read_loop permissive_env 1 5 0 256 False 4 [(0, R_cmd BR_NOOP)] c9_state
         = Some (Read_done, 16,
                 [(0, R_cmd BR_NOOP), (4, R_cmd BR_DEAD_BINDER), (8, R_ptr 0xAA)], s')
       \<and> get_list s' (L_thread_todo 5) = Some [W_tcomplete 60]
       \<and> get_list s' (L_delivered_death 1) = Some [W_death 50])
   \<and> map_option (\<lambda>(rc, consumed, out, s'). (rc, consumed, cmds_of out, get_list s' (L_thread_todo 5)))
        (binder_thread_read permissive_env 1 5 0 256 0 True c9_state)
       = Some (OK, 16, [BR_NOOP, BR_DEAD_BINDER], Some [W_tcomplete 60])"
proof -
  define th where "th = (empty_thread 1 7)\<lparr>thread_todo := [W_death 50, W_tcomplete 60]\<rparr>"
  define pr where "pr = (empty_proc 1 0)\<lparr>proc_threads := [5], refs_by_desc := [10],
                            refs_by_node := [10]\<rparr>"
  define death where "death = \<lparr>death_work_entry = Some (L_thread_todo 5),
                            death_work_type = Some BINDER_WORK_DEAD_BINDER,
                            death_cookie = 0xAA\<rparr>"
  have hth: "h_threads c9_state 5 = Some th" and hpr: "h_procs c9_state 1 = Some pr"
    and hd: "h_deaths c9_state 50 = Some death"
    by (simp_all add: c9_state_def empty_state_def th_def pr_def death_def)
  have sel: "(thread_todo th = W_death 50 # [W_tcomplete 60] \<and> L_thread_todo 5 = L_thread_todo 5)
              \<or> (thread_todo th = [] \<and> False \<and> proc_todo pr = W_death 50 # [W_tcomplete 60]
                  \<and> L_thread_todo 5 = L_proc_todo 1)"
    by (simp add: th_def)
  have ok: "put_user_ok permissive_env (0 + 4)" "put_user_ok permissive_env (0 + (4 + 4))"
    by (simp_all add: permissive_env_def)
  have space: "\<not> ((4::nat) \<le> 256 \<and> (256::nat) - 4 < 68)" by simp
  have ty: "death_work_type death = Some BINDER_WORK_DEAD_BINDER" by (simp add: death_def)
  have dd: "delivered_death pr = []" "death_cookie death = 0xAA"
    by (simp_all add: pr_def empty_proc_def death_def)
  have a: "\<exists>s'. binder_thread_read_loop permissive_env 1 5 0 256 False 4 [(0, R_cmd BR_NOOP)] c9_state
         = Some (Read_done, 16,
                 [(0, R_cmd BR_NOOP), (4, R_cmd BR_DEAD_BINDER), (8, R_ptr 0xAA)], s')
       \<and> get_list s' (L_thread_todo 5) = Some [W_tcomplete 60]
       \<and> get_list s' (L_delivered_death 1) = Some [W_death 50]"
    using binder_thread_read_dead_binder_stops[OF hth hpr sel hd space ok, of "[(0, R_cmd BR_NOOP)]"]
      ty dd by auto
  have b: "map_option (\<lambda>(rc, consumed, out, s'). (rc, consumed, cmds_of out, get_list s' (L_thread_todo 5)))
        (binder_thread_read permissive_env 1 5 0 256 0 True c9_state)
       = Some (OK, 16, [BR_NOOP, BR_DEAD_BINDER], Some [W_tcomplete 60])"
    by code_simp
  show ?thesis using a b by blast
qed

subsection \<open>Reference counts by handle\<close>













end
